theory Spec2Isabelle
  imports Main "HOL-Library.Word" "HOL-Library.Sublist"
begin

unbundle bit_operations_syntax

section \<open>Data model of compiler/dex/quick/gen\_invoke.cc\<close>

text \<open>
  The file is the call-site code generator of the Quick backend.  Its functions do not
  compute values: they call the target's instruction emitter and the register allocator.
  The embedding therefore records every such call, in order, in a list (type \<open>lir\<close>);
  a function of the source that emits code takes the list built so far and returns the
  extended one.  A pointer to an emitted instruction (\<open>LIR*\<close>) is the position of the
  call that created it in that list.  A failed \<open>CHECK\<close>, \<open>LOG(FATAL)\<close> or a read
  outside an array ends the compilation: the function returns \<open>Inl\<close> of an error.
  \<open>DCHECK\<close>s are compiled out of release builds and are not modelled.
\<close>

datatype error = CheckFailed | LogFatal | OutOfBounds

text \<open>The instruction sets this file tells apart.\<close>

datatype InstructionSet = kThumb2 | kMips | kX86

datatype InvokeType = kStatic | kDirect | kVirtual | kSuper | kInterface

datatype SpecialTargetRegister =
    kSelf | kSp | kArg0 | kArg1 | kArg2 | kArg3
  | kFArg0 | kFArg1 | kFArg2 | kFArg3
  | kInvokeTgt | kHiddenArg | kHiddenFpArg

datatype RegLocationType = kLocDalvikFrame | kLocPhysReg | kLocCompilerTemp | kLocInvalid

datatype RegStorage = k32BitSolo int | k64BitPair int int

fun GetReg :: "RegStorage \<Rightarrow> int" where
  "GetReg (k32BitSolo r) = r"
| "GetReg (k64BitPair lo hi) = lo"

text \<open>\<open>GetHighReg\<close> is meant for pairs only (the source guards it with a DCHECK).\<close>

fun GetHighReg :: "RegStorage \<Rightarrow> int" where
  "GetHighReg (k64BitPair lo hi) = hi"
| "GetHighReg (k32BitSolo r) = undefined"

record RegLocation =
  location :: RegLocationType
  wide :: bool
  is_const :: bool
  fp :: bool
  high_word :: bool
  home :: bool
  reg :: RegStorage
  s_reg_low :: int
  orig_sreg :: int

text \<open>
  A dex file is known by its address; \<open>uintptr_t\<close> and \<open>uint32_t\<close> are 32-bit
  words (this version of the backend compiles on and for 32-bit targets only, and
  hard-codes 4-byte pointers).
\<close>

record MethodReference =
  dex_file :: nat
  dex_method_index :: "32 word"

record CallInfo =
  num_arg_words :: int
  args :: "RegLocation list"
  result :: RegLocation
  opt_flags :: "32 word"
  invoke_type :: InvokeType
  is_range :: bool
  offset :: int
  mir :: nat

datatype QuickEntrypoint =
    pInvokeStaticTrampolineWithAccessCheck
  | pInvokeDirectTrampolineWithAccessCheck
  | pInvokeSuperTrampolineWithAccessCheck
  | pInvokeVirtualTrampolineWithAccessCheck
  | pInvokeInterfaceTrampolineWithAccessCheck
  | pMemcpy | pIndexOf | pStringCompareTo

datatype ThreadOffset = QUICK_ENTRYPOINT_OFFSET QuickEntrypoint | PeerOffset

datatype OpKind =
    kOpBlx | kOpAdd | kOpAdc | kOpSub | kOpCmp | kOpNeg | kOpLsr | kOpAsr
  | kOpXor | kOpAnd | kOpRev | kOpRevsh | kOpMov

datatype OpSize = kWord | kLong | kUnsignedHalf | kSignedHalf

datatype MoveType = kMovA128FP | kMovU128FP | kMovLo128FP | kMovHi128FP

datatype ConditionCode = kCondUge | kCondUlt | kCondGt | kCondEq

datatype RegisterClass = kCoreReg | kFPReg | kAnyReg

datatype MemBarrierKind = kLoadLoad | kStoreStore | kStoreLoad

datatype PseudoOpcode = kPseudoIntrinsicRetry | kPseudoTargetLabel

subsection \<open>The calls made to the emitter and the register allocator\<close>

text \<open>
  One constructor for each method of the backend that this file calls; the arguments are
  the call's arguments.  Registers, displacements and immediates are C \<open>int\<close>s, which
  this file only copies and compares (modelled as \<open>int\<close>).  An argument of type
  \<open>nat\<close> or \<open>nat option\<close> is a \<open>LIR*\<close> (\<open>None\<close> is the null pointer).
  The calls are grouped by the part of the backend they belong to.
\<close>

datatype mem_call =
    LoadConstant int int
  | LoadCodeAddress MethodReference InvokeType SpecialTargetRegister
  | LoadMethodAddress MethodReference InvokeType SpecialTargetRegister
  | LoadCurrMethodDirect int
  | LoadWordDisp int int int
  | StoreWordDisp int int int
  | StoreBaseDisp int int int OpSize
  | StoreBaseDispWide int int int int
  | LoadBaseDispWide int int int int int
  | LoadBaseIndexed int int int int OpSize
  | LoadBaseIndexedDisp int int int int int int OpSize int
  | StoreBaseIndexed int int int int OpSize
  | OpVldm int int
  | OpVstm int int
  | OpMovRegMem int int int MoveType
  | OpMovMemReg int int int MoveType

datatype value_call =
    LoadValueDirectFixed RegLocation int
  | LoadValueDirectWideFixed RegLocation int int
  | LoadValue RegLocation RegisterClass
  | LoadValueWide RegLocation RegisterClass
  | EvalLoc RegLocation RegisterClass bool
  | StoreValue RegLocation RegLocation
  | StoreValueWide RegLocation RegLocation
  | UpdateRawLoc RegLocation
  | UpdateLoc RegLocation
  | UpdateLocWide RegLocation
  | GetReturn bool
  | GetReturnWide bool

datatype op_call =
    OpRegCopy int int
  | OpRegCopyWide int int int int
  | OpReg OpKind int
  | OpMem OpKind int int
  | OpThreadMem OpKind ThreadOffset
  | OpRegThreadMem OpKind int ThreadOffset
  | OpRegReg OpKind int int
  | OpRegImm OpKind int int
  | OpRegMem OpKind int int int
  | OpRegRegImm OpKind int int int
  | OpRegRegReg OpKind int int int
  | CallWithLinkerFixup MethodReference InvokeType

datatype branch_call =
    OpCondBranch ConditionCode "nat option"
  | OpCmpImmBranch ConditionCode int int "nat option"
  | OpCmpMemImmBranch ConditionCode int int int int "nat option"
  | OpUnconditionalBranch nat
  | NewLIR0 PseudoOpcode
  | GenerateTargetLabel "nat option"
  | SetOpcode nat PseudoOpcode

datatype mark_call =
    GenNullCheck int "32 word"
  | MarkPossibleNullPointerException "32 word"
  | MarkSafepointPC nat
  | MarkLive int int
  | MarkGCCard int int
  | GenMemBarrier MemBarrierKind
  | SetDefMaskAll nat
  | SetMemRefType nat bool
  | AnnotateDalvikRegAccess nat int bool bool
  | ProcessedInvoke InvokeType int

datatype ralloc_call =
    LoadHelper ThreadOffset
  | AllocTemp
  | AllocTempDouble
  | FreeTemp int
  | ClobberCallerSave
  | LockCallTemps
  | FlushAllRegs
  | ResetRegPool
  | ResetDefTracking

text \<open>
  An intrinsic's launchpad (the class \<open>IntrinsicLaunchpadPath\<close>, a \<open>LIRSlowPath\<close>):
  the call it retries, its dex pc, the branch of the fast path that jumps to it
  (\<open>fromfast_\<close>) and the label to resume at (\<open>cont_\<close>, may be null).
\<close>

datatype IntrinsicLaunchpadPath = IntrinsicLaunchpadPath
  (lp_info: CallInfo) (lp_dex_pc: int) (lp_fromfast: "nat option") (lp_cont: "nat option")

datatype lir = Mem mem_call | Val value_call | Op op_call | Br branch_call
  | Mark mark_call | RA ralloc_call | AddSlowPath IntrinsicLaunchpadPath

subsection \<open>What the file consumes from the rest of the compiler\<close>

record CompilationUnit =
  instruction_set :: InstructionSet
  cu_dex_file :: nat
  num_ins :: int
  num_dalvik_registers :: int

datatype PromotionMap = PromotionMap
  (core_location: RegLocationType) (core_reg: int)
  (fp_location: RegLocationType) (FpReg: int)

text \<open>
  The field offsets of the runtime's objects, the size of the interface method table
  and the offsets of the entrypoints in the thread object come from headers that are
  not part of this file; they are parameters.  \<open>ArrayDataOffset n\<close> is
  \<open>mirror::Array::DataOffset(n).Int32Value()\<close>.
\<close>

record Layout =
  DexCacheResolvedMethodsOffset :: int
  EntryPointFromQuickCompiledCodeOffset :: int
  ClassOffset :: int
  VTableOffset :: int
  ImTableOffset :: int
  ArrayDataOffset :: "nat \<Rightarrow> int"
  kImtSize :: "32 word"
  StringValueOffset :: int
  StringCountOffset :: int
  StringOffsetOffset :: int
  Int32Value :: "ThreadOffset \<Rightarrow> int"
  NumMethodIds :: "nat \<Rightarrow> 32 word"

text \<open>
  What \<open>mir_graph_->GetMethodLoweringInfo(info->mir)\<close> knows of the callee.
\<close>

record MirMethodLoweringInfo =
  GetInvokeType :: InvokeType
  GetSharpType :: InvokeType
  FastPath :: bool
  StatsFlags :: int
  GetTargetMethod :: MethodReference
  VTableIndex :: "32 word"
  DirectCode :: "32 word"
  DirectMethod :: "32 word"

text \<open>Constants of headers that are not part of this file.\<close>

record Constants =
  INVALID_REG :: int
  INVALID_SREG :: int
  MIR_IGNORE_NULL_CHECK :: "32 word"
  MIR_IGNORE_RANGE_CHECK :: "32 word"

text \<open>
  The code generator object.  \<open>TargetReg\<close>, \<open>SRegOffset\<close> and
  \<open>GetArgMappingToPhysicalReg\<close> are the target's; \<open>promotion_map\<close> (the member \<open>promotion_map_\<close>) is the
  register allocator's decision for each virtual register.  What a call into the
  register allocator returns depends on the allocator's state, that is on the calls made
  before: \<open>ret_loc\<close> (for a call returning a \<open>RegLocation\<close>) and \<open>ret_reg\<close>
  (for a call returning a register) give the value returned by the last call of the list.
\<close>

record Mir2Lir =
  cu :: CompilationUnit
  layout :: Layout
  TargetReg :: "SpecialTargetRegister \<Rightarrow> int"
  SRegOffset :: "int \<Rightarrow> int"
  GetArgMappingToPhysicalReg :: "int \<Rightarrow> int"
  constants :: Constants
  promotion_map :: "PromotionMap list"
  ret_loc :: "lir list \<Rightarrow> RegLocation"
  ret_reg :: "lir list \<Rightarrow> int"
  ConstantValue :: "RegLocation \<Rightarrow> int"
  ConstantValue_sreg :: "int \<Rightarrow> int"
  GetMethodLoweringInfo :: "nat \<Rightarrow> MirMethodLoweringInfo"

definition isa :: "Mir2Lir \<Rightarrow> InstructionSet" where
  "isa cg = instruction_set (cu cg)"

text \<open>\<open>info->args[i]\<close>: a read outside the array is an error.\<close>

definition arg_at :: "CallInfo \<Rightarrow> nat \<Rightarrow> error + RegLocation" where
  "arg_at info i = (if i < length (args info) then Inr (args info ! i) else Inl OutOfBounds)"

section \<open>The dispatch-resolution state machine\<close>

text \<open>
  Each routine takes the step index \<open>state\<close> and the calls made so far, and returns
  the next step index (\<open>-1\<close> once the sequence is over) with the extended list.
  \<open>state + 1\<close> is only computed for the few states that emit, so it cannot overflow.
  The constant \<open>static_cast<unsigned int>(-1)\<close> is the word \<open>- 1\<close>.
\<close>

definition NextSDCallInsn ::
  "Mir2Lir \<Rightarrow> CallInfo \<Rightarrow> int \<Rightarrow> MethodReference \<Rightarrow> 32 word \<Rightarrow> 32 word \<Rightarrow> 32 word
   \<Rightarrow> InvokeType \<Rightarrow> lir list \<Rightarrow> error + (int \<times> lir list)" where
  "NextSDCallInsn cg info state target_method unused direct_code direct_method type c =
    (if direct_code \<noteq> 0 \<and> direct_method \<noteq> 0 then
       (if state = 0 then
          (let c1 = (if direct_code \<noteq> - 1 then
                       (if isa cg \<noteq> kX86
                        then c @ [Mem (LoadConstant (TargetReg cg kInvokeTgt) (sint direct_code))]
                        else c)
                     else if isa cg \<noteq> kX86
                        then c @ [Mem (LoadCodeAddress target_method type kInvokeTgt)]
                        else c);
               c2 = (if direct_method \<noteq> - 1
                     then c1 @ [Mem (LoadConstant (TargetReg cg kArg0) (sint direct_method))]
                     else c1 @ [Mem (LoadMethodAddress target_method type kArg0)])
           in Inr (state + 1, c2))
        else Inr (- 1, c))
     else
       (if state = 0 then
          Inr (state + 1, c @ [Mem (LoadCurrMethodDirect (TargetReg cg kArg0))])
        else if state = 1 then
          (let c1 = c @ [Mem (LoadWordDisp (TargetReg cg kArg0)
                               (DexCacheResolvedMethodsOffset (layout cg)) (TargetReg cg kArg0))]
           in if direct_code \<noteq> 0 then
                (if direct_code \<noteq> - 1 then
                   Inr (state + 1,
                        c1 @ [Mem (LoadConstant (TargetReg cg kInvokeTgt) (sint direct_code))])
                 else if isa cg \<noteq> kX86 then
                   (if dex_method_index target_method
                         < NumMethodIds (layout cg) (dex_file target_method)
                    then Inr (state + 1,
                              c1 @ [Mem (LoadCodeAddress target_method type kInvokeTgt)])
                    else Inl CheckFailed)
                 else Inr (state + 1, c1))
              else Inr (state + 1, c1))
        else if state = 2 then
          (if cu_dex_file (cu cg) = dex_file target_method then
             Inr (state + 1,
                  c @ [Mem (LoadWordDisp (TargetReg cg kArg0)
                         (sint (word_of_int (ArrayDataOffset (layout cg) 4)
                                + dex_method_index target_method * 4 :: 32 word))
                         (TargetReg cg kArg0))])
           else Inl CheckFailed)
        else if state = 3 then
          (if isa cg \<noteq> kX86 then
             Inr (state + 1,
                  if direct_code = 0
                  then c @ [Mem (LoadWordDisp (TargetReg cg kArg0)
                              (EntryPointFromQuickCompiledCodeOffset (layout cg))
                              (TargetReg cg kInvokeTgt))]
                  else c)
           else Inr (- 1, c))
        else Inr (- 1, c)))"

definition NextVCallInsn ::
  "Mir2Lir \<Rightarrow> CallInfo \<Rightarrow> int \<Rightarrow> MethodReference \<Rightarrow> 32 word \<Rightarrow> 32 word \<Rightarrow> 32 word
   \<Rightarrow> InvokeType \<Rightarrow> lir list \<Rightarrow> error + (int \<times> lir list)" where
  "NextVCallInsn cg info state target_method method_idx unused unused2 unused3 c =
    (if state = 0 then
       (case arg_at info 0 of
          Inl e \<Rightarrow> Inl e
        | Inr rl_arg \<Rightarrow>
            Inr (state + 1, c @ [Val (LoadValueDirectFixed rl_arg (TargetReg cg kArg1))]))
     else if state = 1 then
       Inr (state + 1,
            c @ [Mark (GenNullCheck (TargetReg cg kArg1) (opt_flags info)),
                 Mem (LoadWordDisp (TargetReg cg kArg1) (ClassOffset (layout cg))
                        (TargetReg cg kInvokeTgt)),
                 Mark (MarkPossibleNullPointerException (opt_flags info))])
     else if state = 2 then
       Inr (state + 1,
            c @ [Mem (LoadWordDisp (TargetReg cg kInvokeTgt) (VTableOffset (layout cg))
                        (TargetReg cg kInvokeTgt))])
     else if state = 3 then
       Inr (state + 1,
            c @ [Mem (LoadWordDisp (TargetReg cg kInvokeTgt)
                        (sint (method_idx * 4 + word_of_int (ArrayDataOffset (layout cg) 4)
                               :: 32 word))
                        (TargetReg cg kArg0))])
     else if state = 4 then
       (if isa cg \<noteq> kX86 then
          Inr (state + 1,
               c @ [Mem (LoadWordDisp (TargetReg cg kArg0)
                           (EntryPointFromQuickCompiledCodeOffset (layout cg))
                           (TargetReg cg kInvokeTgt))])
        else Inr (- 1, c))
     else Inr (- 1, c))"

definition NextInterfaceCallInsn ::
  "Mir2Lir \<Rightarrow> CallInfo \<Rightarrow> int \<Rightarrow> MethodReference \<Rightarrow> 32 word \<Rightarrow> 32 word \<Rightarrow> 32 word
   \<Rightarrow> InvokeType \<Rightarrow> lir list \<Rightarrow> error + (int \<times> lir list)" where
  "NextInterfaceCallInsn cg info state target_method method_idx unused direct_method unused2 c =
    (if state = 0 then
       (if dex_method_index target_method < NumMethodIds (layout cg) (dex_file target_method)
        then
          (let c1 = c @ [Mem (LoadConstant (TargetReg cg kHiddenArg)
                                (sint (dex_method_index target_method)))]
           in Inr (state + 1,
                   if isa cg = kX86
                   then c1 @ [Op (OpRegCopy (TargetReg cg kHiddenFpArg) (TargetReg cg kHiddenArg))]
                   else c1))
        else Inl CheckFailed)
     else if state = 1 then
       (case arg_at info 0 of
          Inl e \<Rightarrow> Inl e
        | Inr rl_arg \<Rightarrow>
            Inr (state + 1, c @ [Val (LoadValueDirectFixed rl_arg (TargetReg cg kArg1))]))
     else if state = 2 then
       Inr (state + 1,
            c @ [Mark (GenNullCheck (TargetReg cg kArg1) (opt_flags info)),
                 Mem (LoadWordDisp (TargetReg cg kArg1) (ClassOffset (layout cg))
                        (TargetReg cg kInvokeTgt)),
                 Mark (MarkPossibleNullPointerException (opt_flags info))])
     else if state = 3 then
       Inr (state + 1,
            c @ [Mem (LoadWordDisp (TargetReg cg kInvokeTgt) (ImTableOffset (layout cg))
                        (TargetReg cg kInvokeTgt))])
     else if state = 4 then
       Inr (state + 1,
            c @ [Mem (LoadWordDisp (TargetReg cg kInvokeTgt)
                        (sint ((method_idx mod kImtSize (layout cg)) * 4
                               + word_of_int (ArrayDataOffset (layout cg) 4) :: 32 word))
                        (TargetReg cg kArg0))])
     else if state = 5 then
       (if isa cg \<noteq> kX86 then
          Inr (state + 1,
               c @ [Mem (LoadWordDisp (TargetReg cg kArg0)
                           (EntryPointFromQuickCompiledCodeOffset (layout cg))
                           (TargetReg cg kInvokeTgt))])
        else Inr (- 1, c))
     else Inr (- 1, c))"

definition NextInvokeInsnSP ::
  "Mir2Lir \<Rightarrow> CallInfo \<Rightarrow> ThreadOffset \<Rightarrow> int \<Rightarrow> MethodReference \<Rightarrow> 32 word
   \<Rightarrow> lir list \<Rightarrow> error + (int \<times> lir list)" where
  "NextInvokeInsnSP cg info trampoline state target_method method_idx c =
    (if state = 0 then
       (let c1 = (if isa cg \<noteq> kX86
                  then c @ [Mem (LoadWordDisp (TargetReg cg kSelf)
                                   (Int32Value (layout cg) trampoline)
                                   (TargetReg cg kInvokeTgt))]
                  else c)
        in if cu_dex_file (cu cg) = dex_file target_method
           then Inr (1, c1 @ [Mem (LoadConstant (TargetReg cg kArg0)
                                     (sint (dex_method_index target_method)))])
           else Inl CheckFailed)
     else Inr (- 1, c))"

definition NextStaticCallInsnSP ::
  "Mir2Lir \<Rightarrow> CallInfo \<Rightarrow> int \<Rightarrow> MethodReference \<Rightarrow> 32 word \<Rightarrow> 32 word \<Rightarrow> 32 word
   \<Rightarrow> InvokeType \<Rightarrow> lir list \<Rightarrow> error + (int \<times> lir list)" where
  "NextStaticCallInsnSP cg info state target_method unused unused2 unused3 unused4 c =
    NextInvokeInsnSP cg info (QUICK_ENTRYPOINT_OFFSET pInvokeStaticTrampolineWithAccessCheck)
      state target_method 0 c"

definition NextDirectCallInsnSP ::
  "Mir2Lir \<Rightarrow> CallInfo \<Rightarrow> int \<Rightarrow> MethodReference \<Rightarrow> 32 word \<Rightarrow> 32 word \<Rightarrow> 32 word
   \<Rightarrow> InvokeType \<Rightarrow> lir list \<Rightarrow> error + (int \<times> lir list)" where
  "NextDirectCallInsnSP cg info state target_method unused unused2 unused3 unused4 c =
    NextInvokeInsnSP cg info (QUICK_ENTRYPOINT_OFFSET pInvokeDirectTrampolineWithAccessCheck)
      state target_method 0 c"

definition NextSuperCallInsnSP ::
  "Mir2Lir \<Rightarrow> CallInfo \<Rightarrow> int \<Rightarrow> MethodReference \<Rightarrow> 32 word \<Rightarrow> 32 word \<Rightarrow> 32 word
   \<Rightarrow> InvokeType \<Rightarrow> lir list \<Rightarrow> error + (int \<times> lir list)" where
  "NextSuperCallInsnSP cg info state target_method unused unused2 unused3 unused4 c =
    NextInvokeInsnSP cg info (QUICK_ENTRYPOINT_OFFSET pInvokeSuperTrampolineWithAccessCheck)
      state target_method 0 c"

definition NextVCallInsnSP ::
  "Mir2Lir \<Rightarrow> CallInfo \<Rightarrow> int \<Rightarrow> MethodReference \<Rightarrow> 32 word \<Rightarrow> 32 word \<Rightarrow> 32 word
   \<Rightarrow> InvokeType \<Rightarrow> lir list \<Rightarrow> error + (int \<times> lir list)" where
  "NextVCallInsnSP cg info state target_method unused unused2 unused3 unused4 c =
    NextInvokeInsnSP cg info (QUICK_ENTRYPOINT_OFFSET pInvokeVirtualTrampolineWithAccessCheck)
      state target_method 0 c"

definition NextInterfaceCallInsnWithAccessCheck ::
  "Mir2Lir \<Rightarrow> CallInfo \<Rightarrow> int \<Rightarrow> MethodReference \<Rightarrow> 32 word \<Rightarrow> 32 word \<Rightarrow> 32 word
   \<Rightarrow> InvokeType \<Rightarrow> lir list \<Rightarrow> error + (int \<times> lir list)" where
  "NextInterfaceCallInsnWithAccessCheck cg info state target_method unused unused2 unused3 unused4 c =
    NextInvokeInsnSP cg info (QUICK_ENTRYPOINT_OFFSET pInvokeInterfaceTrampolineWithAccessCheck)
      state target_method 0 c"

text \<open>
  The function pointer type \<open>NextCallInsn\<close>: the routines that \<open>GenInvokeNoInline\<close>
  can select, and the call through the pointer.
\<close>

datatype NextCallInsn =
    fnNextSDCallInsn | fnNextVCallInsn | fnNextInterfaceCallInsn
  | fnNextStaticCallInsnSP | fnNextDirectCallInsnSP | fnNextSuperCallInsnSP
  | fnNextVCallInsnSP | fnNextInterfaceCallInsnWithAccessCheck

fun next_call_insn ::
  "NextCallInsn \<Rightarrow> Mir2Lir \<Rightarrow> CallInfo \<Rightarrow> int \<Rightarrow> MethodReference \<Rightarrow> 32 word \<Rightarrow> 32 word
   \<Rightarrow> 32 word \<Rightarrow> InvokeType \<Rightarrow> lir list \<Rightarrow> error + (int \<times> lir list)" where
  "next_call_insn fnNextSDCallInsn = NextSDCallInsn"
| "next_call_insn fnNextVCallInsn = NextVCallInsn"
| "next_call_insn fnNextInterfaceCallInsn = NextInterfaceCallInsn"
| "next_call_insn fnNextStaticCallInsnSP = NextStaticCallInsnSP"
| "next_call_insn fnNextDirectCallInsnSP = NextDirectCallInsnSP"
| "next_call_insn fnNextSuperCallInsnSP = NextSuperCallInsnSP"
| "next_call_insn fnNextVCallInsnSP = NextVCallInsnSP"
| "next_call_insn fnNextInterfaceCallInsnWithAccessCheck = NextInterfaceCallInsnWithAccessCheck"

subsection \<open>A concrete backend, for evaluating the routines\<close>

definition example_TargetReg :: "SpecialTargetRegister \<Rightarrow> int" where
  "example_TargetReg r =
    (case r of kArg0 \<Rightarrow> 0 | kArg1 \<Rightarrow> 1 | kArg2 \<Rightarrow> 2 | kArg3 \<Rightarrow> 3
     | kSelf \<Rightarrow> 9 | kSp \<Rightarrow> 13 | kInvokeTgt \<Rightarrow> 14 | kHiddenArg \<Rightarrow> 12 | kHiddenFpArg \<Rightarrow> 40
     | kFArg0 \<Rightarrow> 32 | kFArg1 \<Rightarrow> 33 | kFArg2 \<Rightarrow> 34 | kFArg3 \<Rightarrow> 35)"

definition example_layout :: Layout where
  "example_layout =
    \<lparr> DexCacheResolvedMethodsOffset = 24, EntryPointFromQuickCompiledCodeOffset = 40,
      ClassOffset = 0, VTableOffset = 60, ImTableOffset = 56,
      ArrayDataOffset = (\<lambda>n. 12), kImtSize = 64,
      StringValueOffset = 8, StringCountOffset = 12, StringOffsetOffset = 20,
      Int32Value = (\<lambda>t. case t of PeerOffset \<Rightarrow> 120
                       | QUICK_ENTRYPOINT_OFFSET e \<Rightarrow> 400),
      NumMethodIds = (\<lambda>d. 100) \<rparr>"

definition example_loc :: RegLocation where
  "example_loc =
    \<lparr> location = kLocDalvikFrame, wide = False, is_const = False, fp = False,
      high_word = False, home = True, reg = k32BitSolo 0, s_reg_low = 0, orig_sreg = 0 \<rparr>"

text \<open>
  A register allocator for the examples: no value is live in a register, so the
  \<open>Update\<close> calls return their argument; \<open>LoadValue\<close> and \<open>EvalLoc\<close> place
  a value in fixed registers; the return value is in registers 0 and 1.
\<close>

definition example_ret_loc :: "lir list \<Rightarrow> RegLocation" where
  "example_ret_loc c =
    (if c = [] then example_loc
     else case last c of
         Val (UpdateRawLoc rl) \<Rightarrow> rl
       | Val (UpdateLoc rl) \<Rightarrow> rl
       | Val (UpdateLocWide rl) \<Rightarrow> rl
       | Val (LoadValue rl k) \<Rightarrow> rl\<lparr>location := kLocPhysReg, reg := k32BitSolo 4\<rparr>
       | Val (LoadValueWide rl k) \<Rightarrow> rl\<lparr>location := kLocPhysReg, reg := k64BitPair 4 5\<rparr>
       | Val (EvalLoc rl k u) \<Rightarrow>
           rl\<lparr>location := kLocPhysReg,
              reg := (if wide rl then k64BitPair 6 7 else k32BitSolo 6)\<rparr>
       | Val (GetReturnWide f) \<Rightarrow>
           example_loc\<lparr>location := kLocPhysReg, wide := True, reg := k64BitPair 0 1\<rparr>
       | _ \<Rightarrow> example_loc\<lparr>location := kLocPhysReg, reg := k32BitSolo 0\<rparr>)"

definition example_method :: MethodReference where
  "example_method = \<lparr> dex_file = 7, dex_method_index = 5 \<rparr>"

text \<open>The callee of the examples: a virtual method, not resolved at compile time.\<close>

definition example_method_info :: MirMethodLoweringInfo where
  "example_method_info =
    \<lparr> GetInvokeType = kVirtual, GetSharpType = kVirtual, FastPath = False, StatsFlags = 0,
      GetTargetMethod = example_method, VTableIndex = 3, DirectCode = 0, DirectMethod = 0 \<rparr>"

definition example_cg :: "InstructionSet \<Rightarrow> Mir2Lir" where
  "example_cg a =
    \<lparr> cu = \<lparr> instruction_set = a, cu_dex_file = 7, num_ins = 0, num_dalvik_registers = 8 \<rparr>,
      layout = example_layout,
      TargetReg = example_TargetReg,
      SRegOffset = (\<lambda>s. 4 * s + 16),
      GetArgMappingToPhysicalReg = (\<lambda>i. if 0 \<le> i \<and> i < 3 then i + 1 else 255),
      constants = \<lparr> INVALID_REG = 255, INVALID_SREG = - 1, MIR_IGNORE_NULL_CHECK = 1,
                 MIR_IGNORE_RANGE_CHECK = 4 \<rparr>,
      promotion_map = [],
      ret_loc = example_ret_loc,
      ret_reg = (\<lambda>c. 5),
      ConstantValue = (\<lambda>l. 0),
      ConstantValue_sreg = (\<lambda>s. 0),
      GetMethodLoweringInfo = (\<lambda>m. example_method_info) \<rparr>"

definition example_info :: CallInfo where
  "example_info =
    \<lparr> num_arg_words = 1, args = [example_loc], result = example_loc\<lparr>location := kLocInvalid\<rparr>,
      opt_flags = 0, invoke_type = kVirtual, is_range = False, offset = 0, mir = 0 \<rparr>"

text \<open>
  The state at which a fast-path routine loads the callee's compiled entry point from
  the method object (the last emitting state of the sequence), if it has one:
  state 3 of \<open>NextSDCallInsn\<close> unless code address and method are both known,
  state 4 of \<open>NextVCallInsn\<close>, state 5 of \<open>NextInterfaceCallInsn\<close>.
\<close>

definition entry_point_load_state :: "NextCallInsn \<Rightarrow> 32 word \<Rightarrow> 32 word \<Rightarrow> int option" where
  "entry_point_load_state f direct_code direct_method =
    (case f of
       fnNextSDCallInsn \<Rightarrow> if direct_code \<noteq> 0 \<and> direct_method \<noteq> 0 then None else Some 3
     | fnNextVCallInsn \<Rightarrow> Some 4
     | fnNextInterfaceCallInsn \<Rightarrow> Some 5
     | _ \<Rightarrow> None)"

lemmas Next_defs = NextSDCallInsn_def NextVCallInsn_def NextInterfaceCallInsn_def
  NextInvokeInsnSP_def NextStaticCallInsnSP_def NextDirectCallInsnSP_def
  NextSuperCallInsnSP_def NextVCallInsnSP_def NextInterfaceCallInsnWithAccessCheck_def

text \<open>The step index a routine returns, for every routine and state.\<close>

lemma next_state_cases:
  assumes "next_call_insn f cg info state tm idx dc dm ty c = Inr (s, c')"
  shows "s = (if state < 0 then - 1
              else if entry_point_load_state f dc dm = Some state
                   then (if isa cg = kX86 then - 1 else state + 1)
              else case f of
                    fnNextSDCallInsn \<Rightarrow>
                      if dc \<noteq> 0 \<and> dm \<noteq> 0 then (if state = 0 then 1 else - 1)
                      else if state \<le> 2 then state + 1 else - 1
                  | fnNextVCallInsn \<Rightarrow> if state \<le> 3 then state + 1 else - 1
                  | fnNextInterfaceCallInsn \<Rightarrow> if state \<le> 4 then state + 1 else - 1
                  | _ \<Rightarrow> if state = 0 then 1 else - 1)"
  using assms
  by (cases f) (auto simp: Next_defs entry_point_load_state_def Let_def split: if_splits sum.splits)

section \<open>Redistribution of the incoming arguments: \<open>FlushIns\<close>\<close>

text \<open>
  \<open>promotion_map_[k]\<close> and \<open>ArgLocs[i]\<close>: a read outside the array is an error.
\<close>

definition pmap_at :: "Mir2Lir \<Rightarrow> int \<Rightarrow> error + PromotionMap" where
  "pmap_at cg k =
    (if 0 \<le> k \<and> nat k < length (promotion_map cg)
     then Inr (promotion_map cg ! nat k) else Inl OutOfBounds)"

definition loc_at :: "RegLocation list \<Rightarrow> int \<Rightarrow> error + RegLocation" where
  "loc_at locs i =
    (if 0 \<le> i \<and> nat i < length locs then Inr (locs ! nat i) else Inl OutOfBounds)"

text \<open>
  The block \<open>if (t_loc->wide) { ... }\<close> of the loop body: the value of
  \<open>need_flush\<close> after it, given its value before.  \<open>p_map\<close> is the entry of the
  other half of the wide argument.
\<close>

definition FlushIns_wide_need_flush ::
  "Mir2Lir \<Rightarrow> int \<Rightarrow> int \<Rightarrow> RegLocation \<Rightarrow> PromotionMap \<Rightarrow> bool \<Rightarrow> error + bool" where
  "FlushIns_wide_need_flush cg start_vreg i t_loc v_map need_flush0 =
    (case pmap_at cg (start_vreg + i + (if high_word t_loc then - 1 else 1)) of
       Inl e \<Rightarrow> Inl e
     | Inr p_map \<Rightarrow>
        (let need_flush = (need_flush0 \<or> core_location p_map \<noteq> core_location v_map
                             \<or> fp_location p_map \<noteq> fp_location v_map)
         in if isa cg = kThumb2 \<and> fp t_loc \<and> \<not> need_flush then
              (let lowreg_index = start_vreg + i + (if high_word t_loc then - 1 else 0)
               in case pmap_at cg lowreg_index of
                    Inl e \<Rightarrow> Inl e
                  | Inr lo \<Rightarrow>
                     (case pmap_at cg (lowreg_index + 1) of
                        Inl e \<Rightarrow> Inl e
                      | Inr hi \<Rightarrow>
                         (let low_reg = FpReg lo; high_reg = FpReg hi
                          in Inr (if (low_reg AND 1) \<noteq> 0 \<or> high_reg \<noteq> low_reg + 1
                                  then True else need_flush))))
            else Inr need_flush))"

text \<open>The body of the loop over the incoming argument words, for the word \<open>i\<close>.\<close>

definition FlushIns_arg ::
  "Mir2Lir \<Rightarrow> RegLocation list \<Rightarrow> int \<Rightarrow> int \<Rightarrow> lir list \<Rightarrow> error + lir list" where
  "FlushIns_arg cg ArgLocs start_vreg i c =
    (case pmap_at cg (start_vreg + i) of
       Inl e \<Rightarrow> Inl e
     | Inr v_map \<Rightarrow>
        (let r = GetArgMappingToPhysicalReg cg i in
         if r \<noteq> INVALID_REG (constants cg) then
           (case loc_at ArgLocs i of
              Inl e \<Rightarrow> Inl e
            | Inr t_loc \<Rightarrow>
               (let (need_flush0, c1) =
                      (if core_location v_map = kLocPhysReg \<and> \<not> fp t_loc
                         then (False, c @ [Op (OpRegCopy (core_reg v_map) r)])
                       else if fp_location v_map = kLocPhysReg \<and> fp t_loc
                         then (False, c @ [Op (OpRegCopy (FpReg v_map) r)])
                       else (True, c))
                in case (if wide t_loc
                         then FlushIns_wide_need_flush cg start_vreg i t_loc v_map need_flush0
                         else Inr need_flush0) of
                     Inl e \<Rightarrow> Inl e
                   | Inr need_flush \<Rightarrow>
                       Inr (if need_flush
                            then c1 @ [Mem (StoreBaseDisp (TargetReg cg kSp)
                                              (SRegOffset cg (start_vreg + i)) r kWord)]
                            else c1)))
         else
           (let c1 = (if core_location v_map = kLocPhysReg
                      then c @ [Mem (LoadWordDisp (TargetReg cg kSp)
                                       (SRegOffset cg (start_vreg + i)) (core_reg v_map))]
                      else c);
                c2 = (if fp_location v_map = kLocPhysReg
                      then c1 @ [Mem (LoadWordDisp (TargetReg cg kSp)
                                        (SRegOffset cg (start_vreg + i)) (FpReg v_map))]
                      else c1)
            in Inr c2)))"

function FlushIns_loop ::
  "Mir2Lir \<Rightarrow> RegLocation list \<Rightarrow> int \<Rightarrow> int \<Rightarrow> lir list \<Rightarrow> error + lir list" where
  "FlushIns_loop cg ArgLocs start_vreg i c =
    (if i < num_ins (cu cg) then
       (case FlushIns_arg cg ArgLocs start_vreg i c of
          Inl e \<Rightarrow> Inl e
        | Inr c' \<Rightarrow> FlushIns_loop cg ArgLocs start_vreg (i + 1) c')
     else Inr c)"
  by pat_completeness auto
termination
  by (relation "measure (\<lambda>(cg, ArgLocs, start_vreg, i, c). nat (num_ins (cu cg) - i))") auto

declare FlushIns_loop.simps [simp del]

definition FlushIns :: "Mir2Lir \<Rightarrow> RegLocation list \<Rightarrow> RegLocation \<Rightarrow> lir list \<Rightarrow> error + lir list" where
  "FlushIns cg ArgLocs rl_method c =
    (let rl_src = rl_method\<lparr> location := kLocPhysReg,
                             reg := k32BitSolo (TargetReg cg kArg0), home := False \<rparr>;
         c1 = c @ [Mark (MarkLive (GetReg (reg rl_src)) (s_reg_low rl_src)),
                   Val (StoreValue rl_method rl_src)];
         c2 = (if location rl_method = kLocPhysReg
               then c1 @ [Mem (StoreWordDisp (TargetReg cg kSp) 0 (TargetReg cg kArg0))]
               else c1)
     in if num_ins (cu cg) = 0 then Inr c2
        else (let start_vreg = num_dalvik_registers (cu cg) - num_ins (cu cg)
              in FlushIns_loop cg ArgLocs start_vreg 0 c2))"

text \<open>
  A method with two incoming argument words (virtual registers 2 and 3 of 4), and a
  promotion map for it.
\<close>

definition flush_cg :: "InstructionSet \<Rightarrow> PromotionMap list \<Rightarrow> Mir2Lir" where
  "flush_cg a pm =
    (example_cg a)\<lparr> cu := \<lparr> instruction_set = a, cu_dex_file = 7, num_ins = 2,
                                num_dalvik_registers = 4 \<rparr>,
                      promotion_map := pm \<rparr>"

definition not_promoted :: PromotionMap where
  "not_promoted = PromotionMap kLocDalvikFrame 0 kLocDalvikFrame 0"

definition pm_half_promoted :: "PromotionMap list" where
  "pm_half_promoted =
    [not_promoted, not_promoted, PromotionMap kLocPhysReg 5 kLocDalvikFrame 0, not_promoted]"

definition pm_odd_pair :: "PromotionMap list" where
  "pm_odd_pair =
    [not_promoted, not_promoted, PromotionMap kLocDalvikFrame 0 kLocPhysReg 33,
     PromotionMap kLocDalvikFrame 0 kLocPhysReg 34]"

definition locs_wide :: "bool \<Rightarrow> RegLocation list" where
  "locs_wide f =
    [example_loc\<lparr>wide := True, fp := f\<rparr>,
     example_loc\<lparr>wide := True, fp := f, high_word := True\<rparr>]"

section \<open>Argument marshalling at a call site\<close>

text \<open>
  \<open>LoadArgRegs\<close>: the \<open>for\<close> loop, started at \<open>next_reg\<close> and \<open>next_arg\<close>.  The
  function pointer \<open>next_call_insn\<close> is the parameter \<open>f\<close>.  \<open>UpdateRawLoc\<close> is a
  call into the register allocator; its result is \<open>ret_loc\<close> of the calls so far.
\<close>

function LoadArgRegs_loop ::
  "Mir2Lir \<Rightarrow> CallInfo \<Rightarrow> NextCallInsn \<Rightarrow> MethodReference \<Rightarrow> 32 word \<Rightarrow> 32 word \<Rightarrow> 32 word
   \<Rightarrow> InvokeType \<Rightarrow> int \<Rightarrow> int \<Rightarrow> int \<Rightarrow> lir list \<Rightarrow> error + (int \<times> lir list)" where
  "LoadArgRegs_loop cg info f target_method vtable_idx direct_code direct_method type
      next_reg next_arg call_state c =
    (if next_reg \<le> TargetReg cg kArg3 \<and> next_arg < num_arg_words info then
       (case arg_at info (nat next_arg) of
          Inl e \<Rightarrow> Inl e
        | Inr raw \<Rightarrow>
           (let c1 = c @ [Val (UpdateRawLoc raw)];
                rl_arg = ret_loc cg c1
            in if wide rl_arg \<and> next_reg \<le> TargetReg cg kArg2 then
                 (case next_call_insn f cg info call_state target_method vtable_idx
                         direct_code direct_method type
                         (c1 @ [Val (LoadValueDirectWideFixed rl_arg next_reg (next_reg + 1))]) of
                    Inl e \<Rightarrow> Inl e
                  | Inr (s, c2) \<Rightarrow>
                      LoadArgRegs_loop cg info f target_method vtable_idx direct_code
                        direct_method type (next_reg + 1 + 1) (next_arg + 1 + 1) s c2)
               else
                 (case next_call_insn f cg info call_state target_method vtable_idx
                         direct_code direct_method type
                         (c1 @ [Val (LoadValueDirectFixed
                                       (if wide rl_arg
                                        then rl_arg\<lparr>wide := False, is_const := False\<rparr>
                                        else rl_arg)
                                       next_reg)]) of
                    Inl e \<Rightarrow> Inl e
                  | Inr (s, c2) \<Rightarrow>
                      LoadArgRegs_loop cg info f target_method vtable_idx direct_code
                        direct_method type (next_reg + 1) (next_arg + 1) s c2)))
     else Inr (call_state, c))"
  by pat_completeness auto
termination
  by (relation "measure (\<lambda>(cg, info, f, tm, vi, dc, dm, ty, next_reg, next_arg, s, c).
         nat (TargetReg cg kArg3 + 1 - next_reg))") auto

declare LoadArgRegs_loop.simps [simp del]

definition LoadArgRegs ::
  "Mir2Lir \<Rightarrow> CallInfo \<Rightarrow> int \<Rightarrow> NextCallInsn \<Rightarrow> MethodReference \<Rightarrow> 32 word \<Rightarrow> 32 word
   \<Rightarrow> 32 word \<Rightarrow> InvokeType \<Rightarrow> bool \<Rightarrow> lir list \<Rightarrow> error + (int \<times> lir list)" where
  "LoadArgRegs cg info call_state f target_method vtable_idx direct_code direct_method type
      skip_this c =
    (let next_reg = TargetReg cg kArg1;
         next_arg = 0
     in LoadArgRegs_loop cg info f target_method vtable_idx direct_code direct_method type
          (if skip_this then next_reg + 1 else next_reg)
          (if skip_this then next_arg + 1 else next_arg) call_state c)"

text \<open>
  The calls a dispatch-resolution step can make: loads of constants, of method and code
  addresses and of words from memory, the receiver's load into argument register 1 with
  its null check, and the copy of the hidden argument.
\<close>

definition dispatch_op :: "Mir2Lir \<Rightarrow> CallInfo \<Rightarrow> lir \<Rightarrow> bool" where
  "dispatch_op cg info e =
    (case e of
       Mem m \<Rightarrow>
         (case m of
            LoadConstant r v \<Rightarrow> True
          | LoadCodeAddress t ty r \<Rightarrow> True
          | LoadMethodAddress t ty r \<Rightarrow> True
          | LoadCurrMethodDirect r \<Rightarrow> True
          | LoadWordDisp b d r \<Rightarrow> True
          | _ \<Rightarrow> False)
     | Val v \<Rightarrow>
         (case v of
            LoadValueDirectFixed rl r \<Rightarrow> r = TargetReg cg kArg1 \<and> arg_at info 0 = Inr rl
          | _ \<Rightarrow> False)
     | Mark k \<Rightarrow>
         (case k of
            GenNullCheck r fl \<Rightarrow> True
          | MarkPossibleNullPointerException fl \<Rightarrow> True
          | _ \<Rightarrow> False)
     | Op p \<Rightarrow> (case p of OpRegCopy d s \<Rightarrow> True | _ \<Rightarrow> False)
     | _ \<Rightarrow> False)"

text \<open>
  The calls \<open>LoadArgRegs\<close> makes: the dispatch step's, \<open>UpdateRawLoc\<close>, a wide
  load of a wide value into a register pair starting at argument register 2 or below,
  and a single load of a value whose \<open>wide\<close> flag is clear.
\<close>

definition LoadArgRegs_op :: "Mir2Lir \<Rightarrow> CallInfo \<Rightarrow> lir \<Rightarrow> bool" where
  "LoadArgRegs_op cg info e =
    (case e of
       Val v \<Rightarrow>
         (case v of
            UpdateRawLoc rl \<Rightarrow> True
          | LoadValueDirectWideFixed rl lo hi \<Rightarrow>
              wide rl \<and> lo \<le> TargetReg cg kArg2 \<and> hi = lo + 1
          | LoadValueDirectFixed rl r \<Rightarrow>
              \<not> wide rl \<or> (r = TargetReg cg kArg1 \<and> arg_at info 0 = Inr rl)
          | _ \<Rightarrow> False)
     | _ \<Rightarrow> dispatch_op cg info e)"

text \<open>
  A call with four argument words: two single values and a wide value in words 2 and 3.
\<close>

definition example_wide_loc :: RegLocation where
  "example_wide_loc = example_loc\<lparr>wide := True, is_const := True, s_reg_low := 2\<rparr>"

definition example_info_wide_last :: CallInfo where
  "example_info_wide_last =
    example_info\<lparr> num_arg_words := 4,
       args := [example_loc, example_loc\<lparr>s_reg_low := 1\<rparr>, example_wide_loc,
                example_wide_loc\<lparr>high_word := True, s_reg_low := 3\<rparr>],
       invoke_type := kStatic \<rparr>"

subsection \<open>\<open>GenDalvikArgsNoRange\<close>\<close>

text \<open>The loop \<open>while (next_use < info->num_arg_words)\<close> over the stack-passed words.\<close>

function GenDalvikArgsNoRange_loop ::
  "Mir2Lir \<Rightarrow> CallInfo \<Rightarrow> NextCallInsn \<Rightarrow> MethodReference \<Rightarrow> 32 word \<Rightarrow> 32 word \<Rightarrow> 32 word
   \<Rightarrow> InvokeType \<Rightarrow> int \<Rightarrow> int \<Rightarrow> lir list \<Rightarrow> error + (int \<times> lir list)" where
  "GenDalvikArgsNoRange_loop cg info f target_method vtable_idx direct_code direct_method type
      next_use call_state c =
    (if next_use < num_arg_words info then
       (case arg_at info (nat next_use) of
          Inl e \<Rightarrow> Inl e
        | Inr raw \<Rightarrow>
           (let c1 = c @ [Val (UpdateRawLoc raw)];
                rl_arg = ret_loc cg c1
            in case (if location rl_arg = kLocPhysReg then
                       Inr (GetReg (reg rl_arg),
                            if wide rl_arg then GetHighReg (reg rl_arg) else - 1,
                            call_state, c1)
                     else
                       (let low_reg = TargetReg cg kArg2;
                            high_reg = (if wide rl_arg then TargetReg cg kArg3 else - 1);
                            c2 = c1 @ [if wide rl_arg
                                       then Val (LoadValueDirectWideFixed rl_arg low_reg high_reg)
                                       else Val (LoadValueDirectFixed rl_arg low_reg)]
                        in case next_call_insn f cg info call_state target_method vtable_idx
                                  direct_code direct_method type c2 of
                             Inl e \<Rightarrow> Inl e
                           | Inr (s, c3) \<Rightarrow> Inr (low_reg, high_reg, s, c3))) of
                 Inl e \<Rightarrow> Inl e
               | Inr (low_reg, high_reg, s, c4) \<Rightarrow>
                  (let outs_offset = (next_use + 1) * 4;
                       c5 = c4 @ [if wide rl_arg
                                  then Mem (StoreBaseDispWide (TargetReg cg kSp) outs_offset
                                              low_reg high_reg)
                                  else Mem (StoreWordDisp (TargetReg cg kSp) outs_offset low_reg)]
                   in case next_call_insn f cg info s target_method vtable_idx
                             direct_code direct_method type c5 of
                        Inl e \<Rightarrow> Inl e
                      | Inr (s', c6) \<Rightarrow>
                          GenDalvikArgsNoRange_loop cg info f target_method vtable_idx
                            direct_code direct_method type
                            (if wide rl_arg then next_use + 2 else next_use + 1) s' c6)))
     else Inr (call_state, c))"
  by pat_completeness auto
termination
  by (relation "measure (\<lambda>(cg, info, f, tm, vi, dc, dm, ty, next_use, s, c).
         nat (num_arg_words info - next_use))") auto

declare GenDalvikArgsNoRange_loop.simps [simp del]

text \<open>
  The block \<open>if (info->num_arg_words > 3) { ... }\<close>: the wide value spanning argument
  words 2 and 3, then the loop from \<open>next_use\<close>.
\<close>

definition GenDalvikArgsNoRange_stack ::
  "Mir2Lir \<Rightarrow> CallInfo \<Rightarrow> NextCallInsn \<Rightarrow> MethodReference \<Rightarrow> 32 word \<Rightarrow> 32 word \<Rightarrow> 32 word
   \<Rightarrow> InvokeType \<Rightarrow> int \<Rightarrow> lir list \<Rightarrow> error + (int \<times> lir list)" where
  "GenDalvikArgsNoRange_stack cg info f target_method vtable_idx direct_code direct_method type
      call_state c =
    (case arg_at info 0 of Inl e \<Rightarrow> Inl e | Inr rl_use0 \<Rightarrow>
     case arg_at info 1 of Inl e \<Rightarrow> Inl e | Inr rl_use1 \<Rightarrow>
     case arg_at info 2 of Inl e \<Rightarrow> Inl e | Inr rl_use2 \<Rightarrow>
      (case (if ((\<not> wide rl_use0 \<and> \<not> wide rl_use1) \<or> wide rl_use0) \<and> wide rl_use2 then
               (let c1 = c @ [Val (UpdateLocWide rl_use2)];
                    rl_arg = ret_loc cg c1
                in case (if location rl_arg = kLocPhysReg then
                           Inr (GetHighReg (reg rl_arg), call_state, c1)
                         else
                           (let r = TargetReg cg kArg3;
                                c2 = c1 @ [Mem (LoadWordDisp (TargetReg cg kSp)
                                                  (SRegOffset cg (s_reg_low rl_arg) + 4) r)]
                            in case next_call_insn f cg info call_state target_method
                                      vtable_idx direct_code direct_method type c2 of
                                 Inl e \<Rightarrow> Inl e
                               | Inr (s, c3) \<Rightarrow> Inr (r, s, c3))) of
                     Inl e \<Rightarrow> Inl e
                   | Inr (r, s, c3) \<Rightarrow>
                      (case next_call_insn f cg info s target_method vtable_idx
                              direct_code direct_method type
                              (c3 @ [Mem (StoreBaseDisp (TargetReg cg kSp) ((3 + 1) * 4) r kWord)]) of
                         Inl e \<Rightarrow> Inl e
                       | Inr (s', c4) \<Rightarrow> Inr (3 + 1, s', c4)))
             else Inr (3, call_state, c)) of
         Inl e \<Rightarrow> Inl e
       | Inr (next_use, s, c') \<Rightarrow>
           GenDalvikArgsNoRange_loop cg info f target_method vtable_idx direct_code
             direct_method type next_use s c'))"

text \<open>
  \<open>pcrLabel\<close> tells whether the pointer is non-null; the \<open>LIR*\<close> stored through it
  (the position of the \<open>GenNullCheck\<close> call) is never read by the caller.
\<close>

definition GenDalvikArgsNoRange ::
  "Mir2Lir \<Rightarrow> CallInfo \<Rightarrow> int \<Rightarrow> bool \<Rightarrow> NextCallInsn \<Rightarrow> MethodReference \<Rightarrow> 32 word
   \<Rightarrow> 32 word \<Rightarrow> 32 word \<Rightarrow> InvokeType \<Rightarrow> bool \<Rightarrow> lir list \<Rightarrow> error + (int \<times> lir list)" where
  "GenDalvikArgsNoRange cg info call_state pcrLabel f target_method vtable_idx direct_code
      direct_method type skip_this c =
    (if num_arg_words info = 0 then Inr (call_state, c)
     else
       (case next_call_insn f cg info call_state target_method vtable_idx direct_code
               direct_method type c of
          Inl e \<Rightarrow> Inl e
        | Inr (s0, c0) \<Rightarrow>
           (case (if num_arg_words info > 3
                  then GenDalvikArgsNoRange_stack cg info f target_method vtable_idx
                         direct_code direct_method type s0 c0
                  else Inr (s0, c0)) of
              Inl e \<Rightarrow> Inl e
            | Inr (s1, c1) \<Rightarrow>
               (case LoadArgRegs cg info s1 f target_method vtable_idx direct_code
                       direct_method type skip_this c1 of
                  Inl e \<Rightarrow> Inl e
                | Inr (s2, c2) \<Rightarrow>
                    Inr (s2, if pcrLabel
                             then c2 @ [Mark (GenNullCheck (TargetReg cg kArg1) (opt_flags info))]
                             else c2)))))"

subsection \<open>Runtime helper calls\<close>

definition CallHelperSetup :: "Mir2Lir \<Rightarrow> ThreadOffset \<Rightarrow> lir list \<Rightarrow> int \<times> lir list" where
  "CallHelperSetup cg helper_offset c =
    (if isa cg = kX86 then (0, c)
     else (let c1 = c @ [RA (LoadHelper helper_offset)] in (ret_reg cg c1, c1)))"

text \<open>\<open>CallHelper\<close> returns the call instruction (its position) and the extended list.\<close>

definition CallHelper ::
  "Mir2Lir \<Rightarrow> int \<Rightarrow> ThreadOffset \<Rightarrow> bool \<Rightarrow> lir list \<Rightarrow> nat \<times> lir list" where
  "CallHelper cg r_tgt helper_offset safepoint_pc c =
    (let call_inst = length c;
         c1 = (if isa cg = kX86 then c @ [Op (OpThreadMem kOpBlx helper_offset)]
               else c @ [Op (OpReg kOpBlx r_tgt), RA (FreeTemp r_tgt)]);
         c2 = (if safepoint_pc then c1 @ [Mark (MarkSafepointPC call_inst)] else c1)
     in (call_inst, c2))"

definition CallRuntimeHelperRegRegImm ::
  "Mir2Lir \<Rightarrow> ThreadOffset \<Rightarrow> int \<Rightarrow> int \<Rightarrow> int \<Rightarrow> bool \<Rightarrow> lir list \<Rightarrow> lir list" where
  "CallRuntimeHelperRegRegImm cg helper_offset arg0 arg1 arg2 safepoint_pc c =
    (let (r_tgt, c1) = CallHelperSetup cg helper_offset c;
         c2 = c1 @ [Op (OpRegCopy (TargetReg cg kArg0) arg0),
                    Op (OpRegCopy (TargetReg cg kArg1) arg1),
                    Mem (LoadConstant (TargetReg cg kArg2) arg2),
                    RA ClobberCallerSave]
     in snd (CallHelper cg r_tgt helper_offset safepoint_pc c2))"

subsection \<open>\<open>GenDalvikArgsRange\<close>\<close>

text \<open>The first loop: arguments living in registers are flushed to their home location.\<close>

function GenDalvikArgsRange_flush ::
  "Mir2Lir \<Rightarrow> CallInfo \<Rightarrow> int \<Rightarrow> lir list \<Rightarrow> error + lir list" where
  "GenDalvikArgsRange_flush cg info next_arg c =
    (if next_arg < num_arg_words info then
       (case arg_at info (nat next_arg) of
          Inl e \<Rightarrow> Inl e
        | Inr loc0 \<Rightarrow>
           (if wide loc0 then
              (let c1 = c @ [Val (UpdateLocWide loc0)];
                   loc = ret_loc cg c1;
                   c2 = (if next_arg \<ge> 2 \<and> location loc = kLocPhysReg
                         then c1 @ [Mem (StoreBaseDispWide (TargetReg cg kSp)
                                           (SRegOffset cg (s_reg_low loc))
                                           (GetReg (reg loc)) (GetHighReg (reg loc)))]
                         else c1)
               in GenDalvikArgsRange_flush cg info (next_arg + 2) c2)
            else
              (let c1 = c @ [Val (UpdateLoc loc0)];
                   loc = ret_loc cg c1;
                   c2 = (if next_arg \<ge> 3 \<and> location loc = kLocPhysReg
                         then c1 @ [Mem (StoreBaseDisp (TargetReg cg kSp)
                                           (SRegOffset cg (s_reg_low loc))
                                           (GetReg (reg loc)) kWord)]
                         else c1)
               in GenDalvikArgsRange_flush cg info (next_arg + 1) c2)))
     else Inr c)"
  by pat_completeness auto
termination
  by (relation "measure (\<lambda>(cg, info, next_arg, c). nat (num_arg_words info - next_arg))") auto

declare GenDalvikArgsRange_flush.simps [simp del]

text \<open>
  The x86 copy.  One 128-bit move through an xmm temporary: the temporary is allocated
  (and CHECKed to be positive), loaded by one aligned move, two half moves or one
  unaligned move, stored likewise, the moves are annotated, the temporary is freed.
  Offsets are small frame offsets; \<open>bytes_to_move >> 1\<close> is 8.
\<close>

definition GenDalvikArgsRange_move128 ::
  "Mir2Lir \<Rightarrow> int \<Rightarrow> int \<Rightarrow> lir list \<Rightarrow> error + lir list" where
  "GenDalvikArgsRange_move128 cg current_src_offset current_dest_offset c =
    (let src_is_16b_aligned = ((current_src_offset AND 0xF) = 0);
         dest_is_16b_aligned = ((current_dest_offset AND 0xF) = 0);
         c0 = c @ [RA AllocTempDouble];
         temp = ret_reg cg c0
     in if \<not> temp > 0 then Inl CheckFailed
        else
          (let src_is_8b_aligned = ((current_src_offset AND 0x7) = 0);
               dest_is_8b_aligned = ((current_dest_offset AND 0x7) = 0);
               ld1 = length c0;
               (c1, ld2) =
                 (if src_is_16b_aligned then
                    (c0 @ [Mem (OpMovRegMem temp (TargetReg cg kSp) current_src_offset
                                  kMovA128FP)], None)
                  else if src_is_8b_aligned then
                    (c0 @ [Mem (OpMovRegMem temp (TargetReg cg kSp) current_src_offset
                                  kMovLo128FP),
                           Mem (OpMovRegMem temp (TargetReg cg kSp) (current_src_offset + 8)
                                  kMovHi128FP)], Some (ld1 + 1))
                  else
                    (c0 @ [Mem (OpMovRegMem temp (TargetReg cg kSp) current_src_offset
                                  kMovU128FP)], None));
               st1 = length c1;
               (c2, st2) =
                 (if dest_is_16b_aligned then
                    (c1 @ [Mem (OpMovMemReg (TargetReg cg kSp) current_dest_offset temp
                                  kMovA128FP)], None)
                  else if dest_is_8b_aligned then
                    (c1 @ [Mem (OpMovMemReg (TargetReg cg kSp) current_dest_offset temp
                                  kMovLo128FP),
                           Mem (OpMovMemReg (TargetReg cg kSp) (current_dest_offset + 8) temp
                                  kMovHi128FP)], Some (st1 + 1))
                  else
                    (c1 @ [Mem (OpMovMemReg (TargetReg cg kSp) current_dest_offset temp
                                  kMovU128FP)], None));
               c3 = (case ld2 of
                       Some l2 \<Rightarrow>
                         c2 @ [Mark (AnnotateDalvikRegAccess ld1 (current_src_offset div 4)
                                       True True),
                               Mark (AnnotateDalvikRegAccess l2 ((current_src_offset + 8) div 4)
                                       True True)]
                     | None \<Rightarrow> c2 @ [Mark (SetMemRefType ld1 True), Mark (SetDefMaskAll ld1)]);
               c4 = (case st2 of
                       Some s2 \<Rightarrow>
                         c3 @ [Mark (AnnotateDalvikRegAccess st1 (current_dest_offset div 4)
                                       False True),
                               Mark (AnnotateDalvikRegAccess s2 ((current_dest_offset + 8) div 4)
                                       False True)]
                     | None \<Rightarrow> c3 @ [Mark (SetMemRefType st1 False), Mark (SetDefMaskAll st1)])
           in Inr (c4 @ [RA (FreeTemp temp)])))"

text \<open>The loop \<open>while (regs_left_to_pass_via_stack > 0)\<close> of the x86 branch.\<close>

function GenDalvikArgsRange_x86_copy ::
  "Mir2Lir \<Rightarrow> int \<Rightarrow> int \<Rightarrow> int \<Rightarrow> lir list \<Rightarrow> error + lir list" where
  "GenDalvikArgsRange_x86_copy cg current_src_offset current_dest_offset
      regs_left_to_pass_via_stack c =
    (if regs_left_to_pass_via_stack > 0 then
       (let src_is_16b_aligned = ((current_src_offset AND 0xF) = 0);
            dest_is_16b_aligned = ((current_dest_offset AND 0xF) = 0)
        in if regs_left_to_pass_via_stack = 4
              \<or> (regs_left_to_pass_via_stack > 4 \<and> (src_is_16b_aligned \<or> dest_is_16b_aligned))
           then
             (case GenDalvikArgsRange_move128 cg current_src_offset current_dest_offset c of
                Inl e \<Rightarrow> Inl e
              | Inr c' \<Rightarrow>
                  GenDalvikArgsRange_x86_copy cg (current_src_offset + 16)
                    (current_dest_offset + 16) (regs_left_to_pass_via_stack - 4) c')
           else
             (let temp = TargetReg cg kArg3
              in GenDalvikArgsRange_x86_copy cg (current_src_offset + 4)
                   (current_dest_offset + 4) (regs_left_to_pass_via_stack - 1)
                   (c @ [Mem (LoadWordDisp (TargetReg cg kSp) current_src_offset temp),
                         Mem (StoreWordDisp (TargetReg cg kSp) current_dest_offset temp)])))
     else Inr c)"
  by pat_completeness auto
termination
  by (relation "measure (\<lambda>(cg, src, dst, regs_left, c). nat regs_left)") auto

declare GenDalvikArgsRange_x86_copy.simps [simp del]

text \<open>
  The three ways of copying the stack-passed words: \<open>vldm\<close>/\<open>vstm\<close> on Thumb2 for up
  to 16 words, the x86 copy, and a call of the runtime's \<open>memcpy\<close> otherwise.
\<close>

definition GenDalvikArgsRange_copy ::
  "Mir2Lir \<Rightarrow> CallInfo \<Rightarrow> int \<Rightarrow> NextCallInsn \<Rightarrow> MethodReference \<Rightarrow> 32 word \<Rightarrow> 32 word
   \<Rightarrow> 32 word \<Rightarrow> InvokeType \<Rightarrow> int \<Rightarrow> int \<Rightarrow> int \<Rightarrow> lir list \<Rightarrow> error + (int \<times> lir list)" where
  "GenDalvikArgsRange_copy cg info call_state f target_method vtable_idx direct_code
      direct_method type outs_offset start_offset regs_left_to_pass_via_stack c0 =
    (if isa cg = kThumb2 \<and> regs_left_to_pass_via_stack \<le> 16 then
       (case next_call_insn f cg info call_state target_method vtable_idx
               direct_code direct_method type c0 of
          Inl e \<Rightarrow> Inl e
        | Inr (s1, c1) \<Rightarrow>
           (let c2 = c1 @ [Op (OpRegRegImm kOpAdd (TargetReg cg kArg3)
                                 (TargetReg cg kSp) start_offset)];
                ld = length c2;
                c3 = c2 @ [Mem (OpVldm (TargetReg cg kArg3) regs_left_to_pass_via_stack),
                           Mark (SetDefMaskAll ld), Mark (SetMemRefType ld True)]
            in case next_call_insn f cg info s1 target_method vtable_idx
                      direct_code direct_method type c3 of
                 Inl e \<Rightarrow> Inl e
               | Inr (s2, c4) \<Rightarrow>
                  (case next_call_insn f cg info s2 target_method vtable_idx
                          direct_code direct_method type
                          (c4 @ [Op (OpRegRegImm kOpAdd (TargetReg cg kArg3)
                                       (TargetReg cg kSp) (4 + 3 * 4))]) of
                     Inl e \<Rightarrow> Inl e
                   | Inr (s3, c6) \<Rightarrow>
                      (let st = length c6
                       in next_call_insn f cg info s3 target_method vtable_idx
                            direct_code direct_method type
                            (c6 @ [Mem (OpVstm (TargetReg cg kArg3)
                                          regs_left_to_pass_via_stack),
                                   Mark (SetMemRefType st False),
                                   Mark (SetDefMaskAll st)])))))
     else if isa cg = kX86 then
       (case GenDalvikArgsRange_x86_copy cg start_offset outs_offset
               regs_left_to_pass_via_stack c0 of
          Inl e \<Rightarrow> Inl e
        | Inr c1 \<Rightarrow> Inr (call_state, c1))
     else
       Inr (call_state,
            CallRuntimeHelperRegRegImm cg (QUICK_ENTRYPOINT_OFFSET pMemcpy)
              (TargetReg cg kArg0) (TargetReg cg kArg1)
              ((num_arg_words info - 3) * 4) False
              (c0 @ [Op (OpRegRegImm kOpAdd (TargetReg cg kArg0)
                           (TargetReg cg kSp) outs_offset),
                     Op (OpRegRegImm kOpAdd (TargetReg cg kArg1)
                           (TargetReg cg kSp) start_offset)])))"

definition GenDalvikArgsRange ::
  "Mir2Lir \<Rightarrow> CallInfo \<Rightarrow> int \<Rightarrow> bool \<Rightarrow> NextCallInsn \<Rightarrow> MethodReference \<Rightarrow> 32 word
   \<Rightarrow> 32 word \<Rightarrow> 32 word \<Rightarrow> InvokeType \<Rightarrow> bool \<Rightarrow> lir list \<Rightarrow> error + (int \<times> lir list)" where
  "GenDalvikArgsRange cg info call_state pcrLabel f target_method vtable_idx direct_code
      direct_method type skip_this c =
    (if num_arg_words info \<le> 5 then
       GenDalvikArgsNoRange cg info call_state pcrLabel f target_method vtable_idx direct_code
         direct_method type skip_this c
     else
       (case GenDalvikArgsRange_flush cg info 0 c of
          Inl e \<Rightarrow> Inl e
        | Inr c0 \<Rightarrow>
        (case arg_at info 3 of
          Inl e \<Rightarrow> Inl e
        | Inr arg3 \<Rightarrow>
           (let outs_offset = 4 + 3 * 4;
                start_offset = SRegOffset cg (s_reg_low arg3);
                regs_left_to_pass_via_stack = num_arg_words info - 3
            in case GenDalvikArgsRange_copy cg info call_state f target_method vtable_idx
                      direct_code direct_method type outs_offset start_offset
                      regs_left_to_pass_via_stack c0 of
                 Inl e \<Rightarrow> Inl e
               | Inr (s4, c7) \<Rightarrow>
                  (case LoadArgRegs cg info s4 f target_method vtable_idx direct_code
                          direct_method type skip_this c7 of
                     Inl e \<Rightarrow> Inl e
                   | Inr (s5, c8) \<Rightarrow>
                      (case next_call_insn f cg info s5 target_method vtable_idx direct_code
                              direct_method type c8 of
                         Inl e \<Rightarrow> Inl e
                       | Inr (s6, c9) \<Rightarrow>
                           Inr (s6, if pcrLabel
                                    then c9 @ [Mark (GenNullCheck (TargetReg cg kArg1)
                                                       (opt_flags info))]
                                    else c9)))))))"

text \<open>
  The bytes an emitted instruction of the x86 copy stores to the outgoing-argument
  area, and loads from the caller's frame: 16 for an aligned or unaligned 128-bit move,
  8 for the move of one half, 4 for a word.
\<close>

definition move_bytes :: "MoveType \<Rightarrow> nat" where
  "move_bytes t = (case t of kMovA128FP \<Rightarrow> 16 | kMovU128FP \<Rightarrow> 16
                   | kMovLo128FP \<Rightarrow> 8 | kMovHi128FP \<Rightarrow> 8)"

definition bytes_stored :: "lir \<Rightarrow> nat" where
  "bytes_stored e =
    (case e of
       Mem m \<Rightarrow> (case m of OpMovMemReg b d r t \<Rightarrow> move_bytes t
                   | StoreWordDisp b d r \<Rightarrow> 4 | _ \<Rightarrow> 0)
     | _ \<Rightarrow> 0)"

definition bytes_loaded :: "lir \<Rightarrow> nat" where
  "bytes_loaded e =
    (case e of
       Mem m \<Rightarrow> (case m of OpMovRegMem r b d t \<Rightarrow> move_bytes t
                   | LoadWordDisp b d r \<Rightarrow> 4 | _ \<Rightarrow> 0)
     | _ \<Rightarrow> 0)"

text \<open>A range call with seven single-word arguments, living in their frame slots.\<close>

definition example_arg :: "int \<Rightarrow> RegLocation" where
  "example_arg i = example_loc\<lparr>s_reg_low := i\<rparr>"

definition example_info_range :: CallInfo where
  "example_info_range =
    example_info\<lparr> num_arg_words := 7,
       args := [example_arg 0, example_arg 1, example_arg 2, example_arg 3, example_arg 4,
                example_arg 5, example_arg 6],
       invoke_type := kStatic, is_range := True \<rparr>"

section \<open>Call emission: \<open>GenInvoke\<close> and \<open>GenInvokeNoInline\<close>\<close>

text \<open>
  The loop \<open>while (call_state >= 0)\<close> that finishes the dispatch sequence.  It ends
  because every routine returns \<open>state + 1\<close> for a few states only and \<open>-1\<close>
  otherwise.
\<close>

function GenInvokeNoInline_drain ::
  "Mir2Lir \<Rightarrow> CallInfo \<Rightarrow> NextCallInsn \<Rightarrow> MethodReference \<Rightarrow> 32 word \<Rightarrow> 32 word \<Rightarrow> 32 word
   \<Rightarrow> InvokeType \<Rightarrow> int \<Rightarrow> lir list \<Rightarrow> error + lir list" where
  "GenInvokeNoInline_drain cg info f target_method vtable_idx direct_code direct_method type
      call_state c =
    (if call_state \<ge> 0 then
       (case next_call_insn f cg info call_state target_method vtable_idx direct_code
               direct_method type c of
          Inl e \<Rightarrow> Inl e
        | Inr (s, c') \<Rightarrow>
            GenInvokeNoInline_drain cg info f target_method vtable_idx direct_code
              direct_method type s c')
     else Inr c)"
  by pat_completeness auto
termination
proof (relation "measure (\<lambda>(cg, info, f, tm, vi, dc, dm, ty, s, c).
         if s < 0 then 0 else nat (8 - s) + 1)")
  show "wf (measure (\<lambda>(cg :: Mir2Lir, info :: CallInfo, f :: NextCallInsn,
         tm :: MethodReference, vi :: 32 word, dc :: 32 word, dm :: 32 word, ty :: InvokeType,
         s :: int, c :: lir list). if s < 0 then 0 else nat (8 - s) + 1))"
    by simp
next
  fix cg info f tm vi dc dm ty call_state c x s c'
  assume pos: "0 \<le> call_state"
    and n: "next_call_insn f cg info call_state tm vi dc dm ty c = Inr x"
    and x: "(s, c') = x"
  from n x have r: "next_call_insn f cg info call_state tm vi dc dm ty c = Inr (s, c')"
    by simp
  from next_state_cases [OF r] pos
  have "s = - 1 \<or> (s = call_state + 1 \<and> call_state \<le> 5)"
    by (auto simp: entry_point_load_state_def split: if_splits NextCallInsn.splits)
  with pos show "((cg, info, f, tm, vi, dc, dm, ty, s, c'),
                  (cg, info, f, tm, vi, dc, dm, ty, call_state, c))
     \<in> measure (\<lambda>(cg, info, f, tm, vi, dc, dm, ty, s, c).
           if s < 0 then 0 else nat (8 - s) + 1)"
    by auto
qed

declare GenInvokeNoInline_drain.simps [simp del]

text \<open>The trampoline that x86 calls through for an unresolved invoke of each type.\<close>

fun invoke_trampoline :: "InvokeType \<Rightarrow> QuickEntrypoint" where
  "invoke_trampoline kInterface = pInvokeInterfaceTrampolineWithAccessCheck"
| "invoke_trampoline kDirect = pInvokeDirectTrampolineWithAccessCheck"
| "invoke_trampoline kStatic = pInvokeStaticTrampolineWithAccessCheck"
| "invoke_trampoline kSuper = pInvokeSuperTrampolineWithAccessCheck"
| "invoke_trampoline kVirtual = pInvokeVirtualTrampolineWithAccessCheck"

text \<open>
  The selection of the dispatch routine by the sharpened invoke type: the routine, whether
  the receiver is loaded by the routine (\<open>skip_this\<close>), and whether a null-check label
  is asked for (\<open>p_null_ck\<close> non-null).  A super call is never on the fast path.
\<close>

definition select_next_call_insn :: "InvokeType \<Rightarrow> bool \<Rightarrow> NextCallInsn \<times> bool \<times> bool" where
  "select_next_call_insn t fast_path =
    (if t = kInterface then
       (if fast_path then fnNextInterfaceCallInsn
        else fnNextInterfaceCallInsnWithAccessCheck, fast_path, False)
     else if t = kDirect then
       (if fast_path then fnNextSDCallInsn else fnNextDirectCallInsnSP, False, fast_path)
     else if t = kStatic then
       (if fast_path then fnNextSDCallInsn else fnNextStaticCallInsnSP, False, False)
     else if t = kSuper then
       (fnNextSuperCallInsnSP, False, False)
     else
       (if fast_path then fnNextVCallInsn else fnNextVCallInsnSP, fast_path, False))"

text \<open>
  The call instruction: a call through the invoke-target register, or on x86 a call with
  linker fixup, a call through the method's entry point, or a call through the thread's
  trampoline of the invoke type (\<open>info->type\<close>, the sharpened type).
\<close>

definition invoke_call_inst :: "Mir2Lir \<Rightarrow> MirMethodLoweringInfo \<Rightarrow> lir" where
  "invoke_call_inst cg method_info =
    (if isa cg \<noteq> kX86 then Op (OpReg kOpBlx (TargetReg cg kInvokeTgt))
     else if FastPath method_info then
       (if DirectCode method_info = - 1
        then Op (CallWithLinkerFixup (GetTargetMethod method_info) (GetSharpType method_info))
        else Op (OpMem kOpBlx (TargetReg cg kArg0)
                   (EntryPointFromQuickCompiledCodeOffset (layout cg))))
     else Op (OpThreadMem kOpBlx
                (QUICK_ENTRYPOINT_OFFSET (invoke_trampoline (GetSharpType method_info)))))"

text \<open>The move of the result after the call (\<open>c6\<close> is the list up to there).\<close>

definition invoke_result_handling :: "Mir2Lir \<Rightarrow> CallInfo \<Rightarrow> lir list \<Rightarrow> lir list" where
  "invoke_result_handling cg info c6 =
    (if location (result info) \<noteq> kLocInvalid then
       (if wide (result info) then
          [Val (GetReturnWide (fp (result info))),
           Val (StoreValueWide (result info)
                  (ret_loc cg (c6 @ [Val (GetReturnWide (fp (result info)))])))]
        else
          [Val (GetReturn (fp (result info))),
           Val (StoreValue (result info)
                  (ret_loc cg (c6 @ [Val (GetReturn (fp (result info)))])))])
     else [])"

text \<open>
  \<open>GenInvokeNoInline\<close> writes \<open>info->type\<close>, so it returns the call descriptor
  with the list.  \<open>call_inst\<close> is the position of the call instruction.
\<close>

definition GenInvokeNoInline :: "Mir2Lir \<Rightarrow> CallInfo \<Rightarrow> lir list \<Rightarrow> error + (CallInfo \<times> lir list)" where
  "GenInvokeNoInline cg info0 c =
    (let call_state = 0;
         c1 = c @ [RA FlushAllRegs, RA LockCallTemps];
         method_info = GetMethodLoweringInfo cg (mir info0);
         c2 = c1 @ [Mark (ProcessedInvoke (GetInvokeType method_info) (StatsFlags method_info))];
         original_type = GetInvokeType method_info;
         info = info0\<lparr>invoke_type := GetSharpType method_info\<rparr>;
         fast_path = FastPath method_info;
         (f, skip_this, p_null_ck) = select_next_call_insn (invoke_type info) fast_path;
         target_method = GetTargetMethod method_info
     in case (if \<not> is_range info then
                GenDalvikArgsNoRange cg info call_state p_null_ck f target_method
                  (VTableIndex method_info) (DirectCode method_info) (DirectMethod method_info)
                  original_type skip_this c2
              else
                GenDalvikArgsRange cg info call_state p_null_ck f target_method
                  (VTableIndex method_info) (DirectCode method_info) (DirectMethod method_info)
                  original_type skip_this c2) of
          Inl e \<Rightarrow> Inl e
        | Inr (s, c3) \<Rightarrow>
           (case GenInvokeNoInline_drain cg info f target_method (VTableIndex method_info)
                   (DirectCode method_info) (DirectMethod method_info) original_type s c3 of
              Inl e \<Rightarrow> Inl e
            | Inr c4 \<Rightarrow>
               (let call_inst = length c4;
                    c5 = c4 @ [invoke_call_inst cg method_info];
                    c6 = c5 @ [Mark (MarkSafepointPC call_inst), RA ClobberCallerSave]
                in Inr (info, c6 @ invoke_result_handling cg info c6))))"

text \<open>
  \<open>GenInvoke\<close>.  The method inliner's \<open>GenIntrinsic\<close> is not part of this file: it
  is the parameter \<open>gen_intrinsic\<close>, which runs the intrinsic routine of the callee, if
  it has one, and returns its verdict with the call descriptor and the list.
\<close>

definition GenInvoke ::
  "Mir2Lir \<Rightarrow> (CallInfo \<Rightarrow> lir list \<Rightarrow> error + (bool \<times> CallInfo \<times> lir list)) \<Rightarrow> CallInfo
   \<Rightarrow> lir list \<Rightarrow> error + (CallInfo \<times> lir list)" where
  "GenInvoke cg gen_intrinsic info c =
    (case gen_intrinsic info c of
       Inl e \<Rightarrow> Inl e
     | Inr (handled, info', c') \<Rightarrow>
         if handled then Inr (info', c') else GenInvokeNoInline cg info' c')"

section \<open>Intrinsics and their launchpads\<close>

definition AddIntrinsicLaunchpad ::
  "CallInfo \<Rightarrow> nat option \<Rightarrow> nat option \<Rightarrow> lir list \<Rightarrow> lir list" where
  "AddIntrinsicLaunchpad info branch resume c =
    c @ [AddSlowPath (IntrinsicLaunchpadPath info (offset info) branch resume)]"

text \<open>\<open>IntrinsicLaunchpadPath::Compile\<close>: the launchpad's code, emitted at the end of the method.\<close>

definition Compile :: "Mir2Lir \<Rightarrow> IntrinsicLaunchpadPath \<Rightarrow> lir list \<Rightarrow> error + (CallInfo \<times> lir list)" where
  "Compile cg lp c =
    (let c1 = c @ [RA ResetRegPool, RA ResetDefTracking];
         label = length c1;
         c2 = c1 @ [Br (GenerateTargetLabel (lp_fromfast lp)),
                    Br (SetOpcode label kPseudoIntrinsicRetry)]
     in case GenInvokeNoInline cg (lp_info lp) c2 of
          Inl e \<Rightarrow> Inl e
        | Inr (info', c3) \<Rightarrow>
            Inr (info', case lp_cont lp of
                          Some l \<Rightarrow> c3 @ [Br (OpUnconditionalBranch l)]
                        | None \<Rightarrow> c3))"

text \<open>
  A call that returns a \<open>RegLocation\<close>, a call that returns a register, and a call
  that returns the instruction it created.
\<close>

definition call_loc :: "Mir2Lir \<Rightarrow> value_call \<Rightarrow> lir list \<Rightarrow> RegLocation \<times> lir list" where
  "call_loc cg v c = (ret_loc cg (c @ [Val v]), c @ [Val v])"

definition call_reg :: "Mir2Lir \<Rightarrow> ralloc_call \<Rightarrow> lir list \<Rightarrow> int \<times> lir list" where
  "call_reg cg r c = (ret_reg cg (c @ [RA r]), c @ [RA r])"

definition new_lir :: "lir \<Rightarrow> lir list \<Rightarrow> nat \<times> lir list" where
  "new_lir x c = (length c, c @ [x])"

definition InlineTarget :: "Mir2Lir \<Rightarrow> CallInfo \<Rightarrow> lir list \<Rightarrow> RegLocation \<times> lir list" where
  "InlineTarget cg info c =
    (if location (result info) = kLocInvalid then call_loc cg (GetReturn False) c
     else (result info, c))"

definition InlineTargetWide :: "Mir2Lir \<Rightarrow> CallInfo \<Rightarrow> lir list \<Rightarrow> RegLocation \<times> lir list" where
  "InlineTargetWide cg info c =
    (if location (result info) = kLocInvalid then call_loc cg (GetReturnWide False) c
     else (result info, c))"

text \<open>
  The intrinsic routines return whether they handled the call, with the call descriptor
  (they set flags in \<open>info->opt_flags\<close>) and the list.
\<close>

definition GenInlinedCharAt ::
  "Mir2Lir \<Rightarrow> CallInfo \<Rightarrow> lir list \<Rightarrow> error + (bool \<times> CallInfo \<times> lir list)" where
  "GenInlinedCharAt cg info c0 =
    (if isa cg = kMips then Inr (False, info, c0)
     else
       (let value_offset = StringValueOffset (layout cg);
            count_offset = StringCountOffset (layout cg);
            offset_offset = StringOffsetOffset (layout cg);
            data_offset = ArrayDataOffset (layout cg) 2
        in case arg_at info 0 of Inl e \<Rightarrow> Inl e | Inr rl_obj0 \<Rightarrow>
           case arg_at info 1 of Inl e \<Rightarrow> Inl e | Inr rl_idx0 \<Rightarrow>
           (let (rl_obj, c) = call_loc cg (LoadValue rl_obj0 kCoreReg) c0;
                (rl_idx, c) = (if \<not> (isa cg = kX86 \<and> is_const rl_idx0)
                               then call_loc cg (LoadValue rl_idx0 kCoreReg) c
                               else (rl_idx0, c));
                obj = GetReg (reg rl_obj);
                c = c @ [Mark (GenNullCheck obj (opt_flags info))];
                range_check =
                  ((opt_flags info AND MIR_IGNORE_RANGE_CHECK (constants cg)) = 0);
                (range_check_branch, reg_off, reg_ptr, c) =
                  (if isa cg \<noteq> kX86 then
                     (let (reg_off, c) = call_reg cg AllocTemp c;
                          (reg_ptr, c) = call_reg cg AllocTemp c;
                          (range_check_branch, c) =
                            (if range_check then
                               (let (reg_max, c) = call_reg cg AllocTemp c;
                                    c = c @ [Mem (LoadWordDisp obj count_offset reg_max),
                                             Mark (MarkPossibleNullPointerException
                                                     (opt_flags info)),
                                             Mem (LoadWordDisp obj offset_offset reg_off),
                                             Mark (MarkPossibleNullPointerException
                                                     (opt_flags info)),
                                             Mem (LoadWordDisp obj value_offset reg_ptr),
                                             Op (OpRegReg kOpCmp (GetReg (reg rl_idx)) reg_max),
                                             RA (FreeTemp reg_max)];
                                    (br, c) = new_lir (Br (OpCondBranch kCondUge None)) c
                                in (Some br, c))
                             else
                               (None,
                                c @ [Mem (LoadWordDisp obj offset_offset reg_off),
                                     Mark (MarkPossibleNullPointerException (opt_flags info)),
                                     Mem (LoadWordDisp obj value_offset reg_ptr)]))
                      in (range_check_branch, reg_off, reg_ptr,
                          c @ [Op (OpRegImm kOpAdd reg_ptr data_offset)]))
                   else
                     (let (range_check_branch, c) =
                            (if range_check then
                               (if is_const rl_idx then
                                  (let (br, c) = new_lir
                                         (Br (OpCmpMemImmBranch kCondUlt
                                                (INVALID_REG (constants cg)) obj count_offset
                                                (ConstantValue_sreg cg (orig_sreg rl_idx)) None)) c
                                   in (Some br, c))
                                else
                                  (let c = c @ [Op (OpRegMem kOpCmp (GetReg (reg rl_idx)) obj
                                                      count_offset)];
                                       (br, c) = new_lir (Br (OpCondBranch kCondUge None)) c
                                   in (Some br, c)))
                             else (None, c));
                          (reg_off, c) = call_reg cg AllocTemp c;
                          (reg_ptr, c) = call_reg cg AllocTemp c
                      in (range_check_branch, reg_off, reg_ptr,
                          c @ [Mem (LoadWordDisp obj offset_offset reg_off),
                               Mem (LoadWordDisp obj value_offset reg_ptr)])));
                c = c @ [if is_const rl_idx
                         then Op (OpRegImm kOpAdd reg_off
                                    (ConstantValue_sreg cg (orig_sreg rl_idx)))
                         else Op (OpRegReg kOpAdd reg_off (GetReg (reg rl_idx)))];
                c = c @ [RA (FreeTemp obj)];
                c = (if location rl_idx = kLocPhysReg
                     then c @ [RA (FreeTemp (GetReg (reg rl_idx)))] else c);
                (rl_dest, c) = InlineTarget cg info c;
                (rl_result, c) = call_loc cg (EvalLoc rl_dest kCoreReg True) c;
                c = c @ [if isa cg \<noteq> kX86
                         then Mem (LoadBaseIndexed reg_ptr reg_off (GetReg (reg rl_result)) 1
                                     kUnsignedHalf)
                         else Mem (LoadBaseIndexedDisp reg_ptr reg_off 1 data_offset
                                     (GetReg (reg rl_result)) (INVALID_REG (constants cg))
                                     kUnsignedHalf (INVALID_SREG (constants cg)))];
                c = c @ [RA (FreeTemp reg_off), RA (FreeTemp reg_ptr),
                         Val (StoreValue rl_dest rl_result)]
            in if range_check then
                 (let info' = info\<lparr>opt_flags :=
                                  opt_flags info OR MIR_IGNORE_NULL_CHECK (constants cg)\<rparr>
                  in Inr (True, info', AddIntrinsicLaunchpad info' range_check_branch None c))
               else Inr (True, info, c))))"

definition GenInlinedStringIsEmptyOrLength ::
  "Mir2Lir \<Rightarrow> CallInfo \<Rightarrow> bool \<Rightarrow> lir list \<Rightarrow> error + (bool \<times> CallInfo \<times> lir list)" where
  "GenInlinedStringIsEmptyOrLength cg info is_empty c0 =
    (if isa cg = kMips then Inr (False, info, c0)
     else
       (case arg_at info 0 of Inl e \<Rightarrow> Inl e | Inr rl_obj0 \<Rightarrow>
        (let (rl_obj, c) = call_loc cg (LoadValue rl_obj0 kCoreReg) c0;
             (rl_dest, c) = InlineTarget cg info c;
             (rl_result, c) = call_loc cg (EvalLoc rl_dest kCoreReg True) c;
             res = GetReg (reg rl_result);
             c = c @ [Mark (GenNullCheck (GetReg (reg rl_obj)) (opt_flags info)),
                      Mem (LoadWordDisp (GetReg (reg rl_obj)) (StringCountOffset (layout cg)) res),
                      Mark (MarkPossibleNullPointerException (opt_flags info))];
             c = (if is_empty then
                    (if isa cg = kThumb2 then
                       (let (t_reg, c) = call_reg cg AllocTemp c
                        in c @ [Op (OpRegReg kOpNeg t_reg res),
                                Op (OpRegRegReg kOpAdc res res t_reg)])
                     else c @ [Op (OpRegImm kOpSub res 1), Op (OpRegImm kOpLsr res 31)])
                  else c)
         in Inr (True, info, c @ [Val (StoreValue rl_dest rl_result)]))))"

definition GenInlinedReverseBytes ::
  "Mir2Lir \<Rightarrow> CallInfo \<Rightarrow> OpSize \<Rightarrow> lir list \<Rightarrow> error + (bool \<times> CallInfo \<times> lir list)" where
  "GenInlinedReverseBytes cg info sz c0 =
    (if isa cg = kMips then Inr (False, info, c0)
     else
       (case arg_at info 0 of Inl e \<Rightarrow> Inl e | Inr rl_src_i \<Rightarrow>
        (let (rl_dest, c) = (if sz = kLong then InlineTargetWide cg info c0
                             else InlineTarget cg info c0);
             (rl_result, c) = call_loc cg (EvalLoc rl_dest kCoreReg True) c
         in if sz = kLong then
              (let (rl_i, c) = call_loc cg (LoadValueWide rl_src_i kCoreReg) c;
                   same = (GetReg (reg rl_i) = GetReg (reg rl_result));
                   (r_i_low, c) =
                     (if same then
                        (let (t, c) = call_reg cg AllocTemp c
                         in (t, c @ [Op (OpRegCopy t (GetReg (reg rl_i)))]))
                      else (GetReg (reg rl_i), c));
                   c = c @ [Op (OpRegReg kOpRev (GetReg (reg rl_result)) (GetHighReg (reg rl_i))),
                            Op (OpRegReg kOpRev (GetHighReg (reg rl_result)) r_i_low)];
                   c = (if same then c @ [RA (FreeTemp r_i_low)] else c)
               in Inr (True, info, c @ [Val (StoreValueWide rl_dest rl_result)]))
            else
              (let op = (if sz = kWord then kOpRev else kOpRevsh);
                   (rl_i, c) = call_loc cg (LoadValue rl_src_i kCoreReg) c
               in Inr (True, info,
                       c @ [Op (OpRegReg op (GetReg (reg rl_result)) (GetReg (reg rl_i))),
                            Val (StoreValue rl_dest rl_result)])))))"

definition GenInlinedAbsInt ::
  "Mir2Lir \<Rightarrow> CallInfo \<Rightarrow> lir list \<Rightarrow> error + (bool \<times> CallInfo \<times> lir list)" where
  "GenInlinedAbsInt cg info c0 =
    (if isa cg = kMips then Inr (False, info, c0)
     else
       (case arg_at info 0 of Inl e \<Rightarrow> Inl e | Inr rl_src0 \<Rightarrow>
        (let (rl_src, c) = call_loc cg (LoadValue rl_src0 kCoreReg) c0;
             (rl_dest, c) = InlineTarget cg info c;
             (rl_result, c) = call_loc cg (EvalLoc rl_dest kCoreReg True) c;
             (sign_reg, c) = call_reg cg AllocTemp c;
             src = GetReg (reg rl_src);
             res = GetReg (reg rl_result)
         in Inr (True, info,
                 c @ [Op (OpRegRegImm kOpAsr sign_reg src 31),
                      Op (OpRegRegReg kOpAdd res src sign_reg),
                      Op (OpRegReg kOpXor res sign_reg),
                      Val (StoreValue rl_dest rl_result)]))))"

definition GenInlinedAbsLong ::
  "Mir2Lir \<Rightarrow> CallInfo \<Rightarrow> lir list \<Rightarrow> error + (bool \<times> CallInfo \<times> lir list)" where
  "GenInlinedAbsLong cg info c0 =
    (if isa cg = kMips then Inr (False, info, c0)
     else
       (case arg_at info 0 of Inl e \<Rightarrow> Inl e | Inr rl_src0 \<Rightarrow>
        (let (rl_src, c) = call_loc cg (LoadValueWide rl_src0 kCoreReg) c0;
             (rl_dest, c) = InlineTargetWide cg info c;
             (rl_result, c) = call_loc cg (EvalLoc rl_dest kCoreReg True) c;
             src_lo = GetReg (reg rl_src); src_hi = GetHighReg (reg rl_src);
             res_lo = GetReg (reg rl_result); res_hi = GetHighReg (reg rl_result)
         in if isa cg = kThumb2 then
              (let (sign_reg, c) = call_reg cg AllocTemp c
               in Inr (True, info,
                       c @ [Op (OpRegRegImm kOpAsr sign_reg src_hi 31),
                            Op (OpRegRegReg kOpAdd res_lo src_lo sign_reg),
                            Op (OpRegRegReg kOpAdc res_hi src_hi sign_reg),
                            Op (OpRegReg kOpXor res_lo sign_reg),
                            Op (OpRegReg kOpXor res_hi sign_reg),
                            Val (StoreValueWide rl_dest rl_result)]))
            else
              (let c = c @ [Op (OpRegCopyWide res_lo res_hi src_lo src_hi),
                            RA (FreeTemp src_lo), RA (FreeTemp src_hi)];
                   (sign_reg, c) = call_reg cg AllocTemp c
               in Inr (True, info,
                       c @ [Op (OpRegRegImm kOpAsr sign_reg res_hi 31),
                            Op (OpRegReg kOpAdd res_lo sign_reg),
                            Op (OpRegReg kOpAdc res_hi sign_reg),
                            Op (OpRegReg kOpXor res_lo sign_reg),
                            Op (OpRegReg kOpXor res_hi sign_reg),
                            Val (StoreValueWide rl_dest rl_result)])))))"

definition GenInlinedAbsFloat ::
  "Mir2Lir \<Rightarrow> CallInfo \<Rightarrow> lir list \<Rightarrow> error + (bool \<times> CallInfo \<times> lir list)" where
  "GenInlinedAbsFloat cg info c0 =
    (if isa cg = kMips then Inr (False, info, c0)
     else
       (case arg_at info 0 of Inl e \<Rightarrow> Inl e | Inr rl_src0 \<Rightarrow>
        (let (rl_src, c) = call_loc cg (LoadValue rl_src0 kCoreReg) c0;
             (rl_dest, c) = InlineTarget cg info c;
             (rl_result, c) = call_loc cg (EvalLoc rl_dest kCoreReg True) c;
             (signMask, c) = call_reg cg AllocTemp c
         in Inr (True, info,
                 c @ [Mem (LoadConstant signMask 0x7fffffff),
                      Op (OpRegRegReg kOpAnd (GetReg (reg rl_result)) (GetReg (reg rl_src))
                            signMask),
                      RA (FreeTemp signMask),
                      Val (StoreValue rl_dest rl_result)]))))"

definition GenInlinedAbsDouble ::
  "Mir2Lir \<Rightarrow> CallInfo \<Rightarrow> lir list \<Rightarrow> error + (bool \<times> CallInfo \<times> lir list)" where
  "GenInlinedAbsDouble cg info c0 =
    (if isa cg = kMips then Inr (False, info, c0)
     else
       (case arg_at info 0 of Inl e \<Rightarrow> Inl e | Inr rl_src0 \<Rightarrow>
        (let (rl_src, c) = call_loc cg (LoadValueWide rl_src0 kCoreReg) c0;
             (rl_dest, c) = InlineTargetWide cg info c;
             (rl_result, c) = call_loc cg (EvalLoc rl_dest kCoreReg True) c;
             c = c @ [Op (OpRegCopyWide (GetReg (reg rl_result)) (GetHighReg (reg rl_result))
                            (GetReg (reg rl_src)) (GetHighReg (reg rl_src))),
                      RA (FreeTemp (GetReg (reg rl_src))),
                      RA (FreeTemp (GetHighReg (reg rl_src)))];
             (signMask, c) = call_reg cg AllocTemp c
         in Inr (True, info,
                 c @ [Mem (LoadConstant signMask 0x7fffffff),
                      Op (OpRegReg kOpAnd (GetHighReg (reg rl_result)) signMask),
                      RA (FreeTemp signMask),
                      Val (StoreValueWide rl_dest rl_result)]))))"

definition GenInlinedFloatCvt ::
  "Mir2Lir \<Rightarrow> CallInfo \<Rightarrow> lir list \<Rightarrow> error + (bool \<times> CallInfo \<times> lir list)" where
  "GenInlinedFloatCvt cg info c0 =
    (if isa cg = kMips then Inr (False, info, c0)
     else
       (case arg_at info 0 of Inl e \<Rightarrow> Inl e | Inr rl_src \<Rightarrow>
        (let (rl_dest, c) = InlineTarget cg info c0
         in Inr (True, info, c @ [Val (StoreValue rl_dest rl_src)]))))"

definition GenInlinedDoubleCvt ::
  "Mir2Lir \<Rightarrow> CallInfo \<Rightarrow> lir list \<Rightarrow> error + (bool \<times> CallInfo \<times> lir list)" where
  "GenInlinedDoubleCvt cg info c0 =
    (if isa cg = kMips then Inr (False, info, c0)
     else
       (case arg_at info 0 of Inl e \<Rightarrow> Inl e | Inr rl_src \<Rightarrow>
        (let (rl_dest, c) = InlineTargetWide cg info c0
         in Inr (True, info, c @ [Val (StoreValueWide rl_dest rl_src)]))))"

definition GenInlinedIndexOf ::
  "Mir2Lir \<Rightarrow> CallInfo \<Rightarrow> bool \<Rightarrow> lir list \<Rightarrow> error + (bool \<times> CallInfo \<times> lir list)" where
  "GenInlinedIndexOf cg info zero_based c0 =
    (if isa cg = kMips then Inr (False, info, c0)
     else
       (case arg_at info 0 of Inl e \<Rightarrow> Inl e | Inr rl_obj \<Rightarrow>
        case arg_at info 1 of Inl e \<Rightarrow> Inl e | Inr rl_char \<Rightarrow>
        if is_const rl_char \<and> (ConstantValue cg rl_char AND NOT 0xFFFF) \<noteq> 0
        then Inr (False, info, c0)
        else
          (let c = c0 @ [RA ClobberCallerSave, RA LockCallTemps];
               reg_ptr = TargetReg cg kArg0;
               reg_char = TargetReg cg kArg1;
               reg_start = TargetReg cg kArg2;
               c = c @ [Val (LoadValueDirectFixed rl_obj reg_ptr),
                        Val (LoadValueDirectFixed rl_char reg_char)]
           in case (if zero_based then Inr (c @ [Mem (LoadConstant reg_start 0)])
                    else (case arg_at info 2 of
                            Inl e \<Rightarrow> Inl e
                          | Inr rl_start \<Rightarrow>
                              Inr (c @ [Val (LoadValueDirectFixed rl_start reg_start)]))) of
                Inl e \<Rightarrow> Inl e
              | Inr c \<Rightarrow>
                 (let (r_tgt, c) = call_reg cg (LoadHelper (QUICK_ENTRYPOINT_OFFSET pIndexOf)) c;
                      c = c @ [Mark (GenNullCheck reg_ptr (opt_flags info))];
                      (high_code_point_branch, c) =
                        (if is_const rl_char then (None, c)
                         else (let (br, c) = new_lir
                                     (Br (OpCmpImmBranch kCondGt reg_char 0xFFFF None)) c
                               in (Some br, c)));
                      c = c @ [Op (OpReg kOpBlx r_tgt)];
                      (info', c) =
                        (if \<not> is_const rl_char then
                           (let (resume_tgt, c) = new_lir (Br (NewLIR0 kPseudoTargetLabel)) c;
                                info' = info\<lparr>opt_flags :=
                                   opt_flags info OR MIR_IGNORE_NULL_CHECK (constants cg)\<rparr>
                            in (info', AddIntrinsicLaunchpad info' high_code_point_branch
                                         (Some resume_tgt) c))
                         else (info, c));
                      (rl_return, c) = call_loc cg (GetReturn False) c;
                      (rl_dest, c) = InlineTarget cg info' c
                  in Inr (True, info', c @ [Val (StoreValue rl_dest rl_return)])))))"

definition GenInlinedStringCompareTo ::
  "Mir2Lir \<Rightarrow> CallInfo \<Rightarrow> lir list \<Rightarrow> error + (bool \<times> CallInfo \<times> lir list)" where
  "GenInlinedStringCompareTo cg info c0 =
    (if isa cg = kMips then Inr (False, info, c0)
     else
       (let c = c0 @ [RA ClobberCallerSave, RA LockCallTemps];
            reg_this = TargetReg cg kArg0;
            reg_cmp = TargetReg cg kArg1
        in case arg_at info 0 of Inl e \<Rightarrow> Inl e | Inr rl_this \<Rightarrow>
           case arg_at info 1 of Inl e \<Rightarrow> Inl e | Inr rl_cmp \<Rightarrow>
           (let c = c @ [Val (LoadValueDirectFixed rl_this reg_this),
                         Val (LoadValueDirectFixed rl_cmp reg_cmp)];
                (r_tgt, c) = (if isa cg \<noteq> kX86
                              then call_reg cg (LoadHelper (QUICK_ENTRYPOINT_OFFSET
                                                              pStringCompareTo)) c
                              else (0, c));
                c = c @ [Mark (GenNullCheck reg_this (opt_flags info))];
                info' = info\<lparr>opt_flags :=
                           opt_flags info OR MIR_IGNORE_NULL_CHECK (constants cg)\<rparr>;
                (cmp_null_check_branch, c) =
                  new_lir (Br (OpCmpImmBranch kCondEq reg_cmp 0 None)) c;
                c = AddIntrinsicLaunchpad info' (Some cmp_null_check_branch) None c;
                c = c @ [if isa cg \<noteq> kX86 then Op (OpReg kOpBlx r_tgt)
                         else Op (OpThreadMem kOpBlx
                                    (QUICK_ENTRYPOINT_OFFSET pStringCompareTo))];
                (rl_return, c) = call_loc cg (GetReturn False) c;
                (rl_dest, c) = InlineTarget cg info' c
            in Inr (True, info', c @ [Val (StoreValue rl_dest rl_return)]))))"

definition GenInlinedCurrentThread ::
  "Mir2Lir \<Rightarrow> CallInfo \<Rightarrow> lir list \<Rightarrow> error + (bool \<times> CallInfo \<times> lir list)" where
  "GenInlinedCurrentThread cg info c0 =
    (let (rl_dest, c) = InlineTarget cg info c0;
         (rl_result, c) = call_loc cg (EvalLoc rl_dest kCoreReg True) c;
         offs = PeerOffset;
         c = c @ [if isa cg = kThumb2 \<or> isa cg = kMips
                  then Mem (LoadWordDisp (TargetReg cg kSelf) (Int32Value (layout cg) offs)
                              (GetReg (reg rl_result)))
                  else Op (OpRegThreadMem kOpMov (GetReg (reg rl_result)) offs)]
     in Inr (True, info, c @ [Val (StoreValue rl_dest rl_result)]))"

definition GenInlinedUnsafeGet ::
  "Mir2Lir \<Rightarrow> CallInfo \<Rightarrow> bool \<Rightarrow> bool \<Rightarrow> lir list
   \<Rightarrow> error + (bool \<times> CallInfo \<times> lir list)" where
  "GenInlinedUnsafeGet cg info is_long is_volatile c0 =
    (if isa cg = kMips then Inr (False, info, c0)
     else
       (case arg_at info 1 of Inl e \<Rightarrow> Inl e | Inr rl_src_obj \<Rightarrow>
        case arg_at info 2 of Inl e \<Rightarrow> Inl e | Inr rl_src_offset0 \<Rightarrow>
        (let rl_src_offset = rl_src_offset0\<lparr>wide := False\<rparr>;
             (rl_dest, c) = (if is_long then InlineTargetWide cg info c0
                             else InlineTarget cg info c0);
             c = (if is_volatile then c @ [Mark (GenMemBarrier kLoadLoad)] else c);
             (rl_object, c) = call_loc cg (LoadValue rl_src_obj kCoreReg) c;
             (rl_offset, c) = call_loc cg (LoadValue rl_src_offset kCoreReg) c;
             (rl_result, c) = call_loc cg (EvalLoc rl_dest kCoreReg True) c
         in if is_long then
              Inr (True, info,
                   c @ [Op (OpRegReg kOpAdd (GetReg (reg rl_object)) (GetReg (reg rl_offset))),
                        Mem (LoadBaseDispWide (GetReg (reg rl_object)) 0
                               (GetReg (reg rl_result)) (GetHighReg (reg rl_result))
                               (INVALID_SREG (constants cg))),
                        Val (StoreValueWide rl_dest rl_result)])
            else
              Inr (True, info,
                   c @ [Mem (LoadBaseIndexed (GetReg (reg rl_object)) (GetReg (reg rl_offset))
                               (GetReg (reg rl_result)) 0 kWord),
                        Val (StoreValue rl_dest rl_result)]))))"

definition GenInlinedUnsafePut ::
  "Mir2Lir \<Rightarrow> CallInfo \<Rightarrow> bool \<Rightarrow> bool \<Rightarrow> bool \<Rightarrow> bool \<Rightarrow> lir list
   \<Rightarrow> error + (bool \<times> CallInfo \<times> lir list)" where
  "GenInlinedUnsafePut cg info is_long is_object is_volatile is_ordered c0 =
    (if isa cg = kMips then Inr (False, info, c0)
     else
       (case arg_at info 1 of Inl e \<Rightarrow> Inl e | Inr rl_src_obj \<Rightarrow>
        case arg_at info 2 of Inl e \<Rightarrow> Inl e | Inr rl_src_offset0 \<Rightarrow>
        case arg_at info 4 of Inl e \<Rightarrow> Inl e | Inr rl_src_value \<Rightarrow>
        (let rl_src_offset = rl_src_offset0\<lparr>wide := False\<rparr>;
             c = (if is_volatile \<or> is_ordered
                  then c0 @ [Mark (GenMemBarrier kStoreStore)] else c0);
             (rl_object, c) = call_loc cg (LoadValue rl_src_obj kCoreReg) c;
             (rl_offset, c) = call_loc cg (LoadValue rl_src_offset kCoreReg) c;
             (rl_value, c) =
               (if is_long then
                  (let (rl_value, c) = call_loc cg (LoadValueWide rl_src_value kCoreReg) c
                   in (rl_value,
                       c @ [Op (OpRegReg kOpAdd (GetReg (reg rl_object))
                                  (GetReg (reg rl_offset))),
                            Mem (StoreBaseDispWide (GetReg (reg rl_object)) 0
                                   (GetReg (reg rl_value)) (GetHighReg (reg rl_value)))]))
                else
                  (let (rl_value, c) = call_loc cg (LoadValue rl_src_value kCoreReg) c
                   in (rl_value,
                       c @ [Mem (StoreBaseIndexed (GetReg (reg rl_object))
                                   (GetReg (reg rl_offset)) (GetReg (reg rl_value)) 0 kWord)])));
             c = c @ [RA (FreeTemp (GetReg (reg rl_offset)))];
             c = (if is_volatile then c @ [Mark (GenMemBarrier kStoreLoad)] else c);
             c = (if is_object
                  then c @ [Mark (MarkGCCard (GetReg (reg rl_value)) (GetReg (reg rl_object)))]
                  else c)
         in Inr (True, info, c))))"

text \<open>
  The intrinsic routines of this file, with their extra arguments, and the call of one.
\<close>

datatype Intrinsic =
    CharAt | StringIsEmptyOrLength bool | ReverseBytes OpSize | AbsInt | AbsLong | AbsFloat
  | AbsDouble | FloatCvt | DoubleCvt | IndexOf bool | StringCompareTo | CurrentThread
  | UnsafeGet bool bool | UnsafePut bool bool bool bool

fun GenInlined ::
  "Intrinsic \<Rightarrow> Mir2Lir \<Rightarrow> CallInfo \<Rightarrow> lir list \<Rightarrow> error + (bool \<times> CallInfo \<times> lir list)" where
  "GenInlined CharAt cg info c = GenInlinedCharAt cg info c"
| "GenInlined (StringIsEmptyOrLength is_empty) cg info c =
     GenInlinedStringIsEmptyOrLength cg info is_empty c"
| "GenInlined (ReverseBytes sz) cg info c = GenInlinedReverseBytes cg info sz c"
| "GenInlined AbsInt cg info c = GenInlinedAbsInt cg info c"
| "GenInlined AbsLong cg info c = GenInlinedAbsLong cg info c"
| "GenInlined AbsFloat cg info c = GenInlinedAbsFloat cg info c"
| "GenInlined AbsDouble cg info c = GenInlinedAbsDouble cg info c"
| "GenInlined FloatCvt cg info c = GenInlinedFloatCvt cg info c"
| "GenInlined DoubleCvt cg info c = GenInlinedDoubleCvt cg info c"
| "GenInlined (IndexOf zero_based) cg info c = GenInlinedIndexOf cg info zero_based c"
| "GenInlined StringCompareTo cg info c = GenInlinedStringCompareTo cg info c"
| "GenInlined CurrentThread cg info c = GenInlinedCurrentThread cg info c"
| "GenInlined (UnsafeGet is_long is_volatile) cg info c =
     GenInlinedUnsafeGet cg info is_long is_volatile c"
| "GenInlined (UnsafePut is_long is_object is_volatile is_ordered) cg info c =
     GenInlinedUnsafePut cg info is_long is_object is_volatile is_ordered c"

text \<open>
  One turn of the loop of \<open>GenDalvikArgsNoRange\<close>, as a function of its own: the new
  \<open>next_use\<close>, the new \<open>call_state\<close> and the extended list (used to reason about the
  loop; \<open>GenDalvikArgsNoRange_loop\<close> above is the loop itself).
\<close>

definition GenDalvikArgsNoRange_turn ::
  "Mir2Lir \<Rightarrow> CallInfo \<Rightarrow> NextCallInsn \<Rightarrow> MethodReference \<Rightarrow> 32 word \<Rightarrow> 32 word \<Rightarrow> 32 word
   \<Rightarrow> InvokeType \<Rightarrow> int \<Rightarrow> int \<Rightarrow> lir list \<Rightarrow> error + (int \<times> int \<times> lir list)" where
  "GenDalvikArgsNoRange_turn cg info f target_method vtable_idx direct_code direct_method type
      next_use call_state c =
    (case arg_at info (nat next_use) of
       Inl e \<Rightarrow> Inl e
     | Inr raw \<Rightarrow>
        (let c1 = c @ [Val (UpdateRawLoc raw)];
             rl_arg = ret_loc cg c1
         in case (if location rl_arg = kLocPhysReg then
                    Inr (GetReg (reg rl_arg),
                         if wide rl_arg then GetHighReg (reg rl_arg) else - 1,
                         call_state, c1)
                  else
                    (let low_reg = TargetReg cg kArg2;
                         high_reg = (if wide rl_arg then TargetReg cg kArg3 else - 1);
                         c2 = c1 @ [if wide rl_arg
                                    then Val (LoadValueDirectWideFixed rl_arg low_reg high_reg)
                                    else Val (LoadValueDirectFixed rl_arg low_reg)]
                     in case next_call_insn f cg info call_state target_method vtable_idx
                               direct_code direct_method type c2 of
                          Inl e \<Rightarrow> Inl e
                        | Inr (s, c3) \<Rightarrow> Inr (low_reg, high_reg, s, c3))) of
              Inl e \<Rightarrow> Inl e
            | Inr (low_reg, high_reg, s, c4) \<Rightarrow>
               (let outs_offset = (next_use + 1) * 4;
                    c5 = c4 @ [if wide rl_arg
                               then Mem (StoreBaseDispWide (TargetReg cg kSp) outs_offset
                                           low_reg high_reg)
                               else Mem (StoreWordDisp (TargetReg cg kSp) outs_offset low_reg)]
                in case next_call_insn f cg info s target_method vtable_idx
                          direct_code direct_method type c5 of
                     Inl e \<Rightarrow> Inl e
                   | Inr (s', c6) \<Rightarrow>
                       Inr (if wide rl_arg then next_use + 2 else next_use + 1, s', c6))))"

text \<open>
  Call instructions (a \<open>kOpBlx\<close> through a register, through memory or through the
  thread, or a call with linker fixup), and the marking of an instruction as a safepoint.
\<close>

definition is_call :: "lir \<Rightarrow> bool" where
  "is_call e =
    (case e of
       Op p \<Rightarrow> (case p of
                   OpReg k r \<Rightarrow> k = kOpBlx
                 | OpMem k b d \<Rightarrow> k = kOpBlx
                 | OpThreadMem k t \<Rightarrow> k = kOpBlx
                 | CallWithLinkerFixup t ty \<Rightarrow> True
                 | _ \<Rightarrow> False)
     | _ \<Rightarrow> False)"

definition is_safepoint_mark :: "lir \<Rightarrow> bool" where
  "is_safepoint_mark e =
    (case e of
       Mark k \<Rightarrow> (case k of MarkSafepointPC n \<Rightarrow> True | _ \<Rightarrow> False)
     | _ \<Rightarrow> False)"

text \<open>The launchpads registered by a list of calls, in order.\<close>

definition launchpads :: "lir list \<Rightarrow> IntrinsicLaunchpadPath list" where
  "launchpads c = concat (map (\<lambda>e. case e of AddSlowPath lp \<Rightarrow> [lp] | _ \<Rightarrow> []) c)"

text \<open>Calls with two argument words, for the string intrinsics.\<close>

definition example_info2 :: CallInfo where
  "example_info2 = example_info\<lparr> num_arg_words := 2, args := [example_arg 0, example_arg 1] \<rparr>"

section \<open>Properties of the dispatch-resolution state machine\<close>

lemmas example_defs = example_cg_def example_layout_def example_TargetReg_def
  example_info_def example_method_def example_method_info_def example_loc_def example_ret_loc_def isa_def arg_at_def

lemma entry_state_x86_emits_nothing:
  assumes "next_call_insn f cg info state tm idx dc dm ty c = Inr (s, c')"
    and "entry_point_load_state f dc dm = Some state" and "isa cg = kX86"
  shows "c' = c"
  using assms
  by (cases f) (auto simp: Next_defs entry_point_load_state_def Let_def split: if_splits sum.splits)

lemma after_entry_state:
  assumes "entry_point_load_state f dc dm = Some state"
  shows "next_call_insn f cg info (state + 1) tm idx dc dm ty c = Inr (- 1, c)"
  using assms
  by (cases f) (auto simp: Next_defs entry_point_load_state_def Let_def split: if_splits)

lemma entry_state_emits:
  assumes "next_call_insn f cg info state tm idx dc dm ty c = Inr (s, c')"
    and "entry_point_load_state f dc dm = Some state"
  shows "c' = c @ (if isa cg = kX86 \<or> (f = fnNextSDCallInsn \<and> dc \<noteq> 0) then []
                   else [Mem (LoadWordDisp (TargetReg cg kArg0)
                                (EntryPointFromQuickCompiledCodeOffset (layout cg))
                                (TargetReg cg kInvokeTgt))])"
  using assms
  by (cases f) (auto simp: Next_defs entry_point_load_state_def Let_def split: if_splits)

text \<open>
  C1 (as stated, refuted).  The claim says that the architecture never changes which step
  index is returned next, nor the step at which the terminal sentinel is first returned.
  State 3 of the static/direct sequence for a callee that is not statically known:
  x86 falls through to \<open>return -1\<close> and emits nothing, Thumb2 emits the entry-point
  load and returns 4, and returns the sentinel only at state 4.
\<close>

theorem C1_counterexample:
  "NextSDCallInsn (example_cg kX86) example_info 3 example_method 0 0 0 kStatic []
     = Inr (- 1, [])
   \<and> NextSDCallInsn (example_cg kThumb2) example_info 3 example_method 0 0 0 kStatic []
     = Inr (4, [Mem (LoadWordDisp 0 40 14)])
   \<and> NextSDCallInsn (example_cg kThumb2) example_info 4 example_method 0 0 0 kStatic []
     = Inr (- 1, [])"
  by (simp add: NextSDCallInsn_def example_defs)

text \<open>
  C1 (amended).  For every dispatch-resolution routine (the function pointer \<open>f\<close>) and
  every state, two architectures on which the step returns normally return the same step
  index, except at the entry-point-load state of a fast-path routine (state 3 of
  static/direct when the callee is not fully known, 4 of virtual, 5 of interface):
  there x86 returns the terminal sentinel at once and emits nothing, while every other
  architecture returns \<open>state + 1\<close> and the sentinel one state later.  What another
  architecture emits at that state is the load of the entry point from the method object
  into the invoke-target register, with one exception: in the static/direct sequence with
  a known code address (\<open>direct_code\<close> nonzero, the method unknown) state 1 has already
  set the invoke target, and state 3 emits nothing on any architecture.
\<close>

theorem C1_step_index_across_architectures:
  assumes "next_call_insn f cg1 info state tm idx dc dm ty c1 = Inr (s1, c1')"
    and "next_call_insn f cg2 info state tm idx dc dm ty c2 = Inr (s2, c2')"
  shows "(entry_point_load_state f dc dm \<noteq> Some state \<longrightarrow> s1 = s2)
       \<and> (entry_point_load_state f dc dm = Some state \<longrightarrow>
            s1 = (if isa cg1 = kX86 then - 1 else state + 1)
          \<and> s2 = (if isa cg2 = kX86 then - 1 else state + 1)
          \<and> (isa cg1 = kX86 \<longrightarrow> c1' = c1)
          \<and> next_call_insn f cg2 info (state + 1) tm idx dc dm ty c2' = Inr (- 1, c2')
          \<and> c1' = c1 @ (if isa cg1 = kX86 \<or> (f = fnNextSDCallInsn \<and> dc \<noteq> 0) then []
                        else [Mem (LoadWordDisp (TargetReg cg1 kArg0)
                                     (EntryPointFromQuickCompiledCodeOffset (layout cg1))
                                     (TargetReg cg1 kInvokeTgt))])
          \<and> c2' = c2 @ (if isa cg2 = kX86 \<or> (f = fnNextSDCallInsn \<and> dc \<noteq> 0) then []
                        else [Mem (LoadWordDisp (TargetReg cg2 kArg0)
                                     (EntryPointFromQuickCompiledCodeOffset (layout cg2))
                                     (TargetReg cg2 kInvokeTgt))]))"
proof (intro conjI impI)
  assume "entry_point_load_state f dc dm \<noteq> Some state"
  with next_state_cases [OF assms(1)] next_state_cases [OF assms(2)]
  show "s1 = s2" by simp
next
  assume e: "entry_point_load_state f dc dm = Some state"
  then have "0 \<le> state"
    by (auto simp: entry_point_load_state_def split: NextCallInsn.splits if_splits)
  with e next_state_cases [OF assms(1)] next_state_cases [OF assms(2)]
  show "s1 = (if isa cg1 = kX86 then - 1 else state + 1)"
    and "s2 = (if isa cg2 = kX86 then - 1 else state + 1)" by simp_all
  show "next_call_insn f cg2 info (state + 1) tm idx dc dm ty c2' = Inr (- 1, c2')"
    by (rule after_entry_state [OF e])
  show "c1' = c1 @ (if isa cg1 = kX86 \<or> (f = fnNextSDCallInsn \<and> dc \<noteq> 0) then []
                        else [Mem (LoadWordDisp (TargetReg cg1 kArg0)
                                     (EntryPointFromQuickCompiledCodeOffset (layout cg1))
                                     (TargetReg cg1 kInvokeTgt))])"
    by (rule entry_state_emits [OF assms(1) e])
  show "c2' = c2 @ (if isa cg2 = kX86 \<or> (f = fnNextSDCallInsn \<and> dc \<noteq> 0) then []
                        else [Mem (LoadWordDisp (TargetReg cg2 kArg0)
                                     (EntryPointFromQuickCompiledCodeOffset (layout cg2))
                                     (TargetReg cg2 kInvokeTgt))])"
    by (rule entry_state_emits [OF assms(2) e])
  assume "isa cg1 = kX86"
  with entry_state_x86_emits_nothing [OF assms(1) e] show "c1' = c1" by simp
qed

theorem C1_step_index_witness:
  "next_call_insn fnNextVCallInsn (example_cg kX86) example_info 4 example_method 3 0 0
      kVirtual [] = Inr (- 1, [])
   \<and> next_call_insn fnNextVCallInsn (example_cg kThumb2) example_info 4 example_method 3 0 0
      kVirtual [] = Inr (5, [Mem (LoadWordDisp 0 40 14)])
   \<and> entry_point_load_state fnNextVCallInsn 0 0 = Some 4
   \<and> next_call_insn fnNextVCallInsn (example_cg kThumb2) example_info 5 example_method 3 0 0
      kVirtual [Mem (LoadWordDisp 0 40 14)] = Inr (- 1, [Mem (LoadWordDisp 0 40 14)])
   \<and> next_call_insn fnNextSDCallInsn (example_cg kX86) example_info 3 example_method 0 4096 0
      kStatic [] = Inr (- 1, [])
   \<and> next_call_insn fnNextSDCallInsn (example_cg kThumb2) example_info 3 example_method 0
      4096 0 kStatic [] = Inr (4, [])
   \<and> entry_point_load_state fnNextSDCallInsn 4096 0 = Some 3
   \<and> next_call_insn fnNextSDCallInsn (example_cg kThumb2) example_info 4 example_method 0
      4096 0 kStatic [] = Inr (- 1, [])"
proof -
  have h1: "next_call_insn fnNextVCallInsn (example_cg kX86) example_info 4 example_method 3 0 0
      kVirtual [] = Inr (- 1, [])"
    by (simp add: NextVCallInsn_def example_defs)
  have h2: "next_call_insn fnNextVCallInsn (example_cg kThumb2) example_info 4 example_method
      3 0 0 kVirtual [] = Inr (5, [Mem (LoadWordDisp 0 40 14)])"
    by (simp add: NextVCallInsn_def example_defs)
  have e: "entry_point_load_state fnNextVCallInsn 0 0 = Some 4"
    by (simp add: entry_point_load_state_def)
  have k1: "next_call_insn fnNextSDCallInsn (example_cg kX86) example_info 3 example_method 0
      4096 0 kStatic [] = Inr (- 1, [])"
    by (simp add: NextSDCallInsn_def example_defs)
  have k2: "next_call_insn fnNextSDCallInsn (example_cg kThumb2) example_info 3 example_method
      0 4096 0 kStatic [] = Inr (4, [])"
    by (simp add: NextSDCallInsn_def example_defs)
  have d: "entry_point_load_state fnNextSDCallInsn 4096 0 = Some 3"
    by (simp add: entry_point_load_state_def)
  from C1_step_index_across_architectures [OF h1 h2, THEN conjunct2, rule_format, OF e,
         THEN conjunct2, THEN conjunct2, THEN conjunct2, THEN conjunct1]
  have a: "next_call_insn fnNextVCallInsn (example_cg kThumb2) example_info 5 example_method
      3 0 0 kVirtual [Mem (LoadWordDisp 0 40 14)] = Inr (- 1, [Mem (LoadWordDisp 0 40 14)])"
    by simp
  from C1_step_index_across_architectures [OF k1 k2, THEN conjunct2, rule_format, OF d,
         THEN conjunct2, THEN conjunct2, THEN conjunct2, THEN conjunct1]
  have b: "next_call_insn fnNextSDCallInsn (example_cg kThumb2) example_info 4 example_method
      0 4096 0 kStatic [] = Inr (- 1, [])"
    by simp
  from h1 h2 e a k1 k2 d b show ?thesis by blast
qed

text \<open>
  C2 (as stated, refuted).  A static call with known code address and method pointer on
  x86: step 0 loads the method pointer into argument 0 and nothing into the invoke-target
  register.
\<close>

theorem C2_counterexample:
  "NextSDCallInsn (example_cg kX86) example_info 0 example_method 0 4096 8192 kStatic []
     = Inr (1, [Mem (LoadConstant (example_TargetReg kArg0) 8192)])"
  by (simp add: NextSDCallInsn_def example_defs)

text \<open>
  C2 (amended).  For a static or direct invocation whose code address and method pointer
  are both known (nonzero), the routine performs exactly one productive step.  Step 0
  loads the method pointer into argument 0 (a constant, or a position-independent load
  when it is the sentinel \<open>-1\<close>), preceded on every architecture but x86 by the load of
  the code address into the invoke-target register (a constant, or a position-independent
  load); on x86 the code address is not loaded.  Step 0 returns 1; every other state
  returns the terminal sentinel and emits nothing.
\<close>

theorem C2_known_static_direct_single_step:
  assumes "direct_code \<noteq> 0" and "direct_method \<noteq> 0"
  shows "NextSDCallInsn cg info state target_method unused direct_code direct_method type c =
    (if state = 0 then
       Inr (1, c
          @ (if isa cg = kX86 then []
             else if direct_code \<noteq> - 1
               then [Mem (LoadConstant (TargetReg cg kInvokeTgt) (sint direct_code))]
               else [Mem (LoadCodeAddress target_method type kInvokeTgt)])
          @ (if direct_method \<noteq> - 1
               then [Mem (LoadConstant (TargetReg cg kArg0) (sint direct_method))]
               else [Mem (LoadMethodAddress target_method type kArg0)]))
     else Inr (- 1, c))"
  using assms by (simp add: NextSDCallInsn_def Let_def)

theorem C2_known_static_direct_witness:
  "(4096 :: 32 word) \<noteq> 0 \<and> (8192 :: 32 word) \<noteq> 0
   \<and> NextSDCallInsn (example_cg kThumb2) example_info 0 example_method 0 4096 8192 kStatic []
     = Inr (1, [Mem (LoadConstant 14 4096), Mem (LoadConstant 0 8192)])
   \<and> NextSDCallInsn (example_cg kThumb2) example_info 1 example_method 0 4096 8192 kStatic
       [Mem (LoadConstant 14 4096), Mem (LoadConstant 0 8192)]
     = Inr (- 1, [Mem (LoadConstant 14 4096), Mem (LoadConstant 0 8192)])"
proof -
  have h1: "(4096 :: 32 word) \<noteq> 0" and h2: "(8192 :: 32 word) \<noteq> 0" by simp_all
  show ?thesis
    using C2_known_static_direct_single_step [OF h1 h2, of "example_cg kThumb2" example_info 0
        example_method 0 kStatic "[]"]
      C2_known_static_direct_single_step [OF h1 h2, of "example_cg kThumb2" example_info 1
        example_method 0 kStatic "[Mem (LoadConstant 14 4096), Mem (LoadConstant 0 8192)]"]
    by (simp add: example_defs)
qed

text \<open>
  C3 (as stated, refuted).  An unresolved virtual call on x86: state 0 loads the method
  index into argument 0 and does not load the trampoline's address (the call instruction
  calls through the thread's entrypoint table).  On MIPS both loads are emitted.
\<close>

theorem C3_counterexample:
  "NextVCallInsnSP (example_cg kX86) example_info 0 example_method 0 0 0 kVirtual []
     = Inr (1, [Mem (LoadConstant (example_TargetReg kArg0) 5)])"
  by (simp add: NextVCallInsnSP_def NextInvokeInsnSP_def example_defs)

text \<open>
  C3 (amended).  For every invocation kind in unresolved mode the routine performs
  exactly one step.  At state 0, for a target method of the dex file being compiled
  (the routine CHECKs it), it loads the method's raw dex index into argument 0 and
  returns 1; on every architecture but x86 this is preceded by the load of the
  kind-specific trampoline's address from the thread into the invoke-target register,
  on x86 that load is not emitted.  At any other state it returns the terminal sentinel
  and emits nothing.  So an unresolved virtual call emits no class-pointer or vtable
  dereference.
\<close>

theorem C3_unresolved_single_step:
  assumes "(f, t) \<in> {(fnNextStaticCallInsnSP, pInvokeStaticTrampolineWithAccessCheck),
                      (fnNextDirectCallInsnSP, pInvokeDirectTrampolineWithAccessCheck),
                      (fnNextSuperCallInsnSP, pInvokeSuperTrampolineWithAccessCheck),
                      (fnNextVCallInsnSP, pInvokeVirtualTrampolineWithAccessCheck),
                      (fnNextInterfaceCallInsnWithAccessCheck,
                         pInvokeInterfaceTrampolineWithAccessCheck)}"
    and "cu_dex_file (cu cg) = dex_file target_method"
  shows "next_call_insn f cg info state target_method idx dc dm ty c =
    (if state = 0 then
       Inr (1, c
          @ (if isa cg = kX86 then []
             else [Mem (LoadWordDisp (TargetReg cg kSelf)
                          (Int32Value (layout cg) (QUICK_ENTRYPOINT_OFFSET t))
                          (TargetReg cg kInvokeTgt))])
          @ [Mem (LoadConstant (TargetReg cg kArg0) (sint (dex_method_index target_method)))])
     else Inr (- 1, c))"
  using assms by (auto simp: Next_defs Let_def)

theorem C3_unresolved_witness:
  "cu_dex_file (cu (example_cg kMips)) = dex_file example_method
   \<and> next_call_insn fnNextVCallInsnSP (example_cg kMips) example_info 0 example_method 0 0 0
       kVirtual [] = Inr (1, [Mem (LoadWordDisp 9 400 14), Mem (LoadConstant 0 5)])
   \<and> next_call_insn fnNextVCallInsnSP (example_cg kMips) example_info 1 example_method 0 0 0
       kVirtual [Mem (LoadWordDisp 9 400 14), Mem (LoadConstant 0 5)]
     = Inr (- 1, [Mem (LoadWordDisp 9 400 14), Mem (LoadConstant 0 5)])"
proof -
  have m: "(fnNextVCallInsnSP, pInvokeVirtualTrampolineWithAccessCheck)
     \<in> {(fnNextStaticCallInsnSP, pInvokeStaticTrampolineWithAccessCheck),
         (fnNextDirectCallInsnSP, pInvokeDirectTrampolineWithAccessCheck),
         (fnNextSuperCallInsnSP, pInvokeSuperTrampolineWithAccessCheck),
         (fnNextVCallInsnSP, pInvokeVirtualTrampolineWithAccessCheck),
         (fnNextInterfaceCallInsnWithAccessCheck, pInvokeInterfaceTrampolineWithAccessCheck)}"
    by simp
  have d: "cu_dex_file (cu (example_cg kMips)) = dex_file example_method"
    by (simp add: example_defs)
  show ?thesis
    using C3_unresolved_single_step [OF m d, of example_info 0 0 0 0 kVirtual "[]"]
      C3_unresolved_single_step [OF m d, of example_info 1 0 0 0 kVirtual
        "[Mem (LoadWordDisp 9 400 14), Mem (LoadConstant 0 5)]"] d
    by (simp add: example_defs)
qed

section \<open>Properties of \<open>FlushIns\<close>\<close>

lemma FlushIns_arg_appends:
  "FlushIns_arg cg ArgLocs start_vreg i c =
     (case FlushIns_arg cg ArgLocs start_vreg i [] of Inl e \<Rightarrow> Inl e | Inr x \<Rightarrow> Inr (c @ x))"
  unfolding FlushIns_arg_def
  by (simp add: Let_def split: sum.split)

lemma FlushIns_arg_Inr:
  assumes "FlushIns_arg cg ArgLocs start_vreg i c = Inr c1"
  obtains x where "FlushIns_arg cg ArgLocs start_vreg i [] = Inr x" and "c1 = c @ x"
  using assms by (subst (asm) FlushIns_arg_appends) (auto split: sum.splits)

lemma FlushIns_loop_step:
  assumes "FlushIns_loop cg ArgLocs start_vreg i c = Inr c'" and "i < num_ins (cu cg)"
  obtains c1 where "FlushIns_arg cg ArgLocs start_vreg i c = Inr c1"
    and "FlushIns_loop cg ArgLocs start_vreg (i + 1) c1 = Inr c'"
  using assms by (subst (asm) FlushIns_loop.simps) (auto split: sum.splits)

lemma FlushIns_loop_done:
  assumes "FlushIns_loop cg ArgLocs start_vreg i c = Inr c'" and "\<not> i < num_ins (cu cg)"
  shows "c' = c"
  using assms by (subst (asm) FlushIns_loop.simps) simp

lemma FlushIns_loop_appends:
  "FlushIns_loop cg ArgLocs start_vreg i c = Inr c' \<Longrightarrow> \<exists>post. c' = c @ post"
proof (induction cg ArgLocs start_vreg i c rule: FlushIns_loop.induct)
  case (1 cg ArgLocs start_vreg i c)
  show ?case
  proof (cases "i < num_ins (cu cg)")
    case False
    from FlushIns_loop_done [OF "1.prems" False] show ?thesis by simp
  next
    case True
    from "1.prems" True obtain c1 where a: "FlushIns_arg cg ArgLocs start_vreg i c = Inr c1"
      and l: "FlushIns_loop cg ArgLocs start_vreg (i + 1) c1 = Inr c'"
      by (rule FlushIns_loop_step)
    from "1.IH" [OF True a l] obtain post where "c' = c1 @ post" by blast
    moreover from a obtain x where "c1 = c @ x" by (rule FlushIns_arg_Inr)
    ultimately show ?thesis by simp
  qed
qed

lemma FlushIns_loop_reaches:
  "FlushIns_loop cg ArgLocs start_vreg i c = Inr c' \<Longrightarrow> i \<le> j \<Longrightarrow> j < num_ins (cu cg) \<Longrightarrow>
   \<exists>pre x post. FlushIns_arg cg ArgLocs start_vreg j [] = Inr x \<and> c' = pre @ x @ post"
proof (induction cg ArgLocs start_vreg i c rule: FlushIns_loop.induct)
  case (1 cg ArgLocs start_vreg i c)
  from "1.prems" have True: "i < num_ins (cu cg)" by simp
  from "1.prems"(1) True obtain c1 where a: "FlushIns_arg cg ArgLocs start_vreg i c = Inr c1"
    and l: "FlushIns_loop cg ArgLocs start_vreg (i + 1) c1 = Inr c'"
    by (rule FlushIns_loop_step)
  show ?case
  proof (cases "j = i")
    case True
    from a obtain x where x: "FlushIns_arg cg ArgLocs start_vreg i [] = Inr x" and c1: "c1 = c @ x"
      by (rule FlushIns_arg_Inr)
    from FlushIns_loop_appends [OF l] obtain post where "c' = c1 @ post" by blast
    with x c1 True show ?thesis by auto
  next
    case False
    with "1.prems" have "i + 1 \<le> j" by simp
    from "1.IH" [OF True a l this "1.prems"(3)] show ?thesis .
  qed
qed

lemma FlushIns_reaches:
  assumes "FlushIns cg ArgLocs rl_method c = Inr c'" and "0 \<le> j" and "j < num_ins (cu cg)"
  shows "\<exists>pre x post.
     FlushIns_arg cg ArgLocs (num_dalvik_registers (cu cg) - num_ins (cu cg)) j [] = Inr x
     \<and> c' = pre @ x @ post"
proof -
  from assms have "num_ins (cu cg) \<noteq> 0" by auto
  with assms(1) obtain c2 where
    "FlushIns_loop cg ArgLocs (num_dalvik_registers (cu cg) - num_ins (cu cg)) 0 c2 = Inr c'"
    by (auto simp: FlushIns_def Let_def)
  from FlushIns_loop_reaches [OF this assms(2,3)] show ?thesis .
qed

lemma FlushIns_arg_half_promoted:
  assumes "pmap_at cg (start_vreg + i) = Inr v_map"
    and "loc_at ArgLocs i = Inr t_loc"
    and "pmap_at cg (start_vreg + i + (if high_word t_loc then - 1 else 1)) = Inr p_map"
    and "GetArgMappingToPhysicalReg cg i \<noteq> INVALID_REG (constants cg)"
    and "wide t_loc"
    and "core_location p_map \<noteq> core_location v_map \<or> fp_location p_map \<noteq> fp_location v_map"
  shows "FlushIns_arg cg ArgLocs start_vreg i c =
     Inr (c @ (if core_location v_map = kLocPhysReg \<and> \<not> fp t_loc
                 then [Op (OpRegCopy (core_reg v_map) (GetArgMappingToPhysicalReg cg i))]
               else if fp_location v_map = kLocPhysReg \<and> fp t_loc
                 then [Op (OpRegCopy (FpReg v_map) (GetArgMappingToPhysicalReg cg i))]
               else [])
            @ [Mem (StoreBaseDisp (TargetReg cg kSp) (SRegOffset cg (start_vreg + i))
                      (GetArgMappingToPhysicalReg cg i) kWord)])"
proof -
  have w: "FlushIns_wide_need_flush cg start_vreg i t_loc v_map b = Inr True" for b
    using assms(3,6) by (simp add: FlushIns_wide_need_flush_def Let_def)
  show ?thesis
    using assms(1,2,4,5) by (simp add: FlushIns_arg_def Let_def w)
qed

lemma FlushIns_arg_bad_pair:
  assumes "isa cg = kThumb2"
    and "pmap_at cg (start_vreg + i) = Inr v_map"
    and "loc_at ArgLocs i = Inr t_loc"
    and "pmap_at cg (start_vreg + i + (if high_word t_loc then - 1 else 1)) = Inr p_map"
    and "GetArgMappingToPhysicalReg cg i \<noteq> INVALID_REG (constants cg)"
    and "wide t_loc" and "fp t_loc"
    and "fp_location v_map = kLocPhysReg" and "fp_location p_map = kLocPhysReg"
    and "low_reg = FpReg (if high_word t_loc then p_map else v_map)"
    and "high_reg = FpReg (if high_word t_loc then v_map else p_map)"
    and "(low_reg AND 1) \<noteq> 0 \<or> high_reg \<noteq> low_reg + 1"
  shows "FlushIns_arg cg ArgLocs start_vreg i c =
     Inr (c @ [Op (OpRegCopy (FpReg v_map) (GetArgMappingToPhysicalReg cg i)),
               Mem (StoreBaseDisp (TargetReg cg kSp) (SRegOffset cg (start_vreg + i))
                      (GetArgMappingToPhysicalReg cg i) kWord)])"
proof -
  have w: "FlushIns_wide_need_flush cg start_vreg i t_loc v_map False = Inr True"
  proof (cases "high_word t_loc")
    case True
    with assms show ?thesis
      by (simp add: FlushIns_wide_need_flush_def Let_def)
  next
    case False
    with assms show ?thesis
      by (simp add: FlushIns_wide_need_flush_def Let_def)
  qed
  show ?thesis
    using assms(2,3,5,6,7,8) by (simp add: FlushIns_arg_def Let_def w)
qed
lemmas flush_example_defs = FlushIns_def flush_cg_def FlushIns_loop.simps FlushIns_arg_def
  pmap_at_def loc_at_def FlushIns_wide_need_flush_def not_promoted_def locs_wide_def
  pm_half_promoted_def pm_odd_pair_def

text \<open>
  C4.  In \<open>FlushIns\<close>, take an incoming argument word \<open>i\<close> that arrives in a register
  and is one half of a wide argument, and let the entry of the other half in the promotion
  map differ from this half's in its core or in its floating promotion state.  Then the
  code emitted for the word is the copy into the promoted register, if the half has one
  of the matching type, followed by the store of the incoming register to the word's
  stack home: the word is flushed even when it was copied to its promoted register.
  (\<open>FlushIns\<close> returning \<open>Inr\<close> means that no read left the arrays.)
\<close>

theorem C4_half_promoted_wide_is_flushed:
  assumes "FlushIns cg ArgLocs rl_method c = Inr c'"
    and "0 \<le> i" and "i < num_ins (cu cg)"
    and "start_vreg = num_dalvik_registers (cu cg) - num_ins (cu cg)"
    and "pmap_at cg (start_vreg + i) = Inr v_map"
    and "loc_at ArgLocs i = Inr t_loc"
    and "pmap_at cg (start_vreg + i + (if high_word t_loc then - 1 else 1)) = Inr p_map"
    and "GetArgMappingToPhysicalReg cg i \<noteq> INVALID_REG (constants cg)"
    and "wide t_loc"
    and "core_location p_map \<noteq> core_location v_map \<or> fp_location p_map \<noteq> fp_location v_map"
  shows "\<exists>pre post. c' = pre
      @ (if core_location v_map = kLocPhysReg \<and> \<not> fp t_loc
           then [Op (OpRegCopy (core_reg v_map) (GetArgMappingToPhysicalReg cg i))]
         else if fp_location v_map = kLocPhysReg \<and> fp t_loc
           then [Op (OpRegCopy (FpReg v_map) (GetArgMappingToPhysicalReg cg i))]
         else [])
      @ [Mem (StoreBaseDisp (TargetReg cg kSp) (SRegOffset cg (start_vreg + i))
                (GetArgMappingToPhysicalReg cg i) kWord)]
      @ post"
proof -
  from FlushIns_reaches [OF assms(1-3)] assms(4) obtain pre x post
    where x: "FlushIns_arg cg ArgLocs start_vreg i [] = Inr x" and c': "c' = pre @ x @ post"
    by auto
  from x FlushIns_arg_half_promoted [OF assms(5-10), of "[]"] c' show ?thesis
    by (intro exI [of _ pre] exI [of _ post]) simp
qed

theorem C4_half_promoted_witness:
  "FlushIns (flush_cg kMips pm_half_promoted) (locs_wide False) example_loc [] =
     Inr [Mark (MarkLive 0 0),
          Val (StoreValue example_loc
                 (example_loc\<lparr>location := kLocPhysReg, reg := k32BitSolo 0, home := False\<rparr>)),
          Op (OpRegCopy 5 1), Mem (StoreBaseDisp 13 24 1 kWord),
          Mem (StoreBaseDisp 13 28 2 kWord)]
   \<and> (\<exists>pre post.
        FlushIns (flush_cg kMips pm_half_promoted) (locs_wide False) example_loc [] =
          Inr (pre @ [Op (OpRegCopy 5 1), Mem (StoreBaseDisp 13 24 1 kWord)] @ post))"
proof -
  let ?cg = "flush_cg kMips pm_half_promoted"
  have r: "FlushIns ?cg (locs_wide False) example_loc [] =
     Inr [Mark (MarkLive 0 0),
          Val (StoreValue example_loc
                 (example_loc\<lparr>location := kLocPhysReg, reg := k32BitSolo 0, home := False\<rparr>)),
          Op (OpRegCopy 5 1), Mem (StoreBaseDisp 13 24 1 kWord),
          Mem (StoreBaseDisp 13 28 2 kWord)]"
    by (simp add: flush_example_defs example_defs)
  have h: "(0::int) \<le> 0" "0 < num_ins (cu ?cg)"
    "(2::int) = num_dalvik_registers (cu ?cg) - num_ins (cu ?cg)"
    "pmap_at ?cg (2 + 0) = Inr (PromotionMap kLocPhysReg 5 kLocDalvikFrame 0)"
    "loc_at (locs_wide False) 0 = Inr (example_loc\<lparr>wide := True, fp := False\<rparr>)"
    "pmap_at ?cg (2 + 0 + (if high_word (example_loc\<lparr>wide := True, fp := False\<rparr>)
        then - 1 else 1)) = Inr not_promoted"
    "GetArgMappingToPhysicalReg ?cg 0 \<noteq> INVALID_REG (constants ?cg)"
    "wide (example_loc\<lparr>wide := True, fp := False\<rparr>)"
    "core_location not_promoted \<noteq> core_location (PromotionMap kLocPhysReg 5 kLocDalvikFrame 0)
     \<or> fp_location not_promoted \<noteq> fp_location (PromotionMap kLocPhysReg 5 kLocDalvikFrame 0)"
    by (simp_all add: flush_example_defs example_defs)
  from C4_half_promoted_wide_is_flushed [OF r h] r show ?thesis
    by (simp add: flush_example_defs example_defs)
qed

text \<open>
  C5.  In \<open>FlushIns\<close> on Thumb2, take an incoming argument word \<open>i\<close> that arrives in a
  register and is one half of a wide floating-point argument whose two halves are both
  promoted to floating registers.  If the promoted pair breaks the pairing rule, that is,
  if the low half's register is odd-numbered or the high half's register is not the low
  one plus one, the word is copied to its promoted register and nevertheless stored to
  its stack home.
\<close>

theorem C5_invalid_float_pair_is_flushed:
  assumes "FlushIns cg ArgLocs rl_method c = Inr c'"
    and "0 \<le> i" and "i < num_ins (cu cg)"
    and "start_vreg = num_dalvik_registers (cu cg) - num_ins (cu cg)"
    and "isa cg = kThumb2"
    and "pmap_at cg (start_vreg + i) = Inr v_map"
    and "loc_at ArgLocs i = Inr t_loc"
    and "pmap_at cg (start_vreg + i + (if high_word t_loc then - 1 else 1)) = Inr p_map"
    and "GetArgMappingToPhysicalReg cg i \<noteq> INVALID_REG (constants cg)"
    and "wide t_loc" and "fp t_loc"
    and "fp_location v_map = kLocPhysReg" and "fp_location p_map = kLocPhysReg"
    and "low_reg = FpReg (if high_word t_loc then p_map else v_map)"
    and "high_reg = FpReg (if high_word t_loc then v_map else p_map)"
    and "(low_reg AND 1) \<noteq> 0 \<or> high_reg \<noteq> low_reg + 1"
  shows "\<exists>pre post. c' = pre
      @ [Op (OpRegCopy (FpReg v_map) (GetArgMappingToPhysicalReg cg i)),
         Mem (StoreBaseDisp (TargetReg cg kSp) (SRegOffset cg (start_vreg + i))
                (GetArgMappingToPhysicalReg cg i) kWord)]
      @ post"
proof -
  from FlushIns_reaches [OF assms(1-3)] assms(4) obtain pre x post
    where x: "FlushIns_arg cg ArgLocs start_vreg i [] = Inr x" and c': "c' = pre @ x @ post"
    by auto
  from x FlushIns_arg_bad_pair [OF assms(5-16), of "[]"] c' show ?thesis
    by (intro exI [of _ pre] exI [of _ post]) simp
qed

theorem C5_invalid_float_pair_witness:
  "FlushIns (flush_cg kThumb2 pm_odd_pair) (locs_wide True) example_loc [] =
     Inr [Mark (MarkLive 0 0),
          Val (StoreValue example_loc
                 (example_loc\<lparr>location := kLocPhysReg, reg := k32BitSolo 0, home := False\<rparr>)),
          Op (OpRegCopy 33 1), Mem (StoreBaseDisp 13 24 1 kWord),
          Op (OpRegCopy 34 2), Mem (StoreBaseDisp 13 28 2 kWord)]
   \<and> ((33::int) AND 1) \<noteq> 0
   \<and> (\<exists>pre post.
        FlushIns (flush_cg kThumb2 pm_odd_pair) (locs_wide True) example_loc [] =
          Inr (pre @ [Op (OpRegCopy 33 1), Mem (StoreBaseDisp 13 24 1 kWord)] @ post))"
proof -
  let ?cg = "flush_cg kThumb2 pm_odd_pair"
  let ?lo = "PromotionMap kLocDalvikFrame 0 kLocPhysReg 33"
  let ?hi = "PromotionMap kLocDalvikFrame 0 kLocPhysReg 34"
  let ?t = "example_loc\<lparr>wide := True, fp := True\<rparr>"
  have r: "FlushIns ?cg (locs_wide True) example_loc [] =
     Inr [Mark (MarkLive 0 0),
          Val (StoreValue example_loc
                 (example_loc\<lparr>location := kLocPhysReg, reg := k32BitSolo 0, home := False\<rparr>)),
          Op (OpRegCopy 33 1), Mem (StoreBaseDisp 13 24 1 kWord),
          Op (OpRegCopy 34 2), Mem (StoreBaseDisp 13 28 2 kWord)]"
    by (simp add: flush_example_defs example_defs)
  have odd: "((33::int) AND 1) \<noteq> 0" by simp
  have h: "(0::int) \<le> 0" "0 < num_ins (cu ?cg)"
    "(2::int) = num_dalvik_registers (cu ?cg) - num_ins (cu ?cg)"
    "isa ?cg = kThumb2"
    "pmap_at ?cg (2 + 0) = Inr ?lo"
    "loc_at (locs_wide True) 0 = Inr ?t"
    "pmap_at ?cg (2 + 0 + (if high_word ?t then - 1 else 1)) = Inr ?hi"
    "GetArgMappingToPhysicalReg ?cg 0 \<noteq> INVALID_REG (constants ?cg)"
    "wide ?t" "fp ?t"
    "fp_location ?lo = kLocPhysReg" "fp_location ?hi = kLocPhysReg"
    "(33::int) = FpReg (if high_word ?t then ?hi else ?lo)"
    "(34::int) = FpReg (if high_word ?t then ?lo else ?hi)"
    "((33::int) AND 1) \<noteq> 0 \<or> (34::int) \<noteq> 33 + 1"
    by (simp_all add: flush_example_defs example_defs)
  from C5_invalid_float_pair_is_flushed [OF r h] r odd show ?thesis
    by (simp add: flush_example_defs example_defs)
qed

section \<open>Properties of the argument marshalling\<close>

lemma next_call_insn_emits:
  assumes "next_call_insn f cg info state tm idx dc dm ty c = Inr (s, c')"
  shows "\<exists>new. c' = c @ new \<and> list_all (dispatch_op cg info) new"
  using assms
  by (cases f)
     (auto simp: Next_defs Let_def dispatch_op_def split: if_splits sum.splits)

lemma dispatch_op_LoadArgRegs_op: "dispatch_op cg info e \<Longrightarrow> LoadArgRegs_op cg info e"
  by (cases e) (auto simp: dispatch_op_def LoadArgRegs_op_def split: value_call.splits)

lemma next_call_insn_LoadArgRegs_op:
  assumes "next_call_insn f cg info state tm idx dc dm ty c = Inr (s, c')"
  obtains new where "c' = c @ new" and "list_all (LoadArgRegs_op cg info) new"
proof -
  from next_call_insn_emits [OF assms] obtain new
    where "c' = c @ new" and "list_all (dispatch_op cg info) new" by blast
  then show ?thesis
    using that by (auto simp: list_all_iff dispatch_op_LoadArgRegs_op)
qed

lemma LoadArgRegs_loop_exit:
  assumes "\<not> (next_reg \<le> TargetReg cg kArg3 \<and> next_arg < num_arg_words info)"
  shows "LoadArgRegs_loop cg info f tm vi dc dm ty next_reg next_arg s c = Inr (s, c)"
  using LoadArgRegs_loop.simps [of cg info f tm vi dc dm ty next_reg next_arg s c] assms
  by simp

lemma LoadArgRegs_loop_pair:
  assumes "next_reg \<le> TargetReg cg kArg3" and "next_arg < num_arg_words info"
    and "arg_at info (nat next_arg) = Inr raw"
    and "rl = ret_loc cg (c @ [Val (UpdateRawLoc raw)])"
    and "wide rl" and "next_reg \<le> TargetReg cg kArg2"
  shows "LoadArgRegs_loop cg info f tm vi dc dm ty next_reg next_arg s c =
    (case next_call_insn f cg info s tm vi dc dm ty
            (c @ [Val (UpdateRawLoc raw),
                  Val (LoadValueDirectWideFixed rl next_reg (next_reg + 1))]) of
       Inl e \<Rightarrow> Inl e
     | Inr (s2, c2) \<Rightarrow>
         LoadArgRegs_loop cg info f tm vi dc dm ty (next_reg + 1 + 1) (next_arg + 1 + 1) s2 c2)"
  using LoadArgRegs_loop.simps [of cg info f tm vi dc dm ty next_reg next_arg s c] assms
  by (simp add: Let_def)

lemma LoadArgRegs_loop_single:
  assumes "next_reg \<le> TargetReg cg kArg3" and "next_arg < num_arg_words info"
    and "arg_at info (nat next_arg) = Inr raw"
    and "rl = ret_loc cg (c @ [Val (UpdateRawLoc raw)])"
    and "\<not> (wide rl \<and> next_reg \<le> TargetReg cg kArg2)"
  shows "LoadArgRegs_loop cg info f tm vi dc dm ty next_reg next_arg s c =
    (case next_call_insn f cg info s tm vi dc dm ty
            (c @ [Val (UpdateRawLoc raw),
                  Val (LoadValueDirectFixed
                         (if wide rl then rl\<lparr>wide := False, is_const := False\<rparr> else rl)
                         next_reg)]) of
       Inl e \<Rightarrow> Inl e
     | Inr (s2, c2) \<Rightarrow>
         LoadArgRegs_loop cg info f tm vi dc dm ty (next_reg + 1) (next_arg + 1) s2 c2)"
  using LoadArgRegs_loop.simps [of cg info f tm vi dc dm ty next_reg next_arg s c] assms
  by (simp add: Let_def)

lemma LoadArgRegs_loop_arg:
  assumes "LoadArgRegs_loop cg info f tm vi dc dm ty next_reg next_arg s c = Inr r"
    and "next_reg \<le> TargetReg cg kArg3" and "next_arg < num_arg_words info"
  obtains raw where "arg_at info (nat next_arg) = Inr raw"
  using LoadArgRegs_loop.simps [of cg info f tm vi dc dm ty next_reg next_arg s c] assms
  by (cases "arg_at info (nat next_arg)") auto

lemma LoadArgRegs_loop_ok:
  "LoadArgRegs_loop cg info f tm vi dc dm ty next_reg next_arg s c = Inr (s', c') \<Longrightarrow>
   \<exists>new. c' = c @ new \<and> list_all (LoadArgRegs_op cg info) new"
proof (induction cg info f tm vi dc dm ty next_reg next_arg s c
       rule: LoadArgRegs_loop.induct)
  case (1 cg info f tm vi dc dm ty next_reg next_arg s c)
  show ?case
  proof (cases "next_reg \<le> TargetReg cg kArg3 \<and> next_arg < num_arg_words info")
    case False
    with "1.prems" show ?thesis
      by (simp add: LoadArgRegs_loop_exit)
  next
    case True
    then have t: "next_reg \<le> TargetReg cg kArg3" "next_arg < num_arg_words info" by simp_all
    from "1.prems" t obtain raw where raw: "arg_at info (nat next_arg) = Inr raw"
      by (rule LoadArgRegs_loop_arg)
    define c1 where "c1 = c @ [Val (UpdateRawLoc raw)]"
    define rl where "rl = ret_loc cg c1"
    have rl: "rl = ret_loc cg (c @ [Val (UpdateRawLoc raw)])" by (simp add: rl_def c1_def)
    have u: "LoadArgRegs_op cg info (Val (UpdateRawLoc raw))" by (simp add: LoadArgRegs_op_def)
    show ?thesis
    proof (cases "wide rl \<and> next_reg \<le> TargetReg cg kArg2")
      case w: True
      let ?ld = "Val (LoadValueDirectWideFixed rl next_reg (next_reg + 1))"
      from "1.prems" LoadArgRegs_loop_pair [OF t raw rl, of f tm vi dc dm ty s] w
      obtain s2 c2 where
        n: "next_call_insn f cg info s tm vi dc dm ty (c1 @ [?ld]) = Inr (s2, c2)"
        and l: "LoadArgRegs_loop cg info f tm vi dc dm ty (next_reg + 1 + 1) (next_arg + 1 + 1) s2 c2
              = Inr (s', c')"
        by (auto simp: c1_def split: sum.splits)
      from "1.IH"(1) [OF True raw c1_def rl_def w n refl l]
      obtain new2 where new2: "c' = c2 @ new2" "list_all (LoadArgRegs_op cg info) new2"
        by blast
      from n obtain new1 where new1: "c2 = (c1 @ [?ld]) @ new1"
        "list_all (LoadArgRegs_op cg info) new1"
        by (rule next_call_insn_LoadArgRegs_op)
      have "LoadArgRegs_op cg info ?ld"
        using w by (simp add: LoadArgRegs_op_def)
      with u new1 new2 show ?thesis
        by (simp add: c1_def)
    next
      case w: False
      let ?ld = "Val (LoadValueDirectFixed
          (if wide rl then rl\<lparr>wide := False, is_const := False\<rparr> else rl) next_reg)"
      from "1.prems" LoadArgRegs_loop_single [OF t raw rl w, of f tm vi dc dm ty s]
      obtain s2 c2 where
        n: "next_call_insn f cg info s tm vi dc dm ty (c1 @ [?ld]) = Inr (s2, c2)"
        and l: "LoadArgRegs_loop cg info f tm vi dc dm ty (next_reg + 1) (next_arg + 1) s2 c2
              = Inr (s', c')"
        by (auto simp: c1_def split: sum.splits)
      from "1.IH"(2) [OF True raw c1_def rl_def w n refl l]
      obtain new2 where new2: "c' = c2 @ new2" "list_all (LoadArgRegs_op cg info) new2"
        by blast
      from n obtain new1 where new1: "c2 = (c1 @ [?ld]) @ new1"
        "list_all (LoadArgRegs_op cg info) new1"
        by (rule next_call_insn_LoadArgRegs_op)
      have "LoadArgRegs_op cg info ?ld"
        by (simp add: LoadArgRegs_op_def)
      with u new1 new2 show ?thesis
        by (simp add: c1_def)
    qed
  qed
qed

text \<open>
  C10.  In \<open>LoadArgRegs\<close>: every wide pair load that the function emits is of a wide
  value and starts at argument register 2 or below (its high register is the next one),
  and every single load it emits is of a value whose \<open>wide\<close> flag is clear (the only
  other single load is the receiver's, made by the dispatch step into argument register
  1).  When the next argument is wide and the next register is the last argument
  register, the loop clears the value's \<open>wide\<close> and \<open>is_const\<close> flags, loads it
  as a single value into that register, makes one dispatch step and ends.
\<close>

theorem C10_wide_argument_at_last_register:
  "(\<forall>s' c'. LoadArgRegs cg info call_state f tm vi dc dm ty skip_this c = Inr (s', c') \<longrightarrow>
      (\<exists>new. c' = c @ new
         \<and> (\<forall>rl lo hi. Val (LoadValueDirectWideFixed rl lo hi) \<in> set new \<longrightarrow>
               wide rl \<and> lo \<le> TargetReg cg kArg2 \<and> hi = lo + 1)
         \<and> (\<forall>rl r. Val (LoadValueDirectFixed rl r) \<in> set new \<longrightarrow>
               \<not> wide rl \<or> (r = TargetReg cg kArg1 \<and> arg_at info 0 = Inr rl))))
   \<and> (\<forall>next_arg raw rl s0 c0.
        TargetReg cg kArg2 < TargetReg cg kArg3 \<and> next_arg < num_arg_words info
        \<and> arg_at info (nat next_arg) = Inr raw
        \<and> rl = ret_loc cg (c0 @ [Val (UpdateRawLoc raw)]) \<and> wide rl \<longrightarrow>
        LoadArgRegs_loop cg info f tm vi dc dm ty (TargetReg cg kArg3) next_arg s0 c0 =
          next_call_insn f cg info s0 tm vi dc dm ty
            (c0 @ [Val (UpdateRawLoc raw),
                   Val (LoadValueDirectFixed (rl\<lparr>wide := False, is_const := False\<rparr>)
                          (TargetReg cg kArg3))]))"
proof (intro conjI allI impI)
  fix s' c'
  assume "LoadArgRegs cg info call_state f tm vi dc dm ty skip_this c = Inr (s', c')"
  then obtain new where new: "c' = c @ new" "list_all (LoadArgRegs_op cg info) new"
    unfolding LoadArgRegs_def Let_def by (blast dest: LoadArgRegs_loop_ok)
  show "\<exists>new. c' = c @ new
         \<and> (\<forall>rl lo hi. Val (LoadValueDirectWideFixed rl lo hi) \<in> set new \<longrightarrow>
               wide rl \<and> lo \<le> TargetReg cg kArg2 \<and> hi = lo + 1)
         \<and> (\<forall>rl r. Val (LoadValueDirectFixed rl r) \<in> set new \<longrightarrow>
               \<not> wide rl \<or> (r = TargetReg cg kArg1 \<and> arg_at info 0 = Inr rl))"
  proof (intro exI [of _ new] conjI allI impI)
    show "c' = c @ new" by (rule new)
  next
    fix rl lo hi assume "Val (LoadValueDirectWideFixed rl lo hi) \<in> set new"
    with new(2) have "LoadArgRegs_op cg info (Val (LoadValueDirectWideFixed rl lo hi))"
      by (simp add: list_all_iff)
    then show "wide rl" "lo \<le> TargetReg cg kArg2" "hi = lo + 1"
      by (simp_all add: LoadArgRegs_op_def)
  next
    fix rl r assume "Val (LoadValueDirectFixed rl r) \<in> set new"
    with new(2) have "LoadArgRegs_op cg info (Val (LoadValueDirectFixed rl r))"
      by (simp add: list_all_iff)
    then show "\<not> wide rl \<or> (r = TargetReg cg kArg1 \<and> arg_at info 0 = Inr rl)"
      by (simp add: LoadArgRegs_op_def)
  qed
next
  fix next_arg raw rl s0 c0
  assume a: "TargetReg cg kArg2 < TargetReg cg kArg3 \<and> next_arg < num_arg_words info
        \<and> arg_at info (nat next_arg) = Inr raw
        \<and> rl = ret_loc cg (c0 @ [Val (UpdateRawLoc raw)]) \<and> wide rl"
  let ?c = "c0 @ [Val (UpdateRawLoc raw),
                   Val (LoadValueDirectFixed (rl\<lparr>wide := False, is_const := False\<rparr>)
                          (TargetReg cg kArg3))]"
  from a have k: "TargetReg cg kArg3 \<le> TargetReg cg kArg3" "next_arg < num_arg_words info"
    and raw: "arg_at info (nat next_arg) = Inr raw"
    and rl: "rl = ret_loc cg (c0 @ [Val (UpdateRawLoc raw)])"
    and w: "wide rl" and nw: "\<not> (wide rl \<and> TargetReg cg kArg3 \<le> TargetReg cg kArg2)"
    by auto
  have "LoadArgRegs_loop cg info f tm vi dc dm ty (TargetReg cg kArg3) next_arg s0 c0 =
    (case next_call_insn f cg info s0 tm vi dc dm ty ?c of
       Inl e \<Rightarrow> Inl e
     | Inr (s2, c2) \<Rightarrow>
         LoadArgRegs_loop cg info f tm vi dc dm ty (TargetReg cg kArg3 + 1) (next_arg + 1) s2 c2)"
    unfolding LoadArgRegs_loop_single [OF k raw rl nw] if_P [OF w] ..
  also have "\<dots> = next_call_insn f cg info s0 tm vi dc dm ty ?c"
    by (simp add: LoadArgRegs_loop_exit split: sum.splits)
  finally show "LoadArgRegs_loop cg info f tm vi dc dm ty (TargetReg cg kArg3) next_arg s0 c0 =
          next_call_insn f cg info s0 tm vi dc dm ty ?c" .
qed

lemmas marshal_example_defs = example_info_wide_last_def example_wide_loc_def
  LoadArgRegs_def LoadArgRegs_loop.simps Next_defs Let_def

theorem C10_wide_argument_witness:
  "LoadArgRegs (example_cg kThumb2) example_info_wide_last 1 fnNextStaticCallInsnSP
       example_method 0 0 0 kStatic False []
     = Inr (- 1, [Val (UpdateRawLoc example_loc), Val (LoadValueDirectFixed example_loc 1),
                  Val (UpdateRawLoc (example_loc\<lparr>s_reg_low := 1\<rparr>)),
                  Val (LoadValueDirectFixed (example_loc\<lparr>s_reg_low := 1\<rparr>) 2),
                  Val (UpdateRawLoc example_wide_loc),
                  Val (LoadValueDirectFixed
                         (example_wide_loc\<lparr>wide := False, is_const := False\<rparr>) 3)])
   \<and> LoadArgRegs_loop (example_cg kThumb2) example_info_wide_last fnNextStaticCallInsnSP
       example_method 0 0 0 kStatic 3 2 (- 1) []
     = Inr (- 1, [Val (UpdateRawLoc example_wide_loc),
                  Val (LoadValueDirectFixed
                         (example_wide_loc\<lparr>wide := False, is_const := False\<rparr>) 3)])"
proof -
  let ?cg = "example_cg kThumb2"
  have r: "LoadArgRegs ?cg example_info_wide_last 1 fnNextStaticCallInsnSP
       example_method 0 0 0 kStatic False []
     = Inr (- 1, [Val (UpdateRawLoc example_loc), Val (LoadValueDirectFixed example_loc 1),
                  Val (UpdateRawLoc (example_loc\<lparr>s_reg_low := 1\<rparr>)),
                  Val (LoadValueDirectFixed (example_loc\<lparr>s_reg_low := 1\<rparr>) 2),
                  Val (UpdateRawLoc example_wide_loc),
                  Val (LoadValueDirectFixed
                         (example_wide_loc\<lparr>wide := False, is_const := False\<rparr>) 3)])"
    by (simp add: marshal_example_defs example_defs)
  have h: "TargetReg ?cg kArg2 < TargetReg ?cg kArg3 \<and> 2 < num_arg_words example_info_wide_last
        \<and> arg_at example_info_wide_last (nat 2) = Inr example_wide_loc
        \<and> example_wide_loc = ret_loc ?cg ([] @ [Val (UpdateRawLoc example_wide_loc)])
        \<and> wide example_wide_loc"
    by (simp add: marshal_example_defs example_defs)
  have k: "TargetReg ?cg kArg3 = 3" by (simp add: example_defs)
  from conjunct2 [OF C10_wide_argument_at_last_register
        [of ?cg example_info_wide_last 1 fnNextStaticCallInsnSP example_method 0 0 0 kStatic
            False "[]"], rule_format, OF h, of "- 1"]
  have "LoadArgRegs_loop ?cg example_info_wide_last fnNextStaticCallInsnSP
       example_method 0 0 0 kStatic 3 2 (- 1) []
     = Inr (- 1, [Val (UpdateRawLoc example_wide_loc),
                  Val (LoadValueDirectFixed
                         (example_wide_loc\<lparr>wide := False, is_const := False\<rparr>) 3)])"
    unfolding k by (simp add: Next_defs)
  with r show ?thesis by simp
qed

subsection \<open>The stack copy of the range path on x86\<close>

lemma move128_emits:
  assumes "GenDalvikArgsRange_move128 cg src dst c = Inr c'"
  shows "\<exists>new. c' = c @ new \<and> sum_list (map bytes_stored new) = 16
           \<and> sum_list (map bytes_loaded new) = 16
           \<and> (\<forall>b d r. Mem (LoadWordDisp b d r) \<notin> set new \<and> Mem (StoreWordDisp b d r) \<notin> set new)"
proof -
  from assms have t: "ret_reg cg (c @ [RA AllocTempDouble]) > 0"
    by (auto simp: GenDalvikArgsRange_move128_def Let_def split: if_splits)
  show ?thesis
  proof (cases "(src AND 0xF) = 0"; cases "(src AND 0x7) = 0";
         cases "(dst AND 0xF) = 0"; cases "(dst AND 0x7) = 0")
  qed (use assms t in \<open>auto simp: GenDalvikArgsRange_move128_def Let_def bytes_stored_def
        bytes_loaded_def move_bytes_def\<close>)
qed

lemma x86_copy_unfold:
  "GenDalvikArgsRange_x86_copy cg src dst n c =
    (if n > 0 then
       (if n = 4 \<or> (n > 4 \<and> ((src AND 0xF) = 0 \<or> (dst AND 0xF) = 0))
        then
          (case GenDalvikArgsRange_move128 cg src dst c of
             Inl e \<Rightarrow> Inl e
           | Inr c' \<Rightarrow> GenDalvikArgsRange_x86_copy cg (src + 16) (dst + 16) (n - 4) c')
        else
          GenDalvikArgsRange_x86_copy cg (src + 4) (dst + 4) (n - 1)
            (c @ [Mem (LoadWordDisp (TargetReg cg kSp) src (TargetReg cg kArg3)),
                  Mem (StoreWordDisp (TargetReg cg kSp) dst (TargetReg cg kArg3))]))
     else Inr c)"
  by (subst GenDalvikArgsRange_x86_copy.simps) (simp add: Let_def cong: if_cong)

lemma x86_copy_bytes:
  "GenDalvikArgsRange_x86_copy cg src dst n c = Inr c' \<Longrightarrow>
   \<exists>new. c' = c @ new \<and> int (sum_list (map bytes_stored new)) = 4 * max 0 n
          \<and> int (sum_list (map bytes_loaded new)) = 4 * max 0 n"
proof (induction cg src dst n c rule: GenDalvikArgsRange_x86_copy.induct)
  case (1 cg src dst n c)
  show ?case
  proof (cases "n > 0")
    case False
    with "1.prems" show ?thesis by (subst (asm) x86_copy_unfold) simp
  next
    case pos: True
    define s16 where "s16 = ((src AND 0xF) = 0)"
    define d16 where "d16 = ((dst AND 0xF) = 0)"
    show ?thesis
    proof (cases "n = 4 \<or> (n > 4 \<and> (s16 \<or> d16))")
      case big: True
      with "1.prems" pos obtain c1 where
        m: "GenDalvikArgsRange_move128 cg src dst c = Inr c1"
        and l: "GenDalvikArgsRange_x86_copy cg (src + 16) (dst + 16) (n - 4) c1 = Inr c'"
        by (subst (asm) x86_copy_unfold) (auto simp: s16_def d16_def split: sum.splits)
      from "1.IH"(1) [OF pos s16_def d16_def big m l]
      obtain new2 where n2: "c' = c1 @ new2"
        "int (sum_list (map bytes_stored new2)) = 4 * max 0 (n - 4)"
        "int (sum_list (map bytes_loaded new2)) = 4 * max 0 (n - 4)" by blast
      from move128_emits [OF m] obtain new1 where n1: "c1 = c @ new1"
        "sum_list (map bytes_stored new1) = 16" "sum_list (map bytes_loaded new1) = 16"
        by blast
      from big have "4 \<le> n" by auto
      with n1 n2 show ?thesis by (intro exI [of _ "new1 @ new2"]) simp
    next
      case small: False
      let ?w = "[Mem (LoadWordDisp (TargetReg cg kSp) src (TargetReg cg kArg3)),
                 Mem (StoreWordDisp (TargetReg cg kSp) dst (TargetReg cg kArg3))]"
      from "1.prems" pos small have
        l: "GenDalvikArgsRange_x86_copy cg (src + 4) (dst + 4) (n - 1) (c @ ?w) = Inr c'"
        by (subst (asm) x86_copy_unfold) (auto simp: s16_def d16_def)
      from "1.IH"(2) [OF pos s16_def d16_def small refl l]
      obtain new2 where n2: "c' = (c @ ?w) @ new2"
        "int (sum_list (map bytes_stored new2)) = 4 * max 0 (n - 1)"
        "int (sum_list (map bytes_loaded new2)) = 4 * max 0 (n - 1)" by blast
      have "sum_list (map bytes_stored ?w) = 4" "sum_list (map bytes_loaded ?w) = 4"
        by (simp_all add: bytes_stored_def bytes_loaded_def)
      with n2 pos show ?thesis
        by (intro exI [of _ "?w @ new2"]) simp
    qed
  qed
qed

lemma x86_copy_four:
  "GenDalvikArgsRange_x86_copy cg src dst 4 c = GenDalvikArgsRange_move128 cg src dst c"
  by (subst x86_copy_unfold) (simp add: x86_copy_unfold [of _ _ _ 0] split: sum.splits)

lemma move128_total:
  assumes "\<forall>h. ret_reg cg h > 0"
  shows "\<exists>c'. GenDalvikArgsRange_move128 cg src dst c = Inr c'"
  using assms by (simp add: GenDalvikArgsRange_move128_def Let_def split: prod.splits)

lemma x86_copy_total:
  "\<forall>h. ret_reg cg h > 0 \<Longrightarrow> \<exists>c'. GenDalvikArgsRange_x86_copy cg src dst n c = Inr c'"
proof (induction cg src dst n c rule: GenDalvikArgsRange_x86_copy.induct)
  case (1 cg src dst n c)
  show ?case
  proof (cases "n > 0")
    case False
    then show ?thesis by (subst x86_copy_unfold) simp
  next
    case pos: True
    define s16 where "s16 = ((src AND 0xF) = 0)"
    define d16 where "d16 = ((dst AND 0xF) = 0)"
    show ?thesis
    proof (cases "n = 4 \<or> (n > 4 \<and> (s16 \<or> d16))")
      case big: True
      from move128_total [OF "1.prems"] obtain c1 where
        m: "GenDalvikArgsRange_move128 cg src dst c = Inr c1" by blast
      from "1.IH"(1) [OF pos s16_def d16_def big m "1.prems"] m big pos show ?thesis
        by (subst x86_copy_unfold) (auto simp: s16_def d16_def)
    next
      case small: False
      from "1.IH"(2) [OF pos s16_def d16_def small refl "1.prems"] small pos show ?thesis
        by (subst x86_copy_unfold) (auto simp: s16_def d16_def)
    qed
  qed
qed

lemma no_bytes_stored:
  assumes "list_all P new" and "\<And>e. P e \<Longrightarrow> bytes_stored e = 0"
  shows "sum_list (map bytes_stored new) = 0"
  using assms by (induction new) auto

lemma dispatch_op_bytes_stored: "dispatch_op cg info e \<Longrightarrow> bytes_stored e = 0"
  unfolding dispatch_op_def bytes_stored_def
  by (auto split: lir.splits mem_call.splits)

lemma LoadArgRegs_op_bytes_stored: "LoadArgRegs_op cg info e \<Longrightarrow> bytes_stored e = 0"
  by (cases e) (auto simp: LoadArgRegs_op_def dispatch_op_bytes_stored, simp add: bytes_stored_def)

lemma flush_exit:
  assumes "\<not> next_arg < num_arg_words info"
  shows "GenDalvikArgsRange_flush cg info next_arg c = Inr c"
  using GenDalvikArgsRange_flush.simps [of cg info next_arg c] assms by simp

lemma flush_arg:
  assumes "GenDalvikArgsRange_flush cg info next_arg c = Inr c'"
    and "next_arg < num_arg_words info"
  obtains loc0 where "arg_at info (nat next_arg) = Inr loc0"
  using GenDalvikArgsRange_flush.simps [of cg info next_arg c] assms
  by (cases "arg_at info (nat next_arg)") auto

lemma flush_wide:
  assumes "next_arg < num_arg_words info" and "arg_at info (nat next_arg) = Inr loc0"
    and "wide loc0" and "c1 = c @ [Val (UpdateLocWide loc0)]" and "loc = ret_loc cg c1"
    and "c2 = (if next_arg \<ge> 2 \<and> location loc = kLocPhysReg
               then c1 @ [Mem (StoreBaseDispWide (TargetReg cg kSp)
                                 (SRegOffset cg (s_reg_low loc))
                                 (GetReg (reg loc)) (GetHighReg (reg loc)))]
               else c1)"
  shows "GenDalvikArgsRange_flush cg info next_arg c =
         GenDalvikArgsRange_flush cg info (next_arg + 2) c2"
  using GenDalvikArgsRange_flush.simps [of cg info next_arg c] assms by (simp add: Let_def)

lemma flush_single:
  assumes "next_arg < num_arg_words info" and "arg_at info (nat next_arg) = Inr loc0"
    and "\<not> wide loc0" and "c1 = c @ [Val (UpdateLoc loc0)]" and "loc = ret_loc cg c1"
    and "c2 = (if next_arg \<ge> 3 \<and> location loc = kLocPhysReg
               then c1 @ [Mem (StoreBaseDisp (TargetReg cg kSp)
                                 (SRegOffset cg (s_reg_low loc))
                                 (GetReg (reg loc)) kWord)]
               else c1)"
  shows "GenDalvikArgsRange_flush cg info next_arg c =
         GenDalvikArgsRange_flush cg info (next_arg + 1) c2"
  using GenDalvikArgsRange_flush.simps [of cg info next_arg c] assms by (simp add: Let_def)

lemma flush_bytes:
  "GenDalvikArgsRange_flush cg info next_arg c = Inr c' \<Longrightarrow>
   \<exists>new. c' = c @ new \<and> sum_list (map bytes_stored new) = 0"
proof (induction cg info next_arg c rule: GenDalvikArgsRange_flush.induct)
  case (1 cg info next_arg c)
  show ?case
  proof (cases "next_arg < num_arg_words info")
    case False
    with "1.prems" show ?thesis by (simp add: flush_exit)
  next
    case lt: True
    from "1.prems" lt obtain loc0 where a: "arg_at info (nat next_arg) = Inr loc0"
      by (rule flush_arg)
    show ?thesis
    proof (cases "wide loc0")
      case w: True
      define c1 where "c1 = c @ [Val (UpdateLocWide loc0)]"
      define loc where "loc = ret_loc cg c1"
      define c2 where "c2 = (if next_arg \<ge> 2 \<and> location loc = kLocPhysReg
                         then c1 @ [Mem (StoreBaseDispWide (TargetReg cg kSp)
                                           (SRegOffset cg (s_reg_low loc))
                                           (GetReg (reg loc)) (GetHighReg (reg loc)))]
                         else c1)"
      from "1.prems" flush_wide [OF lt a w c1_def loc_def c2_def]
      have l: "GenDalvikArgsRange_flush cg info (next_arg + 2) c2 = Inr c'" by simp
      from "1.IH"(1) [OF lt a w c1_def loc_def c2_def l]
      obtain new where "c' = c2 @ new" "sum_list (map bytes_stored new) = 0" by blast
      moreover have "\<exists>x. c2 = c @ x \<and> sum_list (map bytes_stored x) = 0"
        by (simp add: c2_def c1_def bytes_stored_def)
      ultimately show ?thesis by auto
    next
      case w: False
      define c1 where "c1 = c @ [Val (UpdateLoc loc0)]"
      define loc where "loc = ret_loc cg c1"
      define c2 where "c2 = (if next_arg \<ge> 3 \<and> location loc = kLocPhysReg
                         then c1 @ [Mem (StoreBaseDisp (TargetReg cg kSp)
                                           (SRegOffset cg (s_reg_low loc))
                                           (GetReg (reg loc)) kWord)]
                         else c1)"
      from "1.prems" flush_single [OF lt a w c1_def loc_def c2_def]
      have l: "GenDalvikArgsRange_flush cg info (next_arg + 1) c2 = Inr c'" by simp
      from "1.IH"(2) [OF lt a w c1_def loc_def c2_def l]
      obtain new where "c' = c2 @ new" "sum_list (map bytes_stored new) = 0" by blast
      moreover have "\<exists>x. c2 = c @ x \<and> sum_list (map bytes_stored x) = 0"
        by (simp add: c2_def c1_def bytes_stored_def)
      ultimately show ?thesis by auto
    qed
  qed
qed

lemma next_call_insn_bytes:
  assumes "next_call_insn f cg info state tm idx dc dm ty c = Inr (s, c')"
  obtains new where "c' = c @ new" and "sum_list (map bytes_stored new) = 0"
  using next_call_insn_emits [OF assms] no_bytes_stored dispatch_op_bytes_stored
  by metis

lemma LoadArgRegs_bytes:
  assumes "LoadArgRegs cg info s f tm vi dc dm ty skip_this c = Inr (s', c')"
  obtains new where "c' = c @ new" and "sum_list (map bytes_stored new) = 0"
proof -
  from assms obtain new where "c' = c @ new" "list_all (LoadArgRegs_op cg info) new"
    unfolding LoadArgRegs_def Let_def by (blast dest: LoadArgRegs_loop_ok)
  with that no_bytes_stored [of "LoadArgRegs_op cg info" new] LoadArgRegs_op_bytes_stored
  show ?thesis by blast
qed

lemma GenDalvikArgsRange_steps:
  assumes "num_arg_words info > 5"
    and "GenDalvikArgsRange cg info call_state pcrLabel f tm vi dc dm ty skip_this c = Inr (s, c')"
  obtains c0 arg3 s4 c7 s5 c8 s6 c9 where
    "GenDalvikArgsRange_flush cg info 0 c = Inr c0"
    "arg_at info 3 = Inr arg3"
    "GenDalvikArgsRange_copy cg info call_state f tm vi dc dm ty 16
       (SRegOffset cg (s_reg_low arg3)) (num_arg_words info - 3) c0 = Inr (s4, c7)"
    "LoadArgRegs cg info s4 f tm vi dc dm ty skip_this c7 = Inr (s5, c8)"
    "next_call_insn f cg info s5 tm vi dc dm ty c8 = Inr (s6, c9)"
    "c' = (if pcrLabel then c9 @ [Mark (GenNullCheck (TargetReg cg kArg1) (opt_flags info))]
           else c9)"
proof -
  from assms(1) have n: "\<not> num_arg_words info \<le> 5" by simp
  from assms(2) obtain c0 where c0: "GenDalvikArgsRange_flush cg info 0 c = Inr c0"
    unfolding GenDalvikArgsRange_def if_not_P [OF n]
    by (cases "GenDalvikArgsRange_flush cg info 0 c") auto
  from assms(2) c0 obtain arg3 where a3: "arg_at info 3 = Inr arg3"
    unfolding GenDalvikArgsRange_def if_not_P [OF n]
    by (cases "arg_at info 3") auto
  let ?copy = "GenDalvikArgsRange_copy cg info call_state f tm vi dc dm ty 16
       (SRegOffset cg (s_reg_low arg3)) (num_arg_words info - 3) c0"
  from assms(2) c0 a3 obtain s4 c7 where c1: "?copy = Inr (s4, c7)"
    unfolding GenDalvikArgsRange_def if_not_P [OF n]
    by (cases ?copy) (auto simp: Let_def)
  let ?la = "LoadArgRegs cg info s4 f tm vi dc dm ty skip_this c7"
  from assms(2) c0 a3 c1 obtain s5 c8 where la: "?la = Inr (s5, c8)"
    unfolding GenDalvikArgsRange_def if_not_P [OF n]
    by (cases ?la) (auto simp: Let_def)
  let ?nx = "next_call_insn f cg info s5 tm vi dc dm ty c8"
  from assms(2) c0 a3 c1 la obtain s6 c9 where nx: "?nx = Inr (s6, c9)"
    unfolding GenDalvikArgsRange_def if_not_P [OF n]
    by (cases ?nx) (auto simp: Let_def)
  from assms(2) c0 a3 c1 la nx
  have "c' = (if pcrLabel then c9 @ [Mark (GenNullCheck (TargetReg cg kArg1) (opt_flags info))]
           else c9)"
    unfolding GenDalvikArgsRange_def if_not_P [OF n]
    by (simp add: Let_def)
  with c0 a3 c1 la nx show ?thesis by (rule that)
qed

lemma GenDalvikArgsRange_x86_bytes:
  assumes "isa cg = kX86" and "num_arg_words info > 5"
    and "GenDalvikArgsRange cg info call_state pcrLabel f tm vi dc dm ty skip_this c = Inr (s, c')"
  shows "\<exists>new. c' = c @ new
     \<and> int (sum_list (map bytes_stored new)) = (num_arg_words info - 3) * 4"
proof -
  from assms(2,3) obtain c0 arg3 s4 c1 s5 c8 s6 c9 where
    fl: "GenDalvikArgsRange_flush cg info 0 c = Inr c0"
    and a3: "arg_at info 3 = Inr arg3"
    and cp0: "GenDalvikArgsRange_copy cg info call_state f tm vi dc dm ty 16
       (SRegOffset cg (s_reg_low arg3)) (num_arg_words info - 3) c0 = Inr (s4, c1)"
    and la: "LoadArgRegs cg info s4 f tm vi dc dm ty skip_this c1 = Inr (s5, c8)"
    and nx: "next_call_insn f cg info s5 tm vi dc dm ty c8 = Inr (s6, c9)"
    and c': "c' = (if pcrLabel
                   then c9 @ [Mark (GenNullCheck (TargetReg cg kArg1) (opt_flags info))]
                   else c9)"
    by (rule GenDalvikArgsRange_steps)
  from cp0 assms(1)
  have cp: "GenDalvikArgsRange_x86_copy cg (SRegOffset cg (s_reg_low arg3)) 16
       (num_arg_words info - 3) c0 = Inr c1"
    by (auto simp: GenDalvikArgsRange_copy_def split: sum.splits)
  from flush_bytes [OF fl] obtain n0 where n0: "c0 = c @ n0"
    "sum_list (map bytes_stored n0) = 0" by blast
  from x86_copy_bytes [OF cp] obtain n1 where n1: "c1 = c0 @ n1"
    "int (sum_list (map bytes_stored n1)) = 4 * max 0 (num_arg_words info - 3)" by blast
  from la obtain n2 where n2: "c8 = c1 @ n2" "sum_list (map bytes_stored n2) = 0"
    by (rule LoadArgRegs_bytes)
  from nx obtain n3 where n3: "c9 = c8 @ n3" "sum_list (map bytes_stored n3) = 0"
    by (rule next_call_insn_bytes)
  define n4 where "n4 = (if pcrLabel
      then [Mark (GenNullCheck (TargetReg cg kArg1) (opt_flags info))] else [])"
  have n4: "c' = c9 @ n4" "sum_list (map bytes_stored n4) = 0"
    by (simp_all add: c' n4_def bytes_stored_def)
  from n0 n1 n2 n3 n4 assms(2) show ?thesis
    by (intro exI [of _ "n0 @ n1 @ n2 @ n3 @ n4"]) (simp del: sum_list_eq_0_iff)
qed

lemmas range_example_defs = example_info_range_def example_arg_def GenDalvikArgsRange_def
  GenDalvikArgsRange_copy_def
  GenDalvikArgsRange_flush.simps GenDalvikArgsRange_x86_copy.simps
  GenDalvikArgsRange_move128_def GenDalvikArgsNoRange_def

lemma range_example_result:
  "GenDalvikArgsRange (example_cg kX86) example_info_range 0 False fnNextStaticCallInsnSP
         example_method 0 0 0 kStatic False [] =
   Inr (- 1,
     [Val (UpdateLoc (example_arg 0)), Val (UpdateLoc (example_arg 1)),
      Val (UpdateLoc (example_arg 2)), Val (UpdateLoc (example_arg 3)),
      Val (UpdateLoc (example_arg 4)), Val (UpdateLoc (example_arg 5)),
      Val (UpdateLoc (example_arg 6)),
      RA AllocTempDouble, Mem (OpMovRegMem 5 13 28 kMovU128FP),
      Mem (OpMovMemReg 13 16 5 kMovA128FP), Mark (SetMemRefType 8 True),
      Mark (SetDefMaskAll 8), Mark (SetMemRefType 9 False), Mark (SetDefMaskAll 9),
      RA (FreeTemp 5),
      Val (UpdateRawLoc (example_arg 0)), Val (LoadValueDirectFixed (example_arg 0) 1),
      Mem (LoadConstant 0 5),
      Val (UpdateRawLoc (example_arg 1)), Val (LoadValueDirectFixed (example_arg 1) 2),
      Val (UpdateRawLoc (example_arg 2)), Val (LoadValueDirectFixed (example_arg 2) 3)])"
  by (simp add: range_example_defs marshal_example_defs example_defs)

text \<open>
  C6 (as stated, refuted).  The claim takes \<open>count\<close> stack-resident argument words
  and says that \<open>(count - 3) * 4\<close> bytes are moved.  With 4 stack-resident words (source
  offset 28, destination offset 16) the x86 copy makes one unaligned 128-bit load and one
  aligned 128-bit store: 16 bytes, not \<open>(4 - 3) * 4 = 4\<close>.  If \<open>count\<close> is read as the
  total number of argument words, the counts 1, 3, 4 and 5 never reach the copy:
  \<open>GenDalvikArgsRange\<close> hands them to \<open>GenDalvikArgsNoRange\<close>; with one argument
  word nothing is stored to the stack at all.
\<close>

theorem C6_counterexample:
  "GenDalvikArgsRange_x86_copy (example_cg kX86) 28 16 4 [] =
     Inr [RA AllocTempDouble, Mem (OpMovRegMem 5 13 28 kMovU128FP),
          Mem (OpMovMemReg 13 16 5 kMovA128FP), Mark (SetMemRefType 1 True),
          Mark (SetDefMaskAll 1), Mark (SetMemRefType 2 False), Mark (SetDefMaskAll 2),
          RA (FreeTemp 5)]
   \<and> int (sum_list (map bytes_stored
          [RA AllocTempDouble, Mem (OpMovRegMem 5 13 28 kMovU128FP),
           Mem (OpMovMemReg 13 16 5 kMovA128FP), Mark (SetMemRefType 1 True),
           Mark (SetDefMaskAll 1), Mark (SetMemRefType 2 False), Mark (SetDefMaskAll 2),
           RA (FreeTemp 5)])) = 16
   \<and> (16 :: int) \<noteq> (4 - 3) * 4
   \<and> GenDalvikArgsRange (example_cg kX86) (example_info\<lparr>invoke_type := kStatic\<rparr>) 0 False
        fnNextStaticCallInsnSP example_method 0 0 0 kStatic False []
     = Inr (- 1, [Mem (LoadConstant 0 5), Val (UpdateRawLoc example_loc),
                  Val (LoadValueDirectFixed example_loc 1)])"
  by (simp add: range_example_defs marshal_example_defs example_defs bytes_stored_def
        move_bytes_def)

text \<open>
  C6 (amended).  On x86 the range path is taken for more than 5 argument words, so at
  least 3 words are stack-resident.  \<open>GenDalvikArgsRange\<close> then stores
  \<open>(num_arg_words - 3) * 4\<close> bytes to the outgoing-argument area, that is 4 bytes for
  each stack-resident word; with at most 5 argument words it is \<open>GenDalvikArgsNoRange\<close>.
  When exactly 4 words remain to be moved, the copy is exactly one 128-bit-class
  transfer, after which the loop ends: it loads 16 bytes and stores 16 bytes through an
  xmm temporary (as one move or as two halves) and makes no 32-bit word move.  The copy
  loop moves 4 bytes per word for every count, and returns whenever the allocator hands
  out a positive xmm temporary.
\<close>

theorem C6_x86_range_copy_bytes:
  "(\<forall>s c'. isa cg = kX86 \<and> num_arg_words info > 5
       \<and> GenDalvikArgsRange cg info call_state pcrLabel f tm vi dc dm ty skip_this c
           = Inr (s, c') \<longrightarrow>
       (\<exists>new. c' = c @ new
          \<and> int (sum_list (map bytes_stored new)) = (num_arg_words info - 3) * 4))
   \<and> (num_arg_words info \<le> 5 \<longrightarrow>
        GenDalvikArgsRange cg info call_state pcrLabel f tm vi dc dm ty skip_this c =
        GenDalvikArgsNoRange cg info call_state pcrLabel f tm vi dc dm ty skip_this c)
   \<and> GenDalvikArgsRange_x86_copy cg src dst 4 c = GenDalvikArgsRange_move128 cg src dst c
   \<and> (\<forall>c'. GenDalvikArgsRange_move128 cg src dst c = Inr c' \<longrightarrow>
        (\<exists>new. c' = c @ new \<and> sum_list (map bytes_stored new) = 16
           \<and> sum_list (map bytes_loaded new) = 16
           \<and> (\<forall>b d r. Mem (LoadWordDisp b d r) \<notin> set new
                      \<and> Mem (StoreWordDisp b d r) \<notin> set new)))
   \<and> (\<forall>n c'. GenDalvikArgsRange_x86_copy cg src dst n c = Inr c' \<longrightarrow>
        (\<exists>new. c' = c @ new \<and> int (sum_list (map bytes_stored new)) = 4 * max 0 n
           \<and> int (sum_list (map bytes_loaded new)) = 4 * max 0 n))
   \<and> (\<forall>n. (\<forall>h. ret_reg cg h > 0) \<longrightarrow>
        (\<exists>c'. GenDalvikArgsRange_x86_copy cg src dst n c = Inr c'))"
proof (intro conjI allI impI)
  fix s c'
  assume "isa cg = kX86 \<and> num_arg_words info > 5
       \<and> GenDalvikArgsRange cg info call_state pcrLabel f tm vi dc dm ty skip_this c
           = Inr (s, c')"
  then show "\<exists>new. c' = c @ new
          \<and> int (sum_list (map bytes_stored new)) = (num_arg_words info - 3) * 4"
    using GenDalvikArgsRange_x86_bytes by blast
next
  assume "num_arg_words info \<le> 5"
  then show "GenDalvikArgsRange cg info call_state pcrLabel f tm vi dc dm ty skip_this c =
        GenDalvikArgsNoRange cg info call_state pcrLabel f tm vi dc dm ty skip_this c"
    by (simp add: GenDalvikArgsRange_def)
next
  show "GenDalvikArgsRange_x86_copy cg src dst 4 c = GenDalvikArgsRange_move128 cg src dst c"
    by (rule x86_copy_four)
next
  fix c' assume "GenDalvikArgsRange_move128 cg src dst c = Inr c'"
  then show "\<exists>new. c' = c @ new \<and> sum_list (map bytes_stored new) = 16
           \<and> sum_list (map bytes_loaded new) = 16
           \<and> (\<forall>b d r. Mem (LoadWordDisp b d r) \<notin> set new
                      \<and> Mem (StoreWordDisp b d r) \<notin> set new)"
    by (rule move128_emits)
next
  fix n c' assume "GenDalvikArgsRange_x86_copy cg src dst n c = Inr c'"
  then show "\<exists>new. c' = c @ new \<and> int (sum_list (map bytes_stored new)) = 4 * max 0 n
           \<and> int (sum_list (map bytes_loaded new)) = 4 * max 0 n"
    by (rule x86_copy_bytes)
next
  fix n assume "\<forall>h. ret_reg cg h > 0"
  then show "\<exists>c'. GenDalvikArgsRange_x86_copy cg src dst n c = Inr c'"
    by (rule x86_copy_total)
qed

theorem C6_x86_range_copy_witness:
  "isa (example_cg kX86) = kX86 \<and> num_arg_words example_info_range > 5
   \<and> (\<exists>s c'. GenDalvikArgsRange (example_cg kX86) example_info_range 0 False
          fnNextStaticCallInsnSP example_method 0 0 0 kStatic False [] = Inr (s, c')
        \<and> int (sum_list (map bytes_stored c')) = 16)
   \<and> (\<exists>c'. GenDalvikArgsRange_x86_copy (example_cg kX86) 28 16 4 [] = Inr c'
        \<and> sum_list (map bytes_stored c') = 16 \<and> sum_list (map bytes_loaded c') = 16)"
proof -
  let ?cg = "example_cg kX86"
  note inst = C6_x86_range_copy_bytes [of ?cg example_info_range 0 False fnNextStaticCallInsnSP
      example_method 0 0 0 kStatic False "[]" 28 16]
  have h: "isa ?cg = kX86" "num_arg_words example_info_range > 5"
    by (simp_all add: example_defs example_info_range_def)
  from inst have 1: "\<forall>s c'. isa ?cg = kX86 \<and> num_arg_words example_info_range > 5
       \<and> GenDalvikArgsRange ?cg example_info_range 0 False fnNextStaticCallInsnSP
            example_method 0 0 0 kStatic False [] = Inr (s, c') \<longrightarrow>
       (\<exists>new. c' = [] @ new
          \<and> int (sum_list (map bytes_stored new)) = (num_arg_words example_info_range - 3) * 4)"
    by blast
  from 1 h range_example_result
  have a: "\<exists>s c'. GenDalvikArgsRange ?cg example_info_range 0 False
          fnNextStaticCallInsnSP example_method 0 0 0 kStatic False [] = Inr (s, c')
        \<and> int (sum_list (map bytes_stored c')) = 16"
    by (simp add: example_info_range_def)
  have pos: "\<forall>h. ret_reg ?cg h > 0" by (simp add: example_defs)
  from inst pos obtain c' where c': "GenDalvikArgsRange_x86_copy ?cg 28 16 4 [] = Inr c'"
    by blast
  with inst have "GenDalvikArgsRange_move128 ?cg 28 16 [] = Inr c'" by simp
  with inst have "sum_list (map bytes_stored c') = 16 \<and> sum_list (map bytes_loaded c') = 16"
    by auto
  with c' a h show ?thesis by blast
qed

section \<open>Every routine only appends to the list of calls\<close>

lemma next_call_insn_prefix:
  "next_call_insn f cg info state tm idx dc dm ty c = Inr (s, c') \<Longrightarrow> prefix c c'"
  by (auto dest: next_call_insn_emits)

lemma NoRange_loop_unfold:
  "GenDalvikArgsNoRange_loop cg info f tm vi dc dm ty next_use s c =
    (if next_use < num_arg_words info then
       (case GenDalvikArgsNoRange_turn cg info f tm vi dc dm ty next_use s c of
          Inl e \<Rightarrow> Inl e
        | Inr (next_use', s', c') \<Rightarrow>
            GenDalvikArgsNoRange_loop cg info f tm vi dc dm ty next_use' s' c')
     else Inr (s, c))"
  by (subst GenDalvikArgsNoRange_loop.simps)
     (simp add: GenDalvikArgsNoRange_turn_def Let_def split: sum.splits prod.splits)

lemma NoRange_turn_prefix:
  assumes "GenDalvikArgsNoRange_turn cg info f tm vi dc dm ty next_use s c = Inr (n', s', c')"
  shows "next_use < n' \<and> prefix c c'"
proof -
  from assms obtain raw where raw: "arg_at info (nat next_use) = Inr raw"
    by (cases "arg_at info (nat next_use)") (auto simp: GenDalvikArgsNoRange_turn_def)
  define c1 where "c1 = c @ [Val (UpdateRawLoc raw)]"
  define rl where "rl = ret_loc cg c1"
  have p1: "prefix c c1" by (simp add: c1_def)
  show ?thesis
  proof (cases "location rl = kLocPhysReg")
    case True
    with assms raw obtain x where
      n: "next_call_insn f cg info s tm vi dc dm ty (c1 @ [x]) = Inr (s', c')"
      and n': "n' = (if wide rl then next_use + 2 else next_use + 1)"
      by (auto simp: GenDalvikArgsNoRange_turn_def Let_def c1_def rl_def split: sum.splits)
    from next_call_insn_prefix [OF n] have "prefix (c1 @ [x]) c'" .
    then have "prefix c1 c'" by (rule append_prefixD)
    with p1 n' show ?thesis by auto
  next
    case False
    with assms raw obtain x y s3 c3 where
      m: "next_call_insn f cg info s tm vi dc dm ty (c1 @ [x]) = Inr (s3, c3)"
      and n: "next_call_insn f cg info s3 tm vi dc dm ty (c3 @ [y]) = Inr (s', c')"
      and n': "n' = (if wide rl then next_use + 2 else next_use + 1)"
      by (auto simp: GenDalvikArgsNoRange_turn_def Let_def c1_def rl_def split: sum.splits)
    from next_call_insn_prefix [OF m] have "prefix c1 c3" by (rule append_prefixD)
    moreover from next_call_insn_prefix [OF n] have "prefix c3 c'" by (rule append_prefixD)
    ultimately show ?thesis using p1 n' by auto
  qed
qed

lemma NoRange_loop_prefix:
  "GenDalvikArgsNoRange_loop cg info f tm vi dc dm ty next_use s c = Inr (s', c') \<Longrightarrow>
   prefix c c'"
proof (induction "nat (num_arg_words info - next_use)" arbitrary: next_use s c
       rule: less_induct)
  case less
  show ?case
  proof (cases "next_use < num_arg_words info")
    case False
    with less.prems show ?thesis by (subst (asm) NoRange_loop_unfold) simp
  next
    case True
    with less.prems obtain n1 s1 c1 where
      t: "GenDalvikArgsNoRange_turn cg info f tm vi dc dm ty next_use s c = Inr (n1, s1, c1)"
      and l: "GenDalvikArgsNoRange_loop cg info f tm vi dc dm ty n1 s1 c1 = Inr (s', c')"
      by (subst (asm) NoRange_loop_unfold) (auto split: sum.splits)
    from NoRange_turn_prefix [OF t] have gt: "next_use < n1" and p: "prefix c c1" by simp_all
    from gt True have "nat (num_arg_words info - n1) < nat (num_arg_words info - next_use)"
      by simp
    from less.hyps [OF this l] p show ?thesis by auto
  qed
qed

lemma LoadArgRegs_prefix:
  "LoadArgRegs cg info s f tm vi dc dm ty skip_this c = Inr (s', c') \<Longrightarrow> prefix c c'"
  unfolding LoadArgRegs_def Let_def by (auto dest: LoadArgRegs_loop_ok)

lemma NoRange_stack_prefix:
  assumes "GenDalvikArgsNoRange_stack cg info f tm vi dc dm ty s c = Inr (s', c')"
  shows "prefix c c'"
proof -
  from assms obtain u0 u1 u2 where u: "arg_at info 0 = Inr u0" "arg_at info 1 = Inr u1"
    "arg_at info 2 = Inr u2"
    by (auto simp: GenDalvikArgsNoRange_stack_def split: sum.splits)
  show ?thesis
  proof (cases "((\<not> wide u0 \<and> \<not> wide u1) \<or> wide u0) \<and> wide u2")
    case False
    with assms u have "GenDalvikArgsNoRange_loop cg info f tm vi dc dm ty 3 s c = Inr (s', c')"
      by (auto simp: GenDalvikArgsNoRange_stack_def)
    then show ?thesis by (rule NoRange_loop_prefix)
  next
    case span: True
    define c1 where "c1 = c @ [Val (UpdateLocWide u2)]"
    define rl where "rl = ret_loc cg c1"
    have p1: "prefix c c1" by (simp add: c1_def)
    show ?thesis
    proof (cases "location rl = kLocPhysReg")
      case True
      with assms u span obtain x s4 c4 where
        n: "next_call_insn f cg info s tm vi dc dm ty (c1 @ [x]) = Inr (s4, c4)"
        and l: "GenDalvikArgsNoRange_loop cg info f tm vi dc dm ty (3 + 1) s4 c4 = Inr (s', c')"
        by (auto simp: GenDalvikArgsNoRange_stack_def Let_def c1_def rl_def split: sum.splits)
      from next_call_insn_prefix [OF n] have "prefix c1 c4" by (rule append_prefixD)
      with p1 NoRange_loop_prefix [OF l] show ?thesis by auto
    next
      case False
      with assms u span obtain x y s3 c3 s4 c4 where
        m: "next_call_insn f cg info s tm vi dc dm ty (c1 @ [x]) = Inr (s3, c3)"
        and n: "next_call_insn f cg info s3 tm vi dc dm ty (c3 @ [y]) = Inr (s4, c4)"
        and l: "GenDalvikArgsNoRange_loop cg info f tm vi dc dm ty (3 + 1) s4 c4 = Inr (s', c')"
        by (auto simp: GenDalvikArgsNoRange_stack_def Let_def c1_def rl_def split: sum.splits)
      from next_call_insn_prefix [OF m] have "prefix c1 c3" by (rule append_prefixD)
      moreover from next_call_insn_prefix [OF n] have "prefix c3 c4" by (rule append_prefixD)
      ultimately show ?thesis using p1 NoRange_loop_prefix [OF l] by auto
    qed
  qed
qed

lemma GenDalvikArgsNoRange_prefix:
  assumes "GenDalvikArgsNoRange cg info s pcr f tm vi dc dm ty skip_this c = Inr (s', c')"
  shows "prefix c c'"
proof (cases "num_arg_words info = 0")
  case True
  with assms show ?thesis by (simp add: GenDalvikArgsNoRange_def)
next
  case False
  with assms obtain s0 c0 s1 c1 s2 c2 where
    a: "next_call_insn f cg info s tm vi dc dm ty c = Inr (s0, c0)"
    and b: "(if num_arg_words info > 3
             then GenDalvikArgsNoRange_stack cg info f tm vi dc dm ty s0 c0
             else Inr (s0, c0)) = Inr (s1, c1)"
    and d: "LoadArgRegs cg info s1 f tm vi dc dm ty skip_this c1 = Inr (s2, c2)"
    and e: "c' = (if pcr then c2 @ [Mark (GenNullCheck (TargetReg cg kArg1) (opt_flags info))]
                  else c2)"
    by (auto simp: GenDalvikArgsNoRange_def split: sum.splits)
  from b have "prefix c0 c1"
    by (auto dest: NoRange_stack_prefix split: if_splits)
  moreover from e have "prefix c2 c'" by simp
  ultimately show ?thesis
    using next_call_insn_prefix [OF a] LoadArgRegs_prefix [OF d] by auto
qed

lemma flush_prefix:
  "GenDalvikArgsRange_flush cg info next_arg c = Inr c' \<Longrightarrow> prefix c c'"
  by (auto dest: flush_bytes)

lemma x86_copy_prefix:
  "GenDalvikArgsRange_x86_copy cg src dst n c = Inr c' \<Longrightarrow> prefix c c'"
  by (auto dest: x86_copy_bytes)

lemma CallRuntimeHelperRegRegImm_prefix:
  "prefix c (CallRuntimeHelperRegRegImm cg off a0 a1 a2 sp c)"
  by (simp add: CallRuntimeHelperRegRegImm_def CallHelperSetup_def CallHelper_def Let_def)

lemma GenDalvikArgsRange_copy_prefix:
  assumes "GenDalvikArgsRange_copy cg info s f tm vi dc dm ty outs start n c0 = Inr (s4, c7)"
  shows "prefix c0 c7"
proof (cases "isa cg = kThumb2 \<and> n \<le> 16")
  case True
  let ?n0 = "next_call_insn f cg info s tm vi dc dm ty c0"
  from assms True obtain s1 c1 where n0: "?n0 = Inr (s1, c1)"
    by (cases ?n0) (auto simp: GenDalvikArgsRange_copy_def)
  define c3 where "c3 = (c1 @ [Op (OpRegRegImm kOpAdd (TargetReg cg kArg3) (TargetReg cg kSp) start)])
     @ [Mem (OpVldm (TargetReg cg kArg3) n),
        Mark (SetDefMaskAll (length (c1 @ [Op (OpRegRegImm kOpAdd (TargetReg cg kArg3)
              (TargetReg cg kSp) start)]))),
        Mark (SetMemRefType (length (c1 @ [Op (OpRegRegImm kOpAdd (TargetReg cg kArg3)
              (TargetReg cg kSp) start)])) True)]"
  let ?n1 = "next_call_insn f cg info s1 tm vi dc dm ty c3"
  from assms True n0 obtain s2 c4 where n1: "?n1 = Inr (s2, c4)"
    by (cases ?n1) (auto simp: GenDalvikArgsRange_copy_def Let_def c3_def)
  let ?n2 = "next_call_insn f cg info s2 tm vi dc dm ty
     (c4 @ [Op (OpRegRegImm kOpAdd (TargetReg cg kArg3) (TargetReg cg kSp) (4 + 3 * 4))])"
  from assms True n0 n1 obtain s3 c6 where n2: "?n2 = Inr (s3, c6)"
    by (cases ?n2) (auto simp: GenDalvikArgsRange_copy_def Let_def c3_def)
  from assms True n0 n1 n2 have n3: "next_call_insn f cg info s3 tm vi dc dm ty
      (c6 @ [Mem (OpVstm (TargetReg cg kArg3) n), Mark (SetMemRefType (length c6) False),
             Mark (SetDefMaskAll (length c6))]) = Inr (s4, c7)"
    by (simp add: GenDalvikArgsRange_copy_def Let_def c3_def)
  have "prefix c1 c3" by (simp add: c3_def)
  moreover from next_call_insn_prefix [OF n2] have "prefix c4 c6" by (rule append_prefixD)
  moreover from next_call_insn_prefix [OF n3] have "prefix c6 c7" by (rule append_prefixD)
  ultimately show ?thesis
    using next_call_insn_prefix [OF n0] next_call_insn_prefix [OF n1] by auto
next
  case nt: False
  show ?thesis
  proof (cases "isa cg = kX86")
    case True
    with nt assms show ?thesis
      by (auto simp: GenDalvikArgsRange_copy_def dest: x86_copy_prefix split: sum.splits)
  next
    case False
    with nt assms have "c7 = CallRuntimeHelperRegRegImm cg (QUICK_ENTRYPOINT_OFFSET pMemcpy)
           (TargetReg cg kArg0) (TargetReg cg kArg1) ((num_arg_words info - 3) * 4) False
           (c0 @ [Op (OpRegRegImm kOpAdd (TargetReg cg kArg0) (TargetReg cg kSp) outs),
                  Op (OpRegRegImm kOpAdd (TargetReg cg kArg1) (TargetReg cg kSp) start)])"
      by (auto simp: GenDalvikArgsRange_copy_def)
    then show ?thesis
      using CallRuntimeHelperRegRegImm_prefix append_prefixD by metis
  qed
qed

lemma GenDalvikArgsRange_prefix:
  assumes "GenDalvikArgsRange cg info s pcr f tm vi dc dm ty skip_this c = Inr (s', c')"
  shows "prefix c c'"
proof (cases "num_arg_words info \<le> 5")
  case True
  with assms show ?thesis
    by (auto simp: GenDalvikArgsRange_def dest: GenDalvikArgsNoRange_prefix)
next
  case False
  then have "num_arg_words info > 5" by simp
  from this assms obtain c0 arg3 s4 c7 s5 c8 s6 c9 where
    fl: "GenDalvikArgsRange_flush cg info 0 c = Inr c0"
    and a3: "arg_at info 3 = Inr arg3"
    and cp: "GenDalvikArgsRange_copy cg info s f tm vi dc dm ty 16
       (SRegOffset cg (s_reg_low arg3)) (num_arg_words info - 3) c0 = Inr (s4, c7)"
    and la: "LoadArgRegs cg info s4 f tm vi dc dm ty skip_this c7 = Inr (s5, c8)"
    and nx: "next_call_insn f cg info s5 tm vi dc dm ty c8 = Inr (s6, c9)"
    and e: "c' = (if pcr then c9 @ [Mark (GenNullCheck (TargetReg cg kArg1) (opt_flags info))]
                  else c9)"
    by (rule GenDalvikArgsRange_steps)
  from e have "prefix c9 c'" by simp
  then show ?thesis
    using flush_prefix [OF fl] GenDalvikArgsRange_copy_prefix [OF cp]
      LoadArgRegs_prefix [OF la] next_call_insn_prefix [OF nx]
    by auto
qed

lemma drain_unfold:
  "GenInvokeNoInline_drain cg info f tm vi dc dm ty s c =
    (if s \<ge> 0 then
       (case next_call_insn f cg info s tm vi dc dm ty c of
          Inl e \<Rightarrow> Inl e
        | Inr (s1, c1) \<Rightarrow> GenInvokeNoInline_drain cg info f tm vi dc dm ty s1 c1)
     else Inr c)"
  by (rule GenInvokeNoInline_drain.simps)

lemma drain_prefix:
  "GenInvokeNoInline_drain cg info f tm vi dc dm ty s c = Inr c' \<Longrightarrow> prefix c c'"
proof (induction cg info f tm vi dc dm ty s c rule: GenInvokeNoInline_drain.induct)
  case (1 cg info f tm vi dc dm ty s c)
  show ?case
  proof (cases "s \<ge> 0")
    case False
    with "1.prems" show ?thesis by (subst (asm) drain_unfold) simp
  next
    case True
    with "1.prems" obtain s1 c1 where
      n: "next_call_insn f cg info s tm vi dc dm ty c = Inr (s1, c1)"
      and d: "GenInvokeNoInline_drain cg info f tm vi dc dm ty s1 c1 = Inr c'"
      by (subst (asm) drain_unfold) (auto split: sum.splits)
    from "1.IH" [OF True n refl d] next_call_insn_prefix [OF n] show ?thesis by auto
  qed
qed

section \<open>Properties of call emission and of the intrinsics\<close>

lemma GenInvokeNoInline_structure:
  assumes "GenInvokeNoInline cg info0 c = Inr (info', c')"
  obtains c4 where
    "prefix (c @ [RA FlushAllRegs, RA LockCallTemps,
                  Mark (ProcessedInvoke (GetInvokeType (GetMethodLoweringInfo cg (mir info0)))
                          (StatsFlags (GetMethodLoweringInfo cg (mir info0))))]) c4"
    "c' = c4 @ [invoke_call_inst cg (GetMethodLoweringInfo cg (mir info0)),
                Mark (MarkSafepointPC (length c4)), RA ClobberCallerSave]
             @ invoke_result_handling cg info0
                 (c4 @ [invoke_call_inst cg (GetMethodLoweringInfo cg (mir info0)),
                        Mark (MarkSafepointPC (length c4)), RA ClobberCallerSave])"
    "info' = info0\<lparr>invoke_type := GetSharpType (GetMethodLoweringInfo cg (mir info0))\<rparr>"
proof -
  define mi where "mi = GetMethodLoweringInfo cg (mir info0)"
  define info where "info = info0\<lparr>invoke_type := GetSharpType mi\<rparr>"
  define c2 where "c2 = c @ [RA FlushAllRegs, RA LockCallTemps,
                  Mark (ProcessedInvoke (GetInvokeType mi) (StatsFlags mi))]"
  obtain f skip_this p_null_ck where
    sel: "select_next_call_insn (GetSharpType mi) (FastPath mi) = (f, skip_this, p_null_ck)"
    by (cases "select_next_call_insn (GetSharpType mi) (FastPath mi)") auto
  let ?args = "(if \<not> is_range info then
                GenDalvikArgsNoRange cg info 0 p_null_ck f (GetTargetMethod mi)
                  (VTableIndex mi) (DirectCode mi) (DirectMethod mi) (GetInvokeType mi)
                  skip_this c2
              else
                GenDalvikArgsRange cg info 0 p_null_ck f (GetTargetMethod mi)
                  (VTableIndex mi) (DirectCode mi) (DirectMethod mi) (GetInvokeType mi)
                  skip_this c2)"
  have rh: "invoke_result_handling cg info x = invoke_result_handling cg info0 x" for x
    by (simp add: invoke_result_handling_def info_def)
  have it: "invoke_type info = GetSharpType mi" by (simp add: info_def)
  have unfold: "GenInvokeNoInline cg info0 c =
    (case ?args of
       Inl e \<Rightarrow> Inl e
     | Inr (s, c3) \<Rightarrow>
        (case GenInvokeNoInline_drain cg info f (GetTargetMethod mi) (VTableIndex mi)
                (DirectCode mi) (DirectMethod mi) (GetInvokeType mi) s c3 of
           Inl e \<Rightarrow> Inl e
         | Inr c4 \<Rightarrow>
             Inr (info, c4 @ [invoke_call_inst cg mi, Mark (MarkSafepointPC (length c4)),
                              RA ClobberCallerSave]
                        @ invoke_result_handling cg info0
                            (c4 @ [invoke_call_inst cg mi, Mark (MarkSafepointPC (length c4)),
                                   RA ClobberCallerSave]))))"
    unfolding GenInvokeNoInline_def Let_def mi_def [symmetric] info_def [symmetric]
    using sel
    by (simp add: it c2_def rh cong: sum.case_cong if_cong)
  from assms unfold obtain s c3 where a: "?args = Inr (s, c3)"
    by (cases ?args) auto
  from assms unfold a obtain c4 where
    d: "GenInvokeNoInline_drain cg info f (GetTargetMethod mi) (VTableIndex mi)
                (DirectCode mi) (DirectMethod mi) (GetInvokeType mi) s c3 = Inr c4"
    by (cases "GenInvokeNoInline_drain cg info f (GetTargetMethod mi) (VTableIndex mi)
                (DirectCode mi) (DirectMethod mi) (GetInvokeType mi) s c3") auto
  from a have "prefix c2 c3"
    by (auto dest: GenDalvikArgsNoRange_prefix GenDalvikArgsRange_prefix split: if_splits)
  with drain_prefix [OF d] have p: "prefix c2 c4" by auto
  from assms unfold a d have
    "c' = c4 @ [invoke_call_inst cg mi, Mark (MarkSafepointPC (length c4)), RA ClobberCallerSave]
             @ invoke_result_handling cg info0
                 (c4 @ [invoke_call_inst cg mi, Mark (MarkSafepointPC (length c4)),
                        RA ClobberCallerSave])"
    and "info' = info" by simp_all
  with p show ?thesis
    by (intro that [of c4]) (simp_all add: c2_def mi_def info_def)
qed

lemmas intrinsic_helper_defs = call_reg_def call_loc_def new_lir_def InlineTarget_def
  InlineTargetWide_def AddIntrinsicLaunchpad_def

lemma GenInlinedIndexOf_handled:
  assumes "GenInlinedIndexOf cg info zero_based c = Inr (True, info', c')"
  obtains rl_obj rl_char rl_start where "isa cg \<noteq> kMips"
    "arg_at info 0 = Inr rl_obj" "arg_at info 1 = Inr rl_char"
    "\<not> (is_const rl_char \<and> (ConstantValue cg rl_char AND NOT 0xFFFF) \<noteq> 0)"
    "zero_based \<or> arg_at info 2 = Inr rl_start"
proof -
  from assms have m: "isa cg \<noteq> kMips"
    by (auto simp: GenInlinedIndexOf_def)
  from assms m obtain rl_obj rl_char where a: "arg_at info 0 = Inr rl_obj"
    "arg_at info 1 = Inr rl_char"
    by (cases "arg_at info 0"; cases "arg_at info 1") (auto simp: GenInlinedIndexOf_def)
  have nc: "\<not> (is_const rl_char \<and> (ConstantValue cg rl_char AND NOT 0xFFFF) \<noteq> 0)"
  proof
    assume "is_const rl_char \<and> (ConstantValue cg rl_char AND NOT 0xFFFF) \<noteq> 0"
    with m a have "GenInlinedIndexOf cg info zero_based c = Inr (False, info, c)"
      by (simp add: GenInlinedIndexOf_def)
    with assms show False by simp
  qed
  have "\<exists>rl_start. zero_based \<or> arg_at info 2 = Inr rl_start"
  proof (cases "zero_based \<or> (\<exists>r. arg_at info 2 = Inr r)")
    case True
    then show ?thesis by blast
  next
    case False
    then obtain e where "\<not> zero_based" "arg_at info 2 = Inl e"
      by (cases "arg_at info 2") auto
    with m a nc have "GenInlinedIndexOf cg info zero_based c = Inl e"
      by (simp add: GenInlinedIndexOf_def Let_def)
    with assms show ?thesis by simp
  qed
  then obtain rl_start where "zero_based \<or> arg_at info 2 = Inr rl_start" by blast
  with m a nc show ?thesis by (rule that)
qed

lemma GenInlinedIndexOf_call:
  assumes "GenInlinedIndexOf cg info zero_based c = Inr (True, info', c')"
  shows "prefix c c' \<and> (\<exists>r. filter is_call (drop (length c) c') = [Op (OpReg kOpBlx r)])
           \<and> filter is_safepoint_mark (drop (length c) c') = []"
proof -
  from assms obtain rl_obj rl_char rl_start where m: "isa cg \<noteq> kMips"
    and a: "arg_at info 0 = Inr rl_obj" "arg_at info 1 = Inr rl_char"
    and nc: "\<not> (is_const rl_char \<and> (ConstantValue cg rl_char AND NOT 0xFFFF) \<noteq> 0)"
    and s: "zero_based \<or> arg_at info 2 = Inr rl_start"
    by (rule GenInlinedIndexOf_handled)
  show ?thesis
  proof (cases zero_based; cases "is_const rl_char";
         cases "location (result info) = kLocInvalid")
  qed (use assms m a nc s in \<open>auto simp: GenInlinedIndexOf_def Let_def intrinsic_helper_defs
         is_call_def is_safepoint_mark_def\<close>)
qed

lemma GenInlinedIndexOf_resume:
  assumes "GenInlinedIndexOf cg info zero_based c = Inr (True, info', c')"
    and "lp \<in> set (launchpads (drop (length c) c'))"
  shows "\<exists>p r. lp_cont lp = Some p \<and> 0 < p \<and> p < length c'
           \<and> c' ! p = Br (NewLIR0 kPseudoTargetLabel) \<and> c' ! (p - 1) = Op (OpReg kOpBlx r)"
proof -
  from assms(1) obtain rl_obj rl_char rl_start where m: "isa cg \<noteq> kMips"
    and a: "arg_at info 0 = Inr rl_obj" "arg_at info 1 = Inr rl_char"
    and nc: "\<not> (is_const rl_char \<and> (ConstantValue cg rl_char AND NOT 0xFFFF) \<noteq> 0)"
    and s: "zero_based \<or> arg_at info 2 = Inr rl_start"
    by (rule GenInlinedIndexOf_handled)
  show ?thesis
  proof (cases zero_based; cases "is_const rl_char";
         cases "location (result info) = kLocInvalid")
  qed (use assms m a nc s in \<open>auto simp: GenInlinedIndexOf_def Let_def intrinsic_helper_defs
         launchpads_def nth_append\<close>)
qed

lemma GenInlinedIndexOf_registers:
  assumes "GenInlinedIndexOf cg info zero_based c = Inr (True, info', c')"
    and "arg_at info 1 = Inr rl_char" and "\<not> is_const rl_char"
  shows "length (launchpads (drop (length c) c')) = 1"
proof -
  from assms(1) obtain rl_obj rl_char' rl_start where m: "isa cg \<noteq> kMips"
    and a: "arg_at info 0 = Inr rl_obj" "arg_at info 1 = Inr rl_char'"
    and nc: "\<not> (is_const rl_char' \<and> (ConstantValue cg rl_char' AND NOT 0xFFFF) \<noteq> 0)"
    and s: "zero_based \<or> arg_at info 2 = Inr rl_start"
    by (rule GenInlinedIndexOf_handled)
  show ?thesis
  proof (cases zero_based; cases "location (result info) = kLocInvalid")
  qed (use assms m a s in \<open>auto simp: GenInlinedIndexOf_def Let_def intrinsic_helper_defs
         launchpads_def\<close>)
qed

lemma GenInlinedStringCompareTo_call:
  assumes "GenInlinedStringCompareTo cg info c = Inr (True, info', c')"
  shows "\<exists>new call. c' = c @ new \<and> filter is_call new = [call]
           \<and> filter is_safepoint_mark new = []"
  using assms
  by (auto simp: GenInlinedStringCompareTo_def Let_def intrinsic_helper_defs is_call_def
        is_safepoint_mark_def split: if_splits sum.splits prod.splits)

lemma mips_declines:
  assumes "isa cg = kMips" and "i \<noteq> CurrentThread"
  shows "GenInlined i cg info c = Inr (False, info, c)"
  using assms
  by (cases i)
     (simp_all add: GenInlinedCharAt_def GenInlinedStringIsEmptyOrLength_def
        GenInlinedReverseBytes_def GenInlinedAbsInt_def GenInlinedAbsLong_def
        GenInlinedAbsFloat_def GenInlinedAbsDouble_def GenInlinedFloatCvt_def
        GenInlinedDoubleCvt_def GenInlinedIndexOf_def GenInlinedStringCompareTo_def
        GenInlinedUnsafeGet_def GenInlinedUnsafePut_def)

lemma IndexOf_declines:
  assumes "arg_at info 0 = Inr rl_obj" and "arg_at info 1 = Inr rl_char"
    and "is_const rl_char" and "(ConstantValue cg rl_char AND NOT 0xFFFF) \<noteq> 0"
  shows "GenInlinedIndexOf cg info zero_based c = Inr (False, info, c)"
  using assms by (simp add: GenInlinedIndexOf_def)

lemma GenInvoke_fallback:
  assumes "gen_intrinsic info c = Inr (False, info, c)"
  shows "GenInvoke cg gen_intrinsic info c = GenInvokeNoInline cg info c"
  using assms by (simp add: GenInvoke_def)

lemma GenInlinedCharAt_launchpads:
  "case GenInlinedCharAt cg info c of
     Inl e \<Rightarrow> True
   | Inr (h, info', c') \<Rightarrow>
       prefix c c' \<and> list_all (\<lambda>lp. lp_cont lp = None) (launchpads (drop (length c) c'))"
  by (simp add: GenInlinedCharAt_def Let_def intrinsic_helper_defs launchpads_def
        split: sum.split prod.split)

lemma GenInlinedStringCompareTo_launchpads:
  "case GenInlinedStringCompareTo cg info c of
     Inl e \<Rightarrow> True
   | Inr (h, info', c') \<Rightarrow>
       prefix c c' \<and> list_all (\<lambda>lp. lp_cont lp = None) (launchpads (drop (length c) c'))
       \<and> (h \<longrightarrow> length (launchpads (drop (length c) c')) = 1)"
  by (simp add: GenInlinedStringCompareTo_def Let_def intrinsic_helper_defs launchpads_def
        split: sum.split prod.split)

section \<open>Launchpads, declined intrinsics and safepoints\<close>

lemmas invoke_example_defs = example_info2_def example_arg_def GenInvokeNoInline_def
  GenInvokeNoInline_drain.simps select_next_call_insn_def invoke_call_inst_def
  invoke_result_handling_def GenDalvikArgsNoRange_def GenDalvikArgsNoRange_loop.simps
  GenDalvikArgsNoRange_stack_def LoadArgRegs_def LoadArgRegs_loop.simps Next_defs Let_def

lemma invoke_example_result:
  "GenInvokeNoInline (example_cg a) (example_info2\<lparr>opt_flags := f\<rparr>) [] =
   Inr (example_info2\<lparr>opt_flags := f\<rparr>,
     [RA FlushAllRegs, RA LockCallTemps, Mark (ProcessedInvoke kVirtual 0),
      Mem (LoadWordDisp 9 400 14), Mem (LoadConstant 0 5),
      Val (UpdateRawLoc (example_arg 0)), Val (LoadValueDirectFixed (example_arg 0) 1),
      Val (UpdateRawLoc (example_arg 1)), Val (LoadValueDirectFixed (example_arg 1) 2),
      Op (OpReg kOpBlx 14), Mark (MarkSafepointPC 9), RA ClobberCallerSave])"
  if "a \<noteq> kX86"
  using that by (simp add: invoke_example_defs example_defs)

lemma launchpad_example_result:
  "Compile (example_cg kThumb2)
     (IntrinsicLaunchpadPath (example_info2\<lparr>opt_flags := 1\<rparr>) 0 (Some b) resume) [] =
   Inr (example_info2\<lparr>opt_flags := 1\<rparr>,
     [RA ResetRegPool, RA ResetDefTracking, Br (GenerateTargetLabel (Some b)),
      Br (SetOpcode 2 kPseudoIntrinsicRetry),
      RA FlushAllRegs, RA LockCallTemps, Mark (ProcessedInvoke kVirtual 0),
      Mem (LoadWordDisp 9 400 14), Mem (LoadConstant 0 5),
      Val (UpdateRawLoc (example_arg 0)), Val (LoadValueDirectFixed (example_arg 0) 1),
      Val (UpdateRawLoc (example_arg 1)), Val (LoadValueDirectFixed (example_arg 1) 2),
      Op (OpReg kOpBlx 14), Mark (MarkSafepointPC 13), RA ClobberCallerSave]
     @ (case resume of Some l \<Rightarrow> [Br (OpUnconditionalBranch l)] | None \<Rightarrow> []))"
  by (cases resume) (simp_all add: Compile_def invoke_example_defs example_defs)

lemma indexof_example_result:
  "GenInlinedIndexOf (example_cg kThumb2) example_info2 True [] =
   Inr (True, example_info2\<lparr>opt_flags := 1\<rparr>,
     [RA ClobberCallerSave, RA LockCallTemps,
      Val (LoadValueDirectFixed (example_arg 0) 0),
      Val (LoadValueDirectFixed (example_arg 1) 1), Mem (LoadConstant 2 0),
      RA (LoadHelper (QUICK_ENTRYPOINT_OFFSET pIndexOf)), Mark (GenNullCheck 0 0),
      Br (OpCmpImmBranch kCondGt 1 65535 None), Op (OpReg kOpBlx 5),
      Br (NewLIR0 kPseudoTargetLabel),
      AddSlowPath (IntrinsicLaunchpadPath (example_info2\<lparr>opt_flags := 1\<rparr>) 0
                     (Some 7) (Some 9)),
      Val (GetReturn False), Val (GetReturn False),
      Val (StoreValue (example_loc\<lparr>location := kLocPhysReg\<rparr>)
                      (example_loc\<lparr>location := kLocPhysReg\<rparr>))])"
  by (simp add: GenInlinedIndexOf_def intrinsic_helper_defs Let_def example_info2_def
        example_arg_def example_defs)

lemma compareto_example_result:
  "GenInlinedStringCompareTo (example_cg kThumb2) example_info2 [] =
   Inr (True, example_info2\<lparr>opt_flags := 1\<rparr>,
     [RA ClobberCallerSave, RA LockCallTemps,
      Val (LoadValueDirectFixed (example_arg 0) 0),
      Val (LoadValueDirectFixed (example_arg 1) 1),
      RA (LoadHelper (QUICK_ENTRYPOINT_OFFSET pStringCompareTo)), Mark (GenNullCheck 0 0),
      Br (OpCmpImmBranch kCondEq 1 0 None),
      AddSlowPath (IntrinsicLaunchpadPath (example_info2\<lparr>opt_flags := 1\<rparr>) 0
                     (Some 6) None),
      Op (OpReg kOpBlx 5), Val (GetReturn False), Val (GetReturn False),
      Val (StoreValue (example_loc\<lparr>location := kLocPhysReg\<rparr>)
                      (example_loc\<lparr>location := kLocPhysReg\<rparr>))])"
  by (simp add: GenInlinedStringCompareTo_def intrinsic_helper_defs Let_def example_info2_def
        example_arg_def example_defs)

lemma charat_example_launchpads:
  "\<exists>c'. GenInlinedCharAt (example_cg kThumb2) example_info2 [] =
          Inr (True, example_info2\<lparr>opt_flags := 1\<rparr>, c')
      \<and> launchpads c' =
          [IntrinsicLaunchpadPath (example_info2\<lparr>opt_flags := 1\<rparr>) 0 (Some 13) None]"
  by (simp add: GenInlinedCharAt_def intrinsic_helper_defs Let_def example_info2_def
        example_arg_def example_defs launchpads_def)

lemma GenInvokeNoInline_prefix:
  assumes "GenInvokeNoInline cg info c = Inr (info', c')"
  shows "prefix c c'"
proof -
  from assms obtain c4 where
    p: "prefix (c @ [RA FlushAllRegs, RA LockCallTemps,
                  Mark (ProcessedInvoke (GetInvokeType (GetMethodLoweringInfo cg (mir info)))
                          (StatsFlags (GetMethodLoweringInfo cg (mir info))))]) c4"
    and e: "c' = c4 @ [invoke_call_inst cg (GetMethodLoweringInfo cg (mir info)),
                Mark (MarkSafepointPC (length c4)), RA ClobberCallerSave]
             @ invoke_result_handling cg info
                 (c4 @ [invoke_call_inst cg (GetMethodLoweringInfo cg (mir info)),
                        Mark (MarkSafepointPC (length c4)), RA ClobberCallerSave])"
    and "info' = info\<lparr>invoke_type := GetSharpType (GetMethodLoweringInfo cg (mir info))\<rparr>"
    by (rule GenInvokeNoInline_structure)
  from p have "prefix c c4" by (rule append_prefixD)
  moreover from e have "prefix c4 c'" by simp
  ultimately show ?thesis by (rule prefix_order.trans)
qed

lemma is_call_invoke_call_inst: "is_call (invoke_call_inst cg mi)"
  by (simp add: invoke_call_inst_def is_call_def)

lemma invoke_result_handling_no_call:
  "filter is_call (invoke_result_handling cg info c6) = []"
  "filter is_safepoint_mark (invoke_result_handling cg info c6) = []"
  by (simp_all add: invoke_result_handling_def is_call_def is_safepoint_mark_def)

text \<open>
  C7 (as stated, refuted).  The launchpad that the \<open>String.charAt\<close> fast path registers
  for its range check has no resume label (\<open>AddIntrinsicLaunchpad\<close> is called without
  one, and \<open>resume\<close> defaults to \<open>nullptr\<close>).  Compiling it emits the two resets, the
  retry label and the full invoke, and then, \<open>cont_\<close> being null, no jump back: the list
  ends with the invoke's \<open>ClobberCallerSave\<close>.
\<close>

theorem C7_counterexample:
  "(case GenInlinedCharAt (example_cg kThumb2) example_info2 [] of
      Inl e \<Rightarrow> []
    | Inr (handled, info', c') \<Rightarrow> launchpads c')
     = [IntrinsicLaunchpadPath (example_info2\<lparr>opt_flags := 1\<rparr>) 0 (Some 13) None]
   \<and> Compile (example_cg kThumb2)
       (IntrinsicLaunchpadPath (example_info2\<lparr>opt_flags := 1\<rparr>) 0 (Some 13) None) [] =
     Inr (example_info2\<lparr>opt_flags := 1\<rparr>,
       [RA ResetRegPool, RA ResetDefTracking, Br (GenerateTargetLabel (Some 13)),
        Br (SetOpcode 2 kPseudoIntrinsicRetry),
        RA FlushAllRegs, RA LockCallTemps, Mark (ProcessedInvoke kVirtual 0),
        Mem (LoadWordDisp 9 400 14), Mem (LoadConstant 0 5),
        Val (UpdateRawLoc (example_arg 0)), Val (LoadValueDirectFixed (example_arg 0) 1),
        Val (UpdateRawLoc (example_arg 1)), Val (LoadValueDirectFixed (example_arg 1) 2),
        Op (OpReg kOpBlx 14), Mark (MarkSafepointPC 13), RA ClobberCallerSave])"
proof -
  from charat_example_launchpads obtain c' where
    "GenInlinedCharAt (example_cg kThumb2) example_info2 [] =
       Inr (True, example_info2\<lparr>opt_flags := 1\<rparr>, c')"
    "launchpads c' =
       [IntrinsicLaunchpadPath (example_info2\<lparr>opt_flags := 1\<rparr>) 0 (Some 13) None]"
    by blast
  then show ?thesis
    by (simp add: launchpad_example_result [of 13 None])
qed

text \<open>
  C7 (amended).  A launchpad, when compiled, first resets the register pool and the
  definition tracking, places its retry label, and re-issues the operation as a full
  non-inlined invocation; it then jumps back to its resume label if it was registered
  with one, and emits nothing more if it was not.  The launchpad of \<open>String.indexOf\<close>
  is registered with a resume label, which is the instruction right after the fast
  path's helper call, so that control merges into the fast path's handling of the result;
  the launchpads of \<open>String.charAt\<close> and \<open>String.compareTo\<close> are registered without
  one.
\<close>

theorem C7_launchpad_resumes_at_registered_label:
  "(\<forall>info' c'. Compile cg lp c = Inr (info', c') \<longrightarrow>
      (\<exists>mid. GenInvokeNoInline cg (lp_info lp)
                (c @ [RA ResetRegPool, RA ResetDefTracking,
                      Br (GenerateTargetLabel (lp_fromfast lp)),
                      Br (SetOpcode (length c + 2) kPseudoIntrinsicRetry)]) = Inr (info', mid)
         \<and> prefix (c @ [RA ResetRegPool, RA ResetDefTracking,
                         Br (GenerateTargetLabel (lp_fromfast lp)),
                         Br (SetOpcode (length c + 2) kPseudoIntrinsicRetry)]) mid
         \<and> c' = mid @ (case lp_cont lp of
                          Some l \<Rightarrow> [Br (OpUnconditionalBranch l)]
                        | None \<Rightarrow> [])))
   \<and> (\<forall>info' c' lp'. GenInlinedIndexOf cg info zero_based c = Inr (True, info', c')
          \<and> lp' \<in> set (launchpads (drop (length c) c')) \<longrightarrow>
        (\<exists>p r. lp_cont lp' = Some p \<and> 0 < p \<and> p < length c'
           \<and> c' ! p = Br (NewLIR0 kPseudoTargetLabel) \<and> c' ! (p - 1) = Op (OpReg kOpBlx r)))
   \<and> (\<forall>handled info' c' lp'. GenInlinedCharAt cg info c = Inr (handled, info', c')
          \<and> lp' \<in> set (launchpads (drop (length c) c')) \<longrightarrow> lp_cont lp' = None)
   \<and> (\<forall>handled info' c' lp'. GenInlinedStringCompareTo cg info c = Inr (handled, info', c')
          \<and> lp' \<in> set (launchpads (drop (length c) c')) \<longrightarrow> lp_cont lp' = None)"
proof (intro conjI allI impI)
  fix info' c'
  assume a: "Compile cg lp c = Inr (info', c')"
  let ?c2 = "c @ [RA ResetRegPool, RA ResetDefTracking,
                  Br (GenerateTargetLabel (lp_fromfast lp)),
                  Br (SetOpcode (length c + 2) kPseudoIntrinsicRetry)]"
  from a obtain mid where g: "GenInvokeNoInline cg (lp_info lp) ?c2 = Inr (info', mid)"
    and e: "c' = mid @ (case lp_cont lp of
                          Some l \<Rightarrow> [Br (OpUnconditionalBranch l)]
                        | None \<Rightarrow> [])"
    by (auto simp: Compile_def Let_def split: sum.splits option.splits)
  from g have "prefix ?c2 mid" by (rule GenInvokeNoInline_prefix)
  with g e show "\<exists>mid. GenInvokeNoInline cg (lp_info lp) ?c2 = Inr (info', mid)
         \<and> prefix ?c2 mid
         \<and> c' = mid @ (case lp_cont lp of
                          Some l \<Rightarrow> [Br (OpUnconditionalBranch l)]
                        | None \<Rightarrow> [])"
    by blast
next
  fix info' c' lp'
  assume "GenInlinedIndexOf cg info zero_based c = Inr (True, info', c')
          \<and> lp' \<in> set (launchpads (drop (length c) c'))"
  then show "\<exists>p r. lp_cont lp' = Some p \<and> 0 < p \<and> p < length c'
           \<and> c' ! p = Br (NewLIR0 kPseudoTargetLabel) \<and> c' ! (p - 1) = Op (OpReg kOpBlx r)"
    using GenInlinedIndexOf_resume by blast
next
  fix handled info' c' lp'
  assume "GenInlinedCharAt cg info c = Inr (handled, info', c')
          \<and> lp' \<in> set (launchpads (drop (length c) c'))"
  then show "lp_cont lp' = None"
    using GenInlinedCharAt_launchpads [where cg = cg and info = info and c = c] by (simp add: list_all_iff)
next
  fix handled info' c' lp'
  assume "GenInlinedStringCompareTo cg info c = Inr (handled, info', c')
          \<and> lp' \<in> set (launchpads (drop (length c) c'))"
  then show "lp_cont lp' = None"
    using GenInlinedStringCompareTo_launchpads [where cg = cg and info = info and c = c] by (simp add: list_all_iff)
qed

theorem C7_launchpad_witness:
  "Compile (example_cg kThumb2)
     (IntrinsicLaunchpadPath (example_info2\<lparr>opt_flags := 1\<rparr>) 0 (Some 7) (Some 9)) [] =
   Inr (example_info2\<lparr>opt_flags := 1\<rparr>,
     [RA ResetRegPool, RA ResetDefTracking, Br (GenerateTargetLabel (Some 7)),
      Br (SetOpcode 2 kPseudoIntrinsicRetry),
      RA FlushAllRegs, RA LockCallTemps, Mark (ProcessedInvoke kVirtual 0),
      Mem (LoadWordDisp 9 400 14), Mem (LoadConstant 0 5),
      Val (UpdateRawLoc (example_arg 0)), Val (LoadValueDirectFixed (example_arg 0) 1),
      Val (UpdateRawLoc (example_arg 1)), Val (LoadValueDirectFixed (example_arg 1) 2),
      Op (OpReg kOpBlx 14), Mark (MarkSafepointPC 13), RA ClobberCallerSave,
      Br (OpUnconditionalBranch 9)])
   \<and> (\<exists>mid. GenInvokeNoInline (example_cg kThumb2) (example_info2\<lparr>opt_flags := 1\<rparr>)
               [RA ResetRegPool, RA ResetDefTracking, Br (GenerateTargetLabel (Some 7)),
                Br (SetOpcode 2 kPseudoIntrinsicRetry)]
             = Inr (example_info2\<lparr>opt_flags := 1\<rparr>, mid)
          \<and> mid @ [Br (OpUnconditionalBranch 9)] =
            [RA ResetRegPool, RA ResetDefTracking, Br (GenerateTargetLabel (Some 7)),
             Br (SetOpcode 2 kPseudoIntrinsicRetry),
             RA FlushAllRegs, RA LockCallTemps, Mark (ProcessedInvoke kVirtual 0),
             Mem (LoadWordDisp 9 400 14), Mem (LoadConstant 0 5),
             Val (UpdateRawLoc (example_arg 0)), Val (LoadValueDirectFixed (example_arg 0) 1),
             Val (UpdateRawLoc (example_arg 1)), Val (LoadValueDirectFixed (example_arg 1) 2),
             Op (OpReg kOpBlx 14), Mark (MarkSafepointPC 13), RA ClobberCallerSave,
             Br (OpUnconditionalBranch 9)])
   \<and> (\<exists>c' p r. GenInlinedIndexOf (example_cg kThumb2) example_info2 True [] =
                  Inr (True, example_info2\<lparr>opt_flags := 1\<rparr>, c')
          \<and> IntrinsicLaunchpadPath (example_info2\<lparr>opt_flags := 1\<rparr>) 0 (Some 7) (Some 9)
              \<in> set (launchpads c')
          \<and> Some (9 :: nat) = Some p \<and> c' ! p = Br (NewLIR0 kPseudoTargetLabel)
          \<and> c' ! (p - 1) = Op (OpReg kOpBlx r))
   \<and> (\<exists>c'. GenInlinedCharAt (example_cg kThumb2) example_info2 [] =
                  Inr (True, example_info2\<lparr>opt_flags := 1\<rparr>, c')
          \<and> IntrinsicLaunchpadPath (example_info2\<lparr>opt_flags := 1\<rparr>) 0 (Some 13) None
              \<in> set (launchpads c'))"
proof -
  let ?cg = "example_cg kThumb2"
  let ?info = "example_info2\<lparr>opt_flags := 1\<rparr>"
  let ?lp = "IntrinsicLaunchpadPath ?info 0 (Some 7) (Some 9)"
  note thm1 = C7_launchpad_resumes_at_registered_label
    [of ?cg ?lp "[]" example_info2 True, THEN conjunct1, rule_format]
  note thm2 = C7_launchpad_resumes_at_registered_label
    [of ?cg ?lp "[]" example_info2 True, THEN conjunct2, THEN conjunct1, rule_format]
  note thm3 = C7_launchpad_resumes_at_registered_label
    [of ?cg ?lp "[]" example_info2 True, THEN conjunct2, THEN conjunct2, THEN conjunct1,
     rule_format]
  have r: "Compile ?cg ?lp [] = Inr (?info,
     [RA ResetRegPool, RA ResetDefTracking, Br (GenerateTargetLabel (Some 7)),
      Br (SetOpcode 2 kPseudoIntrinsicRetry),
      RA FlushAllRegs, RA LockCallTemps, Mark (ProcessedInvoke kVirtual 0),
      Mem (LoadWordDisp 9 400 14), Mem (LoadConstant 0 5),
      Val (UpdateRawLoc (example_arg 0)), Val (LoadValueDirectFixed (example_arg 0) 1),
      Val (UpdateRawLoc (example_arg 1)), Val (LoadValueDirectFixed (example_arg 1) 2),
      Op (OpReg kOpBlx 14), Mark (MarkSafepointPC 13), RA ClobberCallerSave,
      Br (OpUnconditionalBranch 9)])"
    by (simp add: launchpad_example_result [of 7 "Some 9"])
  from thm1 [OF r] have one: "\<exists>mid. GenInvokeNoInline ?cg ?info
               [RA ResetRegPool, RA ResetDefTracking, Br (GenerateTargetLabel (Some 7)),
                Br (SetOpcode 2 kPseudoIntrinsicRetry)]
             = Inr (?info, mid)
          \<and> mid @ [Br (OpUnconditionalBranch 9)] =
            [RA ResetRegPool, RA ResetDefTracking, Br (GenerateTargetLabel (Some 7)),
             Br (SetOpcode 2 kPseudoIntrinsicRetry),
             RA FlushAllRegs, RA LockCallTemps, Mark (ProcessedInvoke kVirtual 0),
             Mem (LoadWordDisp 9 400 14), Mem (LoadConstant 0 5),
             Val (UpdateRawLoc (example_arg 0)), Val (LoadValueDirectFixed (example_arg 0) 1),
             Val (UpdateRawLoc (example_arg 1)), Val (LoadValueDirectFixed (example_arg 1) 2),
             Op (OpReg kOpBlx 14), Mark (MarkSafepointPC 13), RA ClobberCallerSave,
             Br (OpUnconditionalBranch 9)]"
    by (auto simp: numeral_2_eq_2)
  have m: "?lp \<in> set (launchpads (drop (length ([] :: lir list))
     [RA ClobberCallerSave, RA LockCallTemps,
      Val (LoadValueDirectFixed (example_arg 0) 0),
      Val (LoadValueDirectFixed (example_arg 1) 1), Mem (LoadConstant 2 0),
      RA (LoadHelper (QUICK_ENTRYPOINT_OFFSET pIndexOf)), Mark (GenNullCheck 0 0),
      Br (OpCmpImmBranch kCondGt 1 65535 None), Op (OpReg kOpBlx 5),
      Br (NewLIR0 kPseudoTargetLabel),
      AddSlowPath ?lp,
      Val (GetReturn False), Val (GetReturn False),
      Val (StoreValue (example_loc\<lparr>location := kLocPhysReg\<rparr>)
                      (example_loc\<lparr>location := kLocPhysReg\<rparr>))]))"
    by (simp add: launchpads_def)
  from thm2 [OF conjI [OF indexof_example_result m]]
  have two: "\<exists>c' p r. GenInlinedIndexOf ?cg example_info2 True [] = Inr (True, ?info, c')
          \<and> ?lp \<in> set (launchpads c')
          \<and> Some (9 :: nat) = Some p \<and> c' ! p = Br (NewLIR0 kPseudoTargetLabel)
          \<and> c' ! (p - 1) = Op (OpReg kOpBlx r)"
    using indexof_example_result m by auto
  from charat_example_launchpads obtain c' where
    c: "GenInlinedCharAt ?cg example_info2 [] = Inr (True, ?info, c')"
    and l: "launchpads c' = [IntrinsicLaunchpadPath ?info 0 (Some 13) None]"
    by blast
  from l have "IntrinsicLaunchpadPath ?info 0 (Some 13) None
      \<in> set (launchpads (drop (length ([] :: lir list)) c'))"
    by simp
  with c have three: "\<exists>c'. GenInlinedCharAt ?cg example_info2 [] = Inr (True, ?info, c')
          \<and> IntrinsicLaunchpadPath ?info 0 (Some 13) None \<in> set (launchpads c')"
    using thm3 [of True ?info c' "IntrinsicLaunchpadPath ?info 0 (Some 13) None"] by auto
  from r one two three show ?thesis by blast
qed

lemma GenInlined_declines_silently:
  assumes "GenInlined i cg info c = Inr (False, info', c')"
  shows "info' = info \<and> c' = c"
proof -
  have "case GenInlined i cg info c of Inl e \<Rightarrow> True
        | Inr (h, info', c') \<Rightarrow> h \<or> (info' = info \<and> c' = c)"
  proof (cases i)
    case CharAt
    then show ?thesis
      by (simp add: GenInlinedCharAt_def Let_def intrinsic_helper_defs
            split: sum.split prod.split)
  next
    case (StringIsEmptyOrLength b)
    then show ?thesis
      by (simp add: GenInlinedStringIsEmptyOrLength_def Let_def intrinsic_helper_defs
            split: sum.split prod.split)
  next
    case (ReverseBytes sz)
    then show ?thesis
      by (simp add: GenInlinedReverseBytes_def Let_def intrinsic_helper_defs
            split: sum.split prod.split)
  next
    case AbsInt
    then show ?thesis
      by (simp add: GenInlinedAbsInt_def Let_def intrinsic_helper_defs
            split: sum.split prod.split)
  next
    case AbsLong
    then show ?thesis
      by (simp add: GenInlinedAbsLong_def Let_def intrinsic_helper_defs
            split: sum.split prod.split)
  next
    case AbsFloat
    then show ?thesis
      by (simp add: GenInlinedAbsFloat_def Let_def intrinsic_helper_defs
            split: sum.split prod.split)
  next
    case AbsDouble
    then show ?thesis
      by (simp add: GenInlinedAbsDouble_def Let_def intrinsic_helper_defs
            split: sum.split prod.split)
  next
    case FloatCvt
    then show ?thesis
      by (simp add: GenInlinedFloatCvt_def Let_def intrinsic_helper_defs
            split: sum.split prod.split)
  next
    case DoubleCvt
    then show ?thesis
      by (simp add: GenInlinedDoubleCvt_def Let_def intrinsic_helper_defs
            split: sum.split prod.split)
  next
    case (IndexOf zb)
    then show ?thesis
      by (simp add: GenInlinedIndexOf_def Let_def intrinsic_helper_defs
            split: sum.split prod.split)
  next
    case StringCompareTo
    then show ?thesis
      by (simp add: GenInlinedStringCompareTo_def Let_def intrinsic_helper_defs
            split: sum.split prod.split)
  next
    case CurrentThread
    then show ?thesis
      by (simp add: GenInlinedCurrentThread_def Let_def intrinsic_helper_defs
            split: sum.split prod.split)
  next
    case (UnsafeGet l v)
    then show ?thesis
      by (simp add: GenInlinedUnsafeGet_def Let_def intrinsic_helper_defs
            split: sum.split prod.split)
  next
    case (UnsafePut l ob v ord)
    then show ?thesis
      by (simp add: GenInlinedUnsafePut_def Let_def intrinsic_helper_defs
            split: sum.split prod.split)
  qed
  with assms show ?thesis by simp
qed

text \<open>
  C8 (as stated, refuted).  On MIPS the intrinsic for \<open>Thread.currentThread\<close> does not
  decline: \<open>GenInlinedCurrentThread\<close> has a branch for Thumb2 and MIPS, emits the load of
  the thread's peer and returns \<open>true\<close>.  So not every intrinsic declines on the MIPS
  target.
\<close>

theorem C8_counterexample:
  "GenInlined CurrentThread (example_cg kMips) example_info [] =
   Inr (True, example_info,
     [Val (GetReturn False),
      Val (EvalLoc (example_loc\<lparr>location := kLocPhysReg\<rparr>) kCoreReg True),
      Mem (LoadWordDisp 9 120 6),
      Val (StoreValue (example_loc\<lparr>location := kLocPhysReg\<rparr>)
             (example_loc\<lparr>location := kLocPhysReg, reg := k32BitSolo 6\<rparr>))])"
  by (simp add: GenInlinedCurrentThread_def intrinsic_helper_defs Let_def example_defs)

text \<open>
  C8 (amended).  On the MIPS target every intrinsic routine of this file other than the
  one for \<open>Thread.currentThread\<close> returns the declination signal (false), and so does
  the string search on every target when its search character is a constant with a bit
  above \<open>0xFFFF\<close>.  An intrinsic routine that returns false has emitted nothing and has
  left the call descriptor as it was, and the invocation driver then performs the standard
  non-inlined lowering: its result, error or not, is that of \<open>GenInvokeNoInline\<close>, so a
  declination adds no error of its own.  (The dispatcher \<open>GenIntrinsic\<close> is not part of
  this file; the driver is stated for any routine \<open>gen_intrinsic\<close> that declines, and
  for each intrinsic routine of the file.)
\<close>

theorem C8_declined_intrinsic_falls_back:
  "(isa cg = kMips \<and> i \<noteq> CurrentThread \<longrightarrow> GenInlined i cg info c = Inr (False, info, c))
   \<and> (arg_at info 0 = Inr rl_obj \<and> arg_at info 1 = Inr rl_char \<and> is_const rl_char
        \<and> (ConstantValue cg rl_char AND NOT 0xFFFF) \<noteq> 0 \<longrightarrow>
      GenInlinedIndexOf cg info zero_based c = Inr (False, info, c))
   \<and> (\<forall>info' c'. GenInlined i cg info c = Inr (False, info', c') \<longrightarrow>
        info' = info \<and> c' = c
        \<and> GenInvoke cg (GenInlined i cg) info c = GenInvokeNoInline cg info c)
   \<and> (\<forall>gen_intrinsic. gen_intrinsic info c = Inr (False, info, c) \<longrightarrow>
        GenInvoke cg gen_intrinsic info c = GenInvokeNoInline cg info c)"
proof (intro conjI allI impI)
  assume "isa cg = kMips \<and> i \<noteq> CurrentThread"
  then show "GenInlined i cg info c = Inr (False, info, c)"
    by (simp add: mips_declines)
next
  assume "arg_at info 0 = Inr rl_obj \<and> arg_at info 1 = Inr rl_char \<and> is_const rl_char
        \<and> (ConstantValue cg rl_char AND NOT 0xFFFF) \<noteq> 0"
  then show "GenInlinedIndexOf cg info zero_based c = Inr (False, info, c)"
    by (simp add: IndexOf_declines)
next
  fix info' c'
  assume a: "GenInlined i cg info c = Inr (False, info', c')"
  then show "info' = info" and "c' = c"
    by (simp_all add: GenInlined_declines_silently)
  with a show "GenInvoke cg (GenInlined i cg) info c = GenInvokeNoInline cg info c"
    by (simp add: GenInvoke_fallback)
next
  fix gen_intrinsic :: "CallInfo \<Rightarrow> lir list \<Rightarrow> error + (bool \<times> CallInfo \<times> lir list)"
  assume "gen_intrinsic info c = Inr (False, info, c)"
  then show "GenInvoke cg gen_intrinsic info c = GenInvokeNoInline cg info c"
    by (rule GenInvoke_fallback)
qed

theorem C8_declined_intrinsic_witness:
  "GenInlined CharAt (example_cg kMips) example_info2 [] = Inr (False, example_info2, [])
   \<and> GenInlinedIndexOf ((example_cg kThumb2)\<lparr>ConstantValue := \<lambda>l. 0x10000\<rparr>)
       (example_info2\<lparr>args := [example_arg 0, (example_arg 1)\<lparr>is_const := True\<rparr>]\<rparr>) True []
     = Inr (False,
         example_info2\<lparr>args := [example_arg 0, (example_arg 1)\<lparr>is_const := True\<rparr>]\<rparr>, [])
   \<and> GenInvoke (example_cg kMips) (GenInlined CharAt (example_cg kMips)) example_info2 []
     = Inr (example_info2,
         [RA FlushAllRegs, RA LockCallTemps, Mark (ProcessedInvoke kVirtual 0),
          Mem (LoadWordDisp 9 400 14), Mem (LoadConstant 0 5),
          Val (UpdateRawLoc (example_arg 0)), Val (LoadValueDirectFixed (example_arg 0) 1),
          Val (UpdateRawLoc (example_arg 1)), Val (LoadValueDirectFixed (example_arg 1) 2),
          Op (OpReg kOpBlx 14), Mark (MarkSafepointPC 9), RA ClobberCallerSave])"
proof -
  let ?cg = "example_cg kMips"
  let ?cgc = "(example_cg kThumb2)\<lparr>ConstantValue := \<lambda>l. 0x10000\<rparr>"
  let ?infoc = "example_info2\<lparr>args := [example_arg 0, (example_arg 1)\<lparr>is_const := True\<rparr>]\<rparr>"
  have h1: "isa ?cg = kMips \<and> CharAt \<noteq> CurrentThread"
    by (simp add: example_defs)
  have h2: "arg_at ?infoc 0 = Inr (example_arg 0)
        \<and> arg_at ?infoc 1 = Inr ((example_arg 1)\<lparr>is_const := True\<rparr>)
        \<and> is_const ((example_arg 1)\<lparr>is_const := True\<rparr>)
        \<and> (ConstantValue ?cgc ((example_arg 1)\<lparr>is_const := True\<rparr>) AND NOT 0xFFFF) \<noteq> 0"
    by (simp add: example_defs example_info2_def)
  have r: "GenInvokeNoInline ?cg example_info2 [] = Inr (example_info2,
         [RA FlushAllRegs, RA LockCallTemps, Mark (ProcessedInvoke kVirtual 0),
          Mem (LoadWordDisp 9 400 14), Mem (LoadConstant 0 5),
          Val (UpdateRawLoc (example_arg 0)), Val (LoadValueDirectFixed (example_arg 0) 1),
          Val (UpdateRawLoc (example_arg 1)), Val (LoadValueDirectFixed (example_arg 1) 2),
          Op (OpReg kOpBlx 14), Mark (MarkSafepointPC 9), RA ClobberCallerSave])"
    using invoke_example_result [of kMips 0] by (simp add: example_info2_def example_defs)
  note t = C8_declined_intrinsic_falls_back [of ?cg CharAt example_info2 "[]"]
  have one: "GenInlined CharAt ?cg example_info2 [] = Inr (False, example_info2, [])"
    using t [THEN conjunct1, rule_format, OF h1] .
  have two: "GenInlinedIndexOf ?cgc ?infoc True [] = Inr (False, ?infoc, [])"
    using C8_declined_intrinsic_falls_back [of ?cgc CharAt ?infoc "[]" "example_arg 0"
        "(example_arg 1)\<lparr>is_const := True\<rparr>" True,
        THEN conjunct2, THEN conjunct1, rule_format, OF h2] .
  have three: "GenInvoke ?cg (GenInlined CharAt ?cg) example_info2 []
       = GenInvokeNoInline ?cg example_info2 []"
    using t [THEN conjunct2, THEN conjunct2, THEN conjunct1, rule_format, OF one] by simp
  from one two three r show ?thesis by simp
qed

text \<open>
  C9.  The fast paths of \<open>String.indexOf\<close> and \<open>String.compareTo\<close>, when they handle
  the call, emit exactly one call instruction (the call of the runtime helper) and no
  \<open>MarkSafepointPC\<close> at all.  The full invocation path, whenever it returns, has emitted
  its call instruction immediately followed by \<open>MarkSafepointPC\<close> of that instruction,
  and no call instruction after it.  (The copy of a range call's stack arguments on
  Thumb2 and MIPS calls \<open>memcpy\<close> before that; this is not the invoke's call
  instruction, and it is before the marked one.)
\<close>

theorem C9_helper_call_has_no_safepoint:
  "(\<forall>info' c'. GenInlinedIndexOf cg info zero_based c = Inr (True, info', c') \<longrightarrow>
      (\<exists>new r. c' = c @ new \<and> filter is_call new = [Op (OpReg kOpBlx r)]
         \<and> filter is_safepoint_mark new = []))
   \<and> (\<forall>info' c'. GenInlinedStringCompareTo cg info c = Inr (True, info', c') \<longrightarrow>
      (\<exists>new call. c' = c @ new \<and> filter is_call new = [call]
         \<and> filter is_safepoint_mark new = []))
   \<and> (\<forall>info' c'. GenInvokeNoInline cg info c = Inr (info', c') \<longrightarrow>
      (\<exists>c4 rest. prefix c c4
         \<and> c' = c4 @ [invoke_call_inst cg (GetMethodLoweringInfo cg (mir info)),
                      Mark (MarkSafepointPC (length c4))] @ rest
         \<and> is_call (invoke_call_inst cg (GetMethodLoweringInfo cg (mir info)))
         \<and> c' ! length c4 = invoke_call_inst cg (GetMethodLoweringInfo cg (mir info))
         \<and> filter is_call rest = []))"
proof (intro conjI allI impI)
  fix info' c'
  assume "GenInlinedIndexOf cg info zero_based c = Inr (True, info', c')"
  then have "prefix c c' \<and> (\<exists>r. filter is_call (drop (length c) c') = [Op (OpReg kOpBlx r)])
           \<and> filter is_safepoint_mark (drop (length c) c') = []"
    by (rule GenInlinedIndexOf_call)
  then obtain r where p: "prefix c c'"
    and f: "filter is_call (drop (length c) c') = [Op (OpReg kOpBlx r)]"
       "filter is_safepoint_mark (drop (length c) c') = []"
    by blast
  from p have "c' = c @ drop (length c) c'"
    by (auto simp: prefix_def)
  with f show "\<exists>new r. c' = c @ new \<and> filter is_call new = [Op (OpReg kOpBlx r)]
         \<and> filter is_safepoint_mark new = []"
    by blast
next
  fix info' c'
  assume "GenInlinedStringCompareTo cg info c = Inr (True, info', c')"
  then show "\<exists>new call. c' = c @ new \<and> filter is_call new = [call]
         \<and> filter is_safepoint_mark new = []"
    by (rule GenInlinedStringCompareTo_call)
next
  fix info' c'
  let ?mi = "GetMethodLoweringInfo cg (mir info)"
  assume a: "GenInvokeNoInline cg info c = Inr (info', c')"
  then obtain c4 where
    p: "prefix (c @ [RA FlushAllRegs, RA LockCallTemps,
                  Mark (ProcessedInvoke (GetInvokeType ?mi) (StatsFlags ?mi))]) c4"
    and e: "c' = c4 @ [invoke_call_inst cg ?mi,
                Mark (MarkSafepointPC (length c4)), RA ClobberCallerSave]
             @ invoke_result_handling cg info
                 (c4 @ [invoke_call_inst cg ?mi,
                        Mark (MarkSafepointPC (length c4)), RA ClobberCallerSave])"
    and "info' = info\<lparr>invoke_type := GetSharpType ?mi\<rparr>"
    by (rule GenInvokeNoInline_structure)
  let ?rest = "RA ClobberCallerSave # invoke_result_handling cg info
                 (c4 @ [invoke_call_inst cg ?mi,
                        Mark (MarkSafepointPC (length c4)), RA ClobberCallerSave])"
  from p have 1: "prefix c c4" by (rule append_prefixD)
  from e have 2: "c' = c4 @ [invoke_call_inst cg ?mi, Mark (MarkSafepointPC (length c4))] @ ?rest"
    by simp
  have 3: "is_call (invoke_call_inst cg ?mi)" by (rule is_call_invoke_call_inst)
  from 2 have 4: "c' ! length c4 = invoke_call_inst cg ?mi"
    by (simp add: nth_append)
  have 5: "filter is_call ?rest = []"
    by (simp add: invoke_result_handling_no_call) (simp add: is_call_def)
  from 1 2 3 4 5 show "\<exists>c4 rest. prefix c c4
         \<and> c' = c4 @ [invoke_call_inst cg ?mi, Mark (MarkSafepointPC (length c4))] @ rest
         \<and> is_call (invoke_call_inst cg ?mi)
         \<and> c' ! length c4 = invoke_call_inst cg ?mi
         \<and> filter is_call rest = []"
    by blast
qed

theorem C9_helper_call_witness:
  "GenInlinedIndexOf (example_cg kThumb2) example_info2 True [] =
   Inr (True, example_info2\<lparr>opt_flags := 1\<rparr>,
     [RA ClobberCallerSave, RA LockCallTemps,
      Val (LoadValueDirectFixed (example_arg 0) 0),
      Val (LoadValueDirectFixed (example_arg 1) 1), Mem (LoadConstant 2 0),
      RA (LoadHelper (QUICK_ENTRYPOINT_OFFSET pIndexOf)), Mark (GenNullCheck 0 0),
      Br (OpCmpImmBranch kCondGt 1 65535 None), Op (OpReg kOpBlx 5),
      Br (NewLIR0 kPseudoTargetLabel),
      AddSlowPath (IntrinsicLaunchpadPath (example_info2\<lparr>opt_flags := 1\<rparr>) 0
                     (Some 7) (Some 9)),
      Val (GetReturn False), Val (GetReturn False),
      Val (StoreValue (example_loc\<lparr>location := kLocPhysReg\<rparr>)
                      (example_loc\<lparr>location := kLocPhysReg\<rparr>))])
   \<and> (\<exists>new r. [RA ClobberCallerSave, RA LockCallTemps,
      Val (LoadValueDirectFixed (example_arg 0) 0),
      Val (LoadValueDirectFixed (example_arg 1) 1), Mem (LoadConstant 2 0),
      RA (LoadHelper (QUICK_ENTRYPOINT_OFFSET pIndexOf)), Mark (GenNullCheck 0 0),
      Br (OpCmpImmBranch kCondGt 1 65535 None), Op (OpReg kOpBlx 5),
      Br (NewLIR0 kPseudoTargetLabel),
      AddSlowPath (IntrinsicLaunchpadPath (example_info2\<lparr>opt_flags := 1\<rparr>) 0
                     (Some 7) (Some 9)),
      Val (GetReturn False), Val (GetReturn False),
      Val (StoreValue (example_loc\<lparr>location := kLocPhysReg\<rparr>)
                      (example_loc\<lparr>location := kLocPhysReg\<rparr>))] = [] @ new
        \<and> filter is_call new = [Op (OpReg kOpBlx r)] \<and> filter is_safepoint_mark new = [])
   \<and> (\<exists>info' c' new call.
        GenInlinedStringCompareTo (example_cg kThumb2) example_info2 [] = Inr (True, info', c')
        \<and> c' = [] @ new \<and> filter is_call new = [call] \<and> filter is_safepoint_mark new = [])
   \<and> GenInvokeNoInline (example_cg kThumb2) example_info2 [] =
     Inr (example_info2,
       [RA FlushAllRegs, RA LockCallTemps, Mark (ProcessedInvoke kVirtual 0),
        Mem (LoadWordDisp 9 400 14), Mem (LoadConstant 0 5),
        Val (UpdateRawLoc (example_arg 0)), Val (LoadValueDirectFixed (example_arg 0) 1),
        Val (UpdateRawLoc (example_arg 1)), Val (LoadValueDirectFixed (example_arg 1) 2),
        Op (OpReg kOpBlx 14), Mark (MarkSafepointPC 9), RA ClobberCallerSave])
   \<and> (\<exists>c4 rest. [RA FlushAllRegs, RA LockCallTemps, Mark (ProcessedInvoke kVirtual 0),
        Mem (LoadWordDisp 9 400 14), Mem (LoadConstant 0 5),
        Val (UpdateRawLoc (example_arg 0)), Val (LoadValueDirectFixed (example_arg 0) 1),
        Val (UpdateRawLoc (example_arg 1)), Val (LoadValueDirectFixed (example_arg 1) 2),
        Op (OpReg kOpBlx 14), Mark (MarkSafepointPC 9), RA ClobberCallerSave]
         = c4 @ [Op (OpReg kOpBlx 14), Mark (MarkSafepointPC (length c4))] @ rest
        \<and> filter is_call rest = [])"
proof -
  let ?cg = "example_cg kThumb2"
  note t = C9_helper_call_has_no_safepoint [of ?cg example_info2 True "[]"]
  have r: "GenInvokeNoInline ?cg example_info2 [] = Inr (example_info2,
         [RA FlushAllRegs, RA LockCallTemps, Mark (ProcessedInvoke kVirtual 0),
          Mem (LoadWordDisp 9 400 14), Mem (LoadConstant 0 5),
          Val (UpdateRawLoc (example_arg 0)), Val (LoadValueDirectFixed (example_arg 0) 1),
          Val (UpdateRawLoc (example_arg 1)), Val (LoadValueDirectFixed (example_arg 1) 2),
          Op (OpReg kOpBlx 14), Mark (MarkSafepointPC 9), RA ClobberCallerSave])"
    using invoke_example_result [of kThumb2 0] by (simp add: example_info2_def example_defs)
  have i: "invoke_call_inst ?cg (GetMethodLoweringInfo ?cg (mir example_info2))
             = Op (OpReg kOpBlx 14)"
    by (simp add: invoke_call_inst_def example_defs example_info2_def)
  from t [THEN conjunct1, rule_format, OF indexof_example_result]
  have one: "\<exists>new r. [RA ClobberCallerSave, RA LockCallTemps,
      Val (LoadValueDirectFixed (example_arg 0) 0),
      Val (LoadValueDirectFixed (example_arg 1) 1), Mem (LoadConstant 2 0),
      RA (LoadHelper (QUICK_ENTRYPOINT_OFFSET pIndexOf)), Mark (GenNullCheck 0 0),
      Br (OpCmpImmBranch kCondGt 1 65535 None), Op (OpReg kOpBlx 5),
      Br (NewLIR0 kPseudoTargetLabel),
      AddSlowPath (IntrinsicLaunchpadPath (example_info2\<lparr>opt_flags := 1\<rparr>) 0
                     (Some 7) (Some 9)),
      Val (GetReturn False), Val (GetReturn False),
      Val (StoreValue (example_loc\<lparr>location := kLocPhysReg\<rparr>)
                      (example_loc\<lparr>location := kLocPhysReg\<rparr>))] = [] @ new
        \<and> filter is_call new = [Op (OpReg kOpBlx r)] \<and> filter is_safepoint_mark new = []" .
  from t [THEN conjunct2, THEN conjunct1, rule_format, OF compareto_example_result]
  have two: "\<exists>info' c' new call.
        GenInlinedStringCompareTo ?cg example_info2 [] = Inr (True, info', c')
        \<and> c' = [] @ new \<and> filter is_call new = [call] \<and> filter is_safepoint_mark new = []"
    using compareto_example_result by blast
  from t [THEN conjunct2, THEN conjunct2, rule_format, OF r]
  have three: "\<exists>c4 rest. [RA FlushAllRegs, RA LockCallTemps, Mark (ProcessedInvoke kVirtual 0),
        Mem (LoadWordDisp 9 400 14), Mem (LoadConstant 0 5),
        Val (UpdateRawLoc (example_arg 0)), Val (LoadValueDirectFixed (example_arg 0) 1),
        Val (UpdateRawLoc (example_arg 1)), Val (LoadValueDirectFixed (example_arg 1) 2),
        Op (OpReg kOpBlx 14), Mark (MarkSafepointPC 9), RA ClobberCallerSave]
         = c4 @ [Op (OpReg kOpBlx 14), Mark (MarkSafepointPC (length c4))] @ rest
        \<and> filter is_call rest = []"
    unfolding i by blast
  from indexof_example_result one two r three show ?thesis by blast
qed

end
